theory Spec2Isabelle
  imports Main "HOL-Library.Word" "HOL-Library.Sublist"
begin

unbundle bit_operations_syntax

section \<open>The key item of libregf: data model\<close>

text \<open>
  This theory embeds \<^verbatim>\<open>src/libregf/libregf_key_item.c\<close>. Each C function
  becomes a HOL function of the same name. A function that writes through a pointer
  returns the new value of what it wrote; the \<^verbatim>\<open>int\<close> a C function returns
  (\<open>1\<close>, \<open>0\<close>, \<open>-1\<close>) is kept as an \<open>int\<close>.

  Not modelled: the error object (every \<^verbatim>\<open>libcerror_error_set\<close> call only
  describes the failure), the debug output under \<^verbatim>\<open>HAVE_DEBUG_OUTPUT\<close>,
  failure of \<^verbatim>\<open>memory_allocate\<close>, \<^verbatim>\<open>memory_copy\<close> and
  \<^verbatim>\<open>memory_set\<close>, failure of creating or freeing the transient named key and
  security key objects, and the \<^verbatim>\<open>NULL\<close> checks of arguments that are values
  here (\<^verbatim>\<open>key_item\<close>, \<^verbatim>\<open>hive_bins_list\<close>, its IO handle). The platform
  is one with \<^verbatim>\<open>SIZEOF_SIZE_T > 4\<close> and an \<^verbatim>\<open>int\<close> of 32 bits, so the
  block under \<^verbatim>\<open>#if SIZEOF_SIZE_T <= 4\<close> is absent and \<^verbatim>\<open>SSIZE_MAX\<close>
  is \<open>2 ^ 63 - 1\<close>.
\<close>

type_synonym uint8_t = "8 word"
type_synonym uint16_t = "16 word"
type_synonym uint32_t = "32 word"
type_synonym size64_t = "64 word"

text \<open>An \<^verbatim>\<open>off64_t\<close> is written as the integer it holds.\<close>

type_synonym off64_t = int

text \<open>
  What a call can come to: it returns an \<^verbatim>\<open>int\<close> and leaves a state behind, or
  it reads behind the end of a cell's payload (undefined in C), or the recursion budget
  given to the model is used up before the call returns.
\<close>

datatype 'a outcome = Return int 'a | Read_Past_End | No_Fuel

text \<open>
  Modelled from the spec: the fields of \<^verbatim>\<open>libregf_named_key_t\<close> that the key item
  reads (section 3, NamedKey); \<^verbatim>\<open>libregf_named_key.h\<close> is not among the sources.
\<close>

record libregf_named_key =
  class_name_offset :: uint32_t
  class_name_size :: uint16_t
  security_key_offset :: uint32_t
  values_list_offset :: uint32_t
  number_of_values :: uint32_t
  sub_keys_list_offset :: uint32_t
  number_of_sub_keys :: uint32_t

text \<open>
  Modelled from the spec: the transient \<^verbatim>\<open>libregf_security_key_t\<close> (section 6,
  SecurityKeyDecoder): the descriptor bytes, a pointer that may be \<^verbatim>\<open>NULL\<close>, and
  their size.
\<close>

record libregf_security_key =
  security_descriptor :: "uint8_t list option"
  security_descriptor_size :: nat

text \<open>
  Modelled from the spec: a data range of the libfdata tree and list (section 4.5):
  file index, offset, size and flags.
\<close>

record data_range =
  range_file_index :: int
  range_offset :: off64_t
  range_size :: size64_t
  range_flags :: uint32_t

text \<open>
  Modelled from the spec: \<^verbatim>\<open>item_flags\<close> is a bitset with the one flag
  \<^verbatim>\<open>LIBREGF_KEY_ITEM_FLAG_IS_CORRUPTED\<close> (section 3); its numeric value is in
  \<^verbatim>\<open>libregf_definitions.h\<close>, which is not among the sources, so the bitset is a
  set of flags and \<^verbatim>\<open>|=\<close> is \<open>insert\<close>.
\<close>

datatype item_flag = LIBREGF_KEY_ITEM_FLAG_IS_CORRUPTED

text \<open>
  \<^verbatim>\<open>libregf_key_item_t\<close>. A pointer field is an \<open>option\<close>, \<open>None\<close> for
  \<^verbatim>\<open>NULL\<close>. The values list holds the data ranges of its elements, the values
  cache its number of entries.
\<close>

record libregf_key_item =
  named_key :: "libregf_named_key option"
  class_name :: "uint8_t list option"
  class_name_size :: uint16_t
  security_descriptor :: "uint8_t list option"
  security_descriptor_size :: nat
  values_list :: "data_range list option"
  values_cache :: "nat option"
  item_flags :: "item_flag set"

text \<open>
  Modelled from the spec: a node of the libfdata tree (sections 3 and 4.5): its
  sub-nodes data range once set, the sub nodes appended so far, and its cached value.
\<close>

record libfdata_tree_node =
  sub_nodes_data_range :: "data_range option"
  sub_nodes :: "data_range list"
  node_value :: "libregf_key_item option"

text \<open>
  Modelled from the spec: everything the key item calls that is not among the sources
  (section 6). The hive bins list is the spec's BinCellStore, with a state \<open>'s\<close> of its
  own (its cache): \<open>get_cell_at_offset\<close> returns a reference to a hive bin cell, or
  \<open>None\<close> when it fails, and the store's next state; \<open>cell_data\<close> reads the payload
  (\<^verbatim>\<open>hive_bin_cell->data\<close>, of \<^verbatim>\<open>hive_bin_cell->size\<close> bytes) behind a
  reference in the state the store is in when the read happens, so a reference held
  over a later fetch may read other bytes. \<open>get_index_at_offset\<close> is the probe of the
  bin ranges: \<open>1\<close> known, \<open>0\<close> unknown, \<open>-1\<close> error. The two decoders return
  \<open>None\<close> when they fail; the ASCII codepage is part of the named key decoder. The
  three free functions return the \<^verbatim>\<open>int\<close> of the C functions.
\<close>

record 's externals =
  get_cell_at_offset :: "'s \<Rightarrow> uint32_t \<Rightarrow> nat option \<times> 's"
  cell_data :: "'s \<Rightarrow> nat \<Rightarrow> uint8_t list"
  get_index_at_offset :: "off64_t \<Rightarrow> int"
  named_key_read_data :: "uint8_t list \<Rightarrow> uint32_t \<Rightarrow> libregf_named_key option"
  security_key_read_data :: "uint8_t list \<Rightarrow> libregf_security_key option"
  named_key_free :: "libregf_named_key \<Rightarrow> int"
  list_free :: "data_range list \<Rightarrow> int"
  cache_free :: "nat \<Rightarrow> int"
  maximum_cache_entries_values :: nat

text \<open>
  The state threaded through the calls: the store's own state and, as a record of what
  was asked of it, the offsets fetched so far, oldest first.
\<close>

record 's hive =
  bins :: 's
  fetched :: "uint32_t list"

definition libregf_hive_bins_list_get_cell_at_offset ::
  "'s externals \<Rightarrow> 's hive \<Rightarrow> uint32_t \<Rightarrow> nat option \<times> 's hive" where
  "libregf_hive_bins_list_get_cell_at_offset X s cell_offset =
     (case get_cell_at_offset X (bins s) cell_offset of
        (hive_bin_cell, b) \<Rightarrow> (hive_bin_cell, \<lparr>bins = b, fetched = fetched s @ [cell_offset]\<rparr>))"

definition hive_bin_cell_data :: "'s externals \<Rightarrow> 's hive \<Rightarrow> nat \<Rightarrow> uint8_t list" where
  "hive_bin_cell_data X s hive_bin_cell = cell_data X (bins s) hive_bin_cell"

definition libregf_hive_bins_list_get_index_at_offset :: "'s externals \<Rightarrow> off64_t \<Rightarrow> int" where
  "libregf_hive_bins_list_get_index_at_offset X offset = get_index_at_offset X offset"

text \<open>
  Modelled from the spec: the byte stream macros of \<^verbatim>\<open>byte_stream.h\<close> (section 6:
  all multi-byte integers are little-endian). They read 4 or 2 bytes at the pointer;
  with fewer bytes left the C reads behind the buffer, here \<open>None\<close>.
\<close>

definition byte_stream_copy_to_uint32_little_endian :: "uint8_t list \<Rightarrow> uint32_t option" where
  "byte_stream_copy_to_uint32_little_endian byte_stream =
     (case byte_stream of
        b0 # b1 # b2 # b3 # _ \<Rightarrow>
          Some (push_bit 8 (push_bit 8 (push_bit 8 (ucast b3) OR ucast b2) OR ucast b1) OR ucast b0)
      | _ \<Rightarrow> None)"

definition byte_stream_copy_to_uint16_little_endian :: "uint8_t list \<Rightarrow> uint16_t option" where
  "byte_stream_copy_to_uint16_little_endian byte_stream =
     (case byte_stream of
        b0 # b1 # _ \<Rightarrow> Some (push_bit 8 (ucast b1) OR ucast b0)
      | _ \<Rightarrow> None)"

text \<open>
  Modelled from the spec: \<^verbatim>\<open>sizeof( regf_sub_key_list_t )\<close>, the 2-byte signature
  and the 2-byte number of elements (section 4.3, step 2); \<^verbatim>\<open>regf_cell_values.h\<close>
  is not among the sources.
\<close>

definition sizeof_regf_sub_key_list_t :: nat where
  "sizeof_regf_sub_key_list_t = 4"

definition SSIZE_MAX :: int where
  "SSIZE_MAX = 2 ^ 63 - 1"

text \<open>
  Modelled from the spec: the operations of the libfdata tree node and list (section
  4.5). The spec names no condition under which they fail, so here they succeed, but for
  appending to a list that is \<^verbatim>\<open>NULL\<close>.
\<close>

definition libfdata_tree_node_sub_nodes_data_range_is_set :: "libfdata_tree_node \<Rightarrow> int" where
  "libfdata_tree_node_sub_nodes_data_range_is_set node =
     (if sub_nodes_data_range node \<noteq> None then 1 else 0)"

definition libfdata_tree_node_set_sub_nodes_data_range ::
  "libfdata_tree_node \<Rightarrow> int \<Rightarrow> off64_t \<Rightarrow> size64_t \<Rightarrow> uint32_t \<Rightarrow> libfdata_tree_node" where
  "libfdata_tree_node_set_sub_nodes_data_range node file_index offset data_size flags =
     node\<lparr>sub_nodes_data_range :=
       Some \<lparr>range_file_index = file_index, range_offset = offset, range_size = data_size,
             range_flags = flags\<rparr>\<rparr>"

definition libfdata_tree_node_append_sub_node ::
  "libfdata_tree_node \<Rightarrow> int \<Rightarrow> off64_t \<Rightarrow> size64_t \<Rightarrow> uint32_t \<Rightarrow> libfdata_tree_node" where
  "libfdata_tree_node_append_sub_node node file_index offset data_size flags =
     node\<lparr>sub_nodes := sub_nodes node @
       [\<lparr>range_file_index = file_index, range_offset = offset, range_size = data_size,
         range_flags = flags\<rparr>]\<rparr>"

definition libfdata_tree_node_set_node_value ::
  "libfdata_tree_node \<Rightarrow> libregf_key_item \<Rightarrow> libfdata_tree_node" where
  "libfdata_tree_node_set_node_value node key_item = node\<lparr>node_value := Some key_item\<rparr>"

definition libfdata_list_append_element ::
  "data_range list option \<Rightarrow> int \<Rightarrow> off64_t \<Rightarrow> size64_t \<Rightarrow> uint32_t \<Rightarrow> data_range list option" where
  "libfdata_list_append_element list file_index offset data_size flags =
     (case list of
        None \<Rightarrow> None
      | Some elements \<Rightarrow>
          Some (elements @
            [\<lparr>range_file_index = file_index, range_offset = offset, range_size = data_size,
              range_flags = flags\<rparr>]))"

section \<open>Creating and freeing a key item\<close>

text \<open>
  The argument of \<^verbatim>\<open>libregf_key_item_initialize\<close> and of
  \<^verbatim>\<open>libregf_key_item_free\<close> is a \<^verbatim>\<open>libregf_key_item_t **\<close>: \<open>None\<close> when
  it is \<^verbatim>\<open>NULL\<close>, \<open>Some None\<close> when it points to a pointer that is \<^verbatim>\<open>NULL\<close>,
  \<open>Some (Some k)\<close> when that pointer refers to the key item \<open>k\<close>. Both return the
  value the pointer variable holds afterwards. A new key item is allocated and set to 0
  throughout.
\<close>

definition cleared_key_item :: libregf_key_item where
  "cleared_key_item =
     \<lparr>named_key = None, class_name = None, class_name_size = 0,
      security_descriptor = None, security_descriptor_size = 0,
      values_list = None, values_cache = None, item_flags = {}\<rparr>"

definition libregf_key_item_initialize ::
  "libregf_key_item option option \<Rightarrow> int \<times> libregf_key_item option option" where
  "libregf_key_item_initialize key_item =
     (case key_item of
        None \<Rightarrow> (- 1, None)
      | Some (Some k) \<Rightarrow> (- 1, Some (Some k))
      | Some None \<Rightarrow> (1, Some (Some cleared_key_item)))"

text \<open>
  What \<^verbatim>\<open>libregf_key_item_free\<close> hands to \<^verbatim>\<open>memory_free\<close> itself: the class
  name, the security descriptor and the key item. The function takes the blocks freed so
  far and returns them with its own added.
\<close>

datatype freed_block =
  Class_name_block "uint8_t list"
  | Security_descriptor_block "uint8_t list"
  | Key_item_block

definition libregf_key_item_free ::
  "'s externals \<Rightarrow> libregf_key_item option option \<Rightarrow> freed_block list \<Rightarrow>
   int \<times> libregf_key_item option option \<times> freed_block list" where
  "libregf_key_item_free X key_item freed =
     (case key_item of
        None \<Rightarrow> (- 1, None, freed)
      | Some None \<Rightarrow> (1, Some None, freed)
      | Some (Some k) \<Rightarrow>
          (let result = 1;
               result = (case named_key k of
                           None \<Rightarrow> result
                         | Some n \<Rightarrow> if named_key_free X n \<noteq> 1 then - 1 else result);
               freed = (case class_name k of
                          None \<Rightarrow> freed
                        | Some c \<Rightarrow> freed @ [Class_name_block c]);
               freed = (case libregf_key_item.security_descriptor k of
                          None \<Rightarrow> freed
                        | Some d \<Rightarrow> freed @ [Security_descriptor_block d]);
               result = (case values_list k of
                           None \<Rightarrow> result
                         | Some l \<Rightarrow> if list_free X l \<noteq> 1 then - 1 else result);
               result = (case values_cache k of
                           None \<Rightarrow> result
                         | Some c \<Rightarrow> if cache_free X c \<noteq> 1 then - 1 else result)
           in (result, Some None, freed @ [Key_item_block])))"

section \<open>Class name and security key\<close>

text \<open>
  \<^verbatim>\<open>libregf_key_item_read_class_name_data\<close>. When the size is out of bounds the
  function leaves through \<^verbatim>\<open>on_error\<close>, which clears the class name and its size.
\<close>

definition libregf_key_item_read_class_name_data ::
  "libregf_key_item \<Rightarrow> uint8_t list \<Rightarrow> uint16_t \<Rightarrow> int \<times> libregf_key_item" where
  "libregf_key_item_read_class_name_data key_item data name_size =
     (if class_name key_item \<noteq> None then (- 1, key_item)
      else if int (length data) > SSIZE_MAX then (- 1, key_item)
      else if name_size = 0 \<or> unat name_size > length data
        then (- 1, key_item\<lparr>class_name := None, class_name_size := 0\<rparr>)
      else (1, key_item\<lparr>class_name := Some (take (unat name_size) data),
                         class_name_size := name_size\<rparr>))"

definition libregf_key_item_read_class_name ::
  "'s externals \<Rightarrow> libregf_key_item \<Rightarrow> 's hive \<Rightarrow> uint32_t \<Rightarrow> uint16_t \<Rightarrow>
   int \<times> libregf_key_item \<times> 's hive" where
  "libregf_key_item_read_class_name X key_item s name_offset name_size =
     (if class_name key_item \<noteq> None then (- 1, key_item, s)
      else if name_offset = 0xffffffff then (1, key_item, s)
      else if name_offset = 0 \<and> name_size = 0 then (1, key_item, s)
      else if name_offset = 0 then (- 1, key_item, s)
      else
        (case libregf_hive_bins_list_get_cell_at_offset X s name_offset of
           (None, s1) \<Rightarrow> (- 1, key_item, s1)
         | (Some hive_bin_cell, s1) \<Rightarrow>
             (case libregf_key_item_read_class_name_data key_item
                     (hive_bin_cell_data X s1 hive_bin_cell) name_size of
                (result, key_item1) \<Rightarrow>
                  if result \<noteq> 1 then (- 1, key_item1, s1) else (1, key_item1, s1))))"

text \<open>
  \<^verbatim>\<open>libregf_key_item_read_security_key\<close>: the descriptor and its size move from the
  transient security key into the key item.
\<close>

definition libregf_key_item_read_security_key ::
  "'s externals \<Rightarrow> libregf_key_item \<Rightarrow> 's hive \<Rightarrow> uint32_t \<Rightarrow>
   int \<times> libregf_key_item \<times> 's hive" where
  "libregf_key_item_read_security_key X key_item s key_offset =
     (if libregf_key_item.security_descriptor key_item \<noteq> None then (- 1, key_item, s)
      else if key_offset = 0 \<or> key_offset = 0xffffffff then (- 1, key_item, s)
      else
        (case libregf_hive_bins_list_get_cell_at_offset X s key_offset of
           (None, s1) \<Rightarrow> (- 1, key_item, s1)
         | (Some hive_bin_cell, s1) \<Rightarrow>
             (case security_key_read_data X (hive_bin_cell_data X s1 hive_bin_cell) of
                None \<Rightarrow> (- 1, key_item, s1)
              | Some security_key \<Rightarrow>
                  (1, key_item\<lparr>
                        libregf_key_item.security_descriptor :=
                          libregf_security_key.security_descriptor security_key,
                        libregf_key_item.security_descriptor_size :=
                          libregf_security_key.security_descriptor_size security_key\<rparr>,
                   s1))))"

section \<open>The values list\<close>

text \<open>
  The loop of \<^verbatim>\<open>libregf_key_item_read_values_list\<close>, with the number of iterations
  that remain and the data pointer, which moves 4 bytes on in each. The iterator and the
  remaining size only feed the debug output.
\<close>

fun read_values_list_elements ::
  "'s externals \<Rightarrow> nat \<Rightarrow> uint8_t list \<Rightarrow> libregf_key_item \<Rightarrow> libregf_key_item outcome" where
  "read_values_list_elements X 0 data key_item = Return 1 key_item"
| "read_values_list_elements X (Suc n) data key_item =
     (case byte_stream_copy_to_uint32_little_endian data of
        None \<Rightarrow> Read_Past_End
      | Some element_offset \<Rightarrow>
          (let result = libregf_hive_bins_list_get_index_at_offset X (uint element_offset)
           in if result = - 1 then Return (- 1) key_item
              else if result = 0
                then read_values_list_elements X n (drop 4 data)
                       (key_item\<lparr>item_flags :=
                          insert LIBREGF_KEY_ITEM_FLAG_IS_CORRUPTED (item_flags key_item)\<rparr>)
              else
                (case libfdata_list_append_element (values_list key_item) 0
                        (uint element_offset) 0 0 of
                   None \<Rightarrow> Return (- 1) key_item
                 | Some list \<Rightarrow>
                     read_values_list_elements X n (drop 4 data)
                       (key_item\<lparr>values_list := Some list\<rparr>))))"

text \<open>
  \<^verbatim>\<open>libregf_key_item_read_values_list\<close>. The size check multiplies a
  \<^verbatim>\<open>uint32_t\<close> by 4, in 32 bits.
\<close>

definition libregf_key_item_read_values_list ::
  "'s externals \<Rightarrow> libregf_key_item \<Rightarrow> 's hive \<Rightarrow> uint32_t \<Rightarrow> uint32_t \<Rightarrow>
   (libregf_key_item \<times> 's hive) outcome" where
  "libregf_key_item_read_values_list X key_item s list_offset number_of_values_list_elements =
     (if number_of_values_list_elements = 0 then Return 1 (key_item, s)
      else if list_offset = 0 \<or> list_offset = 0xffffffff then Return (- 1) (key_item, s)
      else
        (case libregf_hive_bins_list_get_cell_at_offset X s list_offset of
           (None, s1) \<Rightarrow> Return (- 1) (key_item, s1)
         | (Some hive_bin_cell, s1) \<Rightarrow>
             (let data = hive_bin_cell_data X s1 hive_bin_cell
              in if length data < unat (number_of_values_list_elements * 4)
                   then Return (- 1) (key_item, s1)
                 else map_outcome (\<lambda>key_item1. (key_item1, s1))
                        (read_values_list_elements X (unat number_of_values_list_elements)
                           data key_item))))"

section \<open>Reading a named key into a key item\<close>

text \<open>
  Modelled from the spec: creating the values list and the values cache (section 4.4,
  step 6). As every initialize function of these libraries, they refuse a pointer
  that is already set.
\<close>

definition libfdata_list_initialize :: "data_range list option \<Rightarrow> data_range list option option" where
  "libfdata_list_initialize list = (case list of None \<Rightarrow> Some (Some []) | Some _ \<Rightarrow> None)"

definition libfcache_cache_initialize :: "nat option \<Rightarrow> nat \<Rightarrow> nat option option" where
  "libfcache_cache_initialize cache maximum_cache_entries =
     (case cache of None \<Rightarrow> Some (Some maximum_cache_entries) | Some _ \<Rightarrow> None)"

text \<open>
  The label \<^verbatim>\<open>on_error\<close> of \<^verbatim>\<open>libregf_key_item_read_named_key\<close> frees the
  values cache, the values list and the named key.
\<close>

definition read_named_key_on_error :: "libregf_key_item \<Rightarrow> libregf_key_item" where
  "read_named_key_on_error key_item =
     key_item\<lparr>values_cache := None, values_list := None, named_key := None\<rparr>"

text \<open>
  Lines 358 to 378 of \<^verbatim>\<open>libregf_key_item_read_named_key\<close>: the security key
  is read unless its offset is \<^verbatim>\<open>0xffffffff\<close>. In this and the next block the
  result is \<open>-1\<close> where the C jumps to \<^verbatim>\<open>on_error\<close> and \<open>1\<close> where it goes
  on.
\<close>

definition read_named_key_security_key ::
  "'s externals \<Rightarrow> libregf_named_key \<Rightarrow> libregf_key_item \<Rightarrow> 's hive \<Rightarrow>
   int \<times> libregf_key_item \<times> 's hive" where
  "read_named_key_security_key X nk key_item s =
     (if security_key_offset nk \<noteq> 0xffffffff
        then libregf_key_item_read_security_key X key_item s (security_key_offset nk)
      else (1, key_item, s))"

text \<open>
  Lines 379 to 440 of \<^verbatim>\<open>libregf_key_item_read_named_key\<close>: the sub keys list
  offset becomes the sub nodes data range of the tree node.
\<close>

definition read_named_key_sub_keys ::
  "'s externals \<Rightarrow> libregf_named_key \<Rightarrow> libregf_key_item \<Rightarrow> libfdata_tree_node \<Rightarrow>
   int \<times> libregf_key_item \<times> libfdata_tree_node" where
  "read_named_key_sub_keys X nk key_item key_tree_node =
     (if 0 < number_of_sub_keys nk then
        (let result = libfdata_tree_node_sub_nodes_data_range_is_set key_tree_node
         in if result = - 1 then (- 1, key_item, key_tree_node)
            else if result = 0 then
              (let result = libregf_hive_bins_list_get_index_at_offset X
                              (uint (sub_keys_list_offset nk))
               in if result = - 1 then (- 1, key_item, key_tree_node)
                  else if result = 0 then
                    (1, key_item\<lparr>item_flags :=
                          insert LIBREGF_KEY_ITEM_FLAG_IS_CORRUPTED (item_flags key_item)\<rparr>,
                     key_tree_node)
                  else
                    (1, key_item,
                     libfdata_tree_node_set_sub_nodes_data_range key_tree_node 0
                       (uint (sub_keys_list_offset nk)) 0 0))
            else (1, key_item, key_tree_node))
      else (1, key_item, key_tree_node))"

text \<open>
  Lines 441 to 517: the values list and the values cache are created, the values list
  offset is probed, and the values list is read when the probe knows the offset.
\<close>

definition read_named_key_values ::
  "'s externals \<Rightarrow> libregf_named_key \<Rightarrow> libregf_key_item \<Rightarrow> 's hive \<Rightarrow>
   (libregf_key_item \<times> 's hive) outcome" where
  "read_named_key_values X nk key_item s =
     (case libfdata_list_initialize (values_list key_item) of
        None \<Rightarrow> Return (- 1) (key_item, s)
      | Some list \<Rightarrow>
          (let key_item1 = key_item\<lparr>values_list := list\<rparr>
           in case libfcache_cache_initialize (values_cache key_item1)
                     (maximum_cache_entries_values X) of
                None \<Rightarrow> Return (- 1) (key_item1, s)
              | Some cache \<Rightarrow>
                  (let key_item2 = key_item1\<lparr>values_cache := cache\<rparr>;
                       result = libregf_hive_bins_list_get_index_at_offset X
                                  (uint (values_list_offset nk))
                   in if result = - 1 then Return (- 1) (key_item2, s)
                      else if result = 0 then
                        Return 1
                          (key_item2\<lparr>item_flags :=
                             insert LIBREGF_KEY_ITEM_FLAG_IS_CORRUPTED (item_flags key_item2)\<rparr>,
                           s)
                      else
                        (case libregf_key_item_read_values_list X key_item2 s
                                (values_list_offset nk) (number_of_values nk) of
                           Return result1 (key_item3, s1) \<Rightarrow>
                             if result1 \<noteq> 1 then Return (- 1) (key_item3, s1)
                             else Return 1 (key_item3, s1)
                         | Read_Past_End \<Rightarrow> Read_Past_End
                         | No_Fuel \<Rightarrow> No_Fuel))))"

text \<open>
  \<^verbatim>\<open>libregf_key_item_read_named_key\<close>. The two early returns for a named key that
  is already set and for an offset of 0 or of at least \<^verbatim>\<open>0xffffffff\<close> leave the key
  item as it is; every later failure leaves through \<^verbatim>\<open>on_error\<close>.
\<close>

definition libregf_key_item_read_named_key ::
  "'s externals \<Rightarrow> libregf_key_item \<Rightarrow> libfdata_tree_node \<Rightarrow> 's hive \<Rightarrow> off64_t \<Rightarrow> uint32_t \<Rightarrow>
   (libregf_key_item \<times> libfdata_tree_node \<times> 's hive) outcome" where
  "libregf_key_item_read_named_key X key_item key_tree_node s named_key_offset named_key_hash =
     (if named_key key_item \<noteq> None then Return (- 1) (key_item, key_tree_node, s)
      else if named_key_offset = 0 \<or> named_key_offset \<ge> 0xffffffff
        then Return (- 1) (key_item, key_tree_node, s)
      else
        (case libregf_hive_bins_list_get_cell_at_offset X s (word_of_int named_key_offset) of
           (None, s1) \<Rightarrow> Return (- 1) (read_named_key_on_error key_item, key_tree_node, s1)
         | (Some hive_bin_cell, s1) \<Rightarrow>
             (case named_key_read_data X (hive_bin_cell_data X s1 hive_bin_cell) named_key_hash of
                None \<Rightarrow> Return (- 1) (read_named_key_on_error key_item, key_tree_node, s1)
              | Some nk \<Rightarrow>
                  (case libregf_key_item_read_class_name X (key_item\<lparr>named_key := Some nk\<rparr>) s1
                          (class_name_offset nk) (libregf_named_key.class_name_size nk) of
                     (result2, key_item2, s2) \<Rightarrow>
                       if result2 \<noteq> 1
                         then Return (- 1) (read_named_key_on_error key_item2, key_tree_node, s2)
                       else
                         (case read_named_key_security_key X nk key_item2 s2 of
                            (result3, key_item3, s3) \<Rightarrow>
                              if result3 \<noteq> 1
                                then Return (- 1)
                                       (read_named_key_on_error key_item3, key_tree_node, s3)
                              else
                                (case read_named_key_sub_keys X nk key_item3 key_tree_node of
                                   (result4, key_item4, node4) \<Rightarrow>
                                     if result4 \<noteq> 1
                                       then Return (- 1)
                                              (read_named_key_on_error key_item4, node4, s3)
                                     else
                                       (case read_named_key_values X nk key_item4 s3 of
                                          Return result5 (key_item5, s5) \<Rightarrow>
                                            if result5 \<noteq> 1
                                              then Return (- 1)
                                                     (read_named_key_on_error key_item5, node4, s5)
                                            else Return 1 (key_item5, node4, s5)
                                        | Read_Past_End \<Rightarrow> Read_Past_End
                                        | No_Fuel \<Rightarrow> No_Fuel)))))))"

text \<open>
  \<^verbatim>\<open>libregf_key_item_read_node_data\<close>, the loader of a tree node's value. The key
  item is a local of the function: a failure frees it, and success hands it to the tree
  node. The size of the node's data range carries the hash of the name.
\<close>

definition libregf_key_item_read_node_data ::
  "'s externals \<Rightarrow> libfdata_tree_node \<Rightarrow> 's hive \<Rightarrow> off64_t \<Rightarrow> size64_t \<Rightarrow>
   (libfdata_tree_node \<times> 's hive) outcome" where
  "libregf_key_item_read_node_data X node s node_data_offset node_data_size =
     (case libregf_key_item_initialize (Some None) of
        (result, Some (Some key_item)) \<Rightarrow>
          if result \<noteq> 1 then Return (- 1) (node, s)
          else if node_data_size > 0xffffffff then Return (- 1) (node, s)
          else
            (case libregf_key_item_read_named_key X key_item node s node_data_offset
                    (ucast node_data_size) of
               Return result1 (key_item1, node1, s1) \<Rightarrow>
                 if result1 \<noteq> 1 then Return (- 1) (node1, s1)
                 else Return 1 (libfdata_tree_node_set_node_value node1 key_item1, s1)
             | Read_Past_End \<Rightarrow> Read_Past_End
             | No_Fuel \<Rightarrow> No_Fuel)
      | (result, _) \<Rightarrow> Return (- 1) (node, s))"

section \<open>The sub keys list\<close>

text \<open>
  Lines 1384 to 1413 of \<^verbatim>\<open>libregf_key_item_read_sub_keys_list\<close>: the signature
  gives the size of an element and whether the list is at leaf level; \<open>None\<close> for a
  signature that is not supported. The caller has checked that there are 4 bytes.
\<close>

definition sub_keys_list_signature :: "uint8_t list \<Rightarrow> (nat \<times> bool) option" where
  "sub_keys_list_signature data =
     (case data of
        c0 # c1 # _ \<Rightarrow>
          if c0 = 0x72 \<and> c1 = 0x69 then Some (4, False)
          else if c0 = 0x6c \<and> c1 = 0x69 then Some (4, True)
          else if c0 = 0x6c \<and> (c1 = 0x66 \<or> c1 = 0x68) then Some (8, True)
          else None
      | _ \<Rightarrow> None)"

text \<open>
  \<^verbatim>\<open>libregf_key_item_read_sub_keys_list\<close> and its loop. The C function calls
  itself for every element of an \<^verbatim>\<open>ri\<close> list, and nothing bounds the depth on a
  hive whose lists refer to each other in a circle, so the model takes the number of
  nested calls it may make and ends in \<open>No_Fuel\<close> when they are used up. The loop
  carries the number of iterations that remain, the data pointer and
  \<^verbatim>\<open>corruption_detected\<close>. A hive bin cell is read once, right after the fetch,
  into \<^verbatim>\<open>hive_bin_cell_data\<close>: the local copy the C makes.
\<close>

fun libregf_key_item_read_sub_keys_list ::
  "'s externals \<Rightarrow> nat \<Rightarrow> libfdata_tree_node \<Rightarrow> 's hive \<Rightarrow> off64_t \<Rightarrow>
   (libfdata_tree_node \<times> 's hive) outcome"
and read_sub_keys_list_elements ::
  "'s externals \<Rightarrow> nat \<Rightarrow> nat \<Rightarrow> nat \<Rightarrow> bool \<Rightarrow> uint8_t list \<Rightarrow> bool \<Rightarrow>
   libfdata_tree_node \<Rightarrow> 's hive \<Rightarrow> (libfdata_tree_node \<times> 's hive) outcome" where
  "libregf_key_item_read_sub_keys_list X 0 key_tree_node s list_offset = No_Fuel"
| "libregf_key_item_read_sub_keys_list X (Suc fuel) key_tree_node s list_offset =
     (if list_offset = 0 \<or> list_offset = 0xffffffff then Return (- 1) (key_tree_node, s)
      else
        (case libregf_hive_bins_list_get_cell_at_offset X s (word_of_int list_offset) of
           (None, s1) \<Rightarrow> Return (- 1) (key_tree_node, s1)
         | (Some hive_bin_cell, s1) \<Rightarrow>
             (let hive_bin_cell_data = hive_bin_cell_data X s1 hive_bin_cell
              in if length hive_bin_cell_data < sizeof_regf_sub_key_list_t
                   then Return (- 1) (key_tree_node, s1)
                 else
                   (case sub_keys_list_signature hive_bin_cell_data of
                      None \<Rightarrow> Return (- 1) (key_tree_node, s1)
                    | Some (element_size, at_leaf_level) \<Rightarrow>
                        (case byte_stream_copy_to_uint16_little_endian
                                (drop 2 hive_bin_cell_data) of
                           None \<Rightarrow> Read_Past_End
                         | Some number_of_elements \<Rightarrow>
                             if length hive_bin_cell_data - sizeof_regf_sub_key_list_t
                                  < unat number_of_elements * element_size
                               then Return (- 1) (key_tree_node, s1)
                             else read_sub_keys_list_elements X fuel (unat number_of_elements)
                                    element_size at_leaf_level
                                    (drop sizeof_regf_sub_key_list_t hive_bin_cell_data)
                                    False key_tree_node s1)))))"
| "read_sub_keys_list_elements X fuel 0 element_size at_leaf_level data corruption_detected
     key_tree_node s =
     Return (if corruption_detected then 0 else 1) (key_tree_node, s)"
| "read_sub_keys_list_elements X fuel (Suc n) element_size at_leaf_level data corruption_detected
     key_tree_node s =
     (case byte_stream_copy_to_uint32_little_endian data of
        None \<Rightarrow> Read_Past_End
      | Some element_offset \<Rightarrow>
          (case (if element_size = 8
                   then map_option (\<lambda>h. (h, drop 8 data))
                          (byte_stream_copy_to_uint32_little_endian (drop 4 data))
                 else Some (0, drop 4 data)) of
             None \<Rightarrow> Read_Past_End
           | Some (element_hash, data1) \<Rightarrow>
               (let result = libregf_hive_bins_list_get_index_at_offset X (uint element_offset)
                in if result = - 1 then Return (- 1) (key_tree_node, s)
                   else if result \<noteq> 0 then
                     (if at_leaf_level
                        then read_sub_keys_list_elements X fuel n element_size at_leaf_level data1
                               corruption_detected
                               (libfdata_tree_node_append_sub_node key_tree_node 0
                                  (uint element_offset) (ucast element_hash) 0)
                               s
                      else
                        (case libregf_key_item_read_sub_keys_list X fuel key_tree_node s
                                (uint element_offset) of
                           Return result1 (node1, s1) \<Rightarrow>
                             if result1 = - 1 then Return (- 1) (node1, s1)
                             else read_sub_keys_list_elements X fuel n element_size at_leaf_level
                                    data1 (corruption_detected \<or> result1 = 0) node1 s1
                         | Read_Past_End \<Rightarrow> Read_Past_End
                         | No_Fuel \<Rightarrow> No_Fuel))
                   else read_sub_keys_list_elements X fuel n element_size at_leaf_level data1
                          True key_tree_node s)))"

text \<open>
  \<^verbatim>\<open>libregf_key_item_read_sub_nodes\<close>, the loader of a tree node's sub nodes. A
  result of 0 from the walk takes the branch that holds only the comment
  \<^verbatim>\<open>TODO signal corruption\<close>.
\<close>

definition libregf_key_item_read_sub_nodes ::
  "'s externals \<Rightarrow> nat \<Rightarrow> libfdata_tree_node \<Rightarrow> 's hive \<Rightarrow> off64_t \<Rightarrow>
   (libfdata_tree_node \<times> 's hive) outcome" where
  "libregf_key_item_read_sub_nodes X fuel node s sub_nodes_data_offset =
     (case libregf_key_item_read_sub_keys_list X fuel node s sub_nodes_data_offset of
        Return result (node1, s1) \<Rightarrow>
          if result = - 1 then Return (- 1) (node1, s1)
          else Return 1 (node1, s1)
      | Read_Past_End \<Rightarrow> Read_Past_End
      | No_Fuel \<Rightarrow> No_Fuel)"

section \<open>Stores and hives to run the functions on\<close>

text \<open>
  A store serves the cells of a hive when every fetch, in whatever state the store is,
  fails for an offset that holds no cell and otherwise returns a reference behind which,
  right after the fetch, the payload of the cell at that offset is read. Nothing is said
  of a reference once another fetch has been made.
\<close>

definition store_serves :: "'s externals \<Rightarrow> (uint32_t \<Rightarrow> uint8_t list option) \<Rightarrow> bool" where
  "store_serves X cells =
     (\<forall>b cell_offset.
        case get_cell_at_offset X b cell_offset of
          (None, b1) \<Rightarrow> cells cell_offset = None
        | (Some hive_bin_cell, b1) \<Rightarrow> cells cell_offset = Some (cell_data X b1 hive_bin_cell))"

text \<open>
  A store whose cache has one slot: every fetch overwrites it, so every reference handed
  out before reads the cell fetched last.
\<close>

definition evicting_store ::
  "(uint32_t \<Rightarrow> uint8_t list option) \<Rightarrow> (off64_t \<Rightarrow> int) \<Rightarrow>
   (uint8_t list \<Rightarrow> uint32_t \<Rightarrow> libregf_named_key option) \<Rightarrow>
   (uint8_t list \<Rightarrow> libregf_security_key option) \<Rightarrow> (uint8_t list) externals" where
  "evicting_store cells index nk_decoder sk_decoder =
     \<lparr>get_cell_at_offset =
        (\<lambda>slot cell_offset.
           case cells cell_offset of None \<Rightarrow> (None, slot) | Some data \<Rightarrow> (Some 0, data)),
      cell_data = (\<lambda>slot hive_bin_cell. slot),
      get_index_at_offset = index,
      named_key_read_data = nk_decoder,
      security_key_read_data = sk_decoder,
      named_key_free = (\<lambda>_. 1), list_free = (\<lambda>_. 1), cache_free = (\<lambda>_. 1),
      maximum_cache_entries_values = 256\<rparr>"

text \<open>
  A store that never evicts: its cache keeps every cell it has fetched, and a reference
  is the position of the cell in the cache.
\<close>

definition keeping_store ::
  "(uint32_t \<Rightarrow> uint8_t list option) \<Rightarrow> (off64_t \<Rightarrow> int) \<Rightarrow>
   (uint8_t list \<Rightarrow> uint32_t \<Rightarrow> libregf_named_key option) \<Rightarrow>
   (uint8_t list \<Rightarrow> libregf_security_key option) \<Rightarrow> (uint8_t list list) externals" where
  "keeping_store cells index nk_decoder sk_decoder =
     \<lparr>get_cell_at_offset =
        (\<lambda>cache cell_offset.
           case cells cell_offset of
             None \<Rightarrow> (None, cache)
           | Some data \<Rightarrow> (Some (length cache), cache @ [data])),
      cell_data =
        (\<lambda>cache hive_bin_cell.
           if hive_bin_cell < length cache then cache ! hive_bin_cell else []),
      get_index_at_offset = index,
      named_key_read_data = nk_decoder,
      security_key_read_data = sk_decoder,
      named_key_free = (\<lambda>_. 1), list_free = (\<lambda>_. 1), cache_free = (\<lambda>_. 1),
      maximum_cache_entries_values = 256\<rparr>"

definition empty_node :: libfdata_tree_node where
  "empty_node = \<lparr>sub_nodes_data_range = None, sub_nodes = [], node_value = None\<rparr>"

text \<open>
  The hive of the spec's scenario S5: at offset 400 an \<^verbatim>\<open>ri\<close> list of the two
  \<^verbatim>\<open>lh\<close> lists at 700 and 800, which hold the keys at 500 and 600 with their
  hashes.
\<close>

definition ri_cells :: "uint32_t \<Rightarrow> uint8_t list option" where
  "ri_cells cell_offset =
     (if cell_offset = 400 then Some [0x72, 0x69, 2, 0, 0xBC, 2, 0, 0, 0x20, 3, 0, 0]
      else if cell_offset = 700
        then Some [0x6c, 0x68, 1, 0, 0xF4, 1, 0, 0, 0x11, 0x22, 0x33, 0x44]
      else if cell_offset = 800
        then Some [0x6c, 0x68, 1, 0, 0x58, 2, 0, 0, 0x55, 0x66, 0x77, 0x88, 0, 0, 0, 0]
      else None)"

definition ri_index :: "off64_t \<Rightarrow> int" where
  "ri_index offset = (if offset \<in> {400, 500, 600, 700, 800} then 1 else 0)"

definition no_named_key :: "uint8_t list \<Rightarrow> uint32_t \<Rightarrow> libregf_named_key option" where
  "no_named_key data hash = None"

definition no_security_key :: "uint8_t list \<Rightarrow> libregf_security_key option" where
  "no_security_key data = None"

text \<open>A key item with every pointer set, to free.\<close>

definition full_key_item :: libregf_key_item where
  "full_key_item =
     \<lparr>named_key = Some \<lparr>class_name_offset = 0x120, class_name_size = 2,
                          security_key_offset = 0x140, values_list_offset = 0x160,
                          number_of_values = 0, sub_keys_list_offset = 0xffffffff,
                          number_of_sub_keys = 0\<rparr>,
      class_name = Some [0x41, 0],
      class_name_size = 2,
      security_descriptor = Some [1, 0, 4, 0x80],
      security_descriptor_size = 4,
      values_list = Some [],
      values_cache = Some 256,
      item_flags = {}\<rparr>"

text \<open>
  To state what the loop over a values list does: the element offsets a cell's payload
  holds, the first \<open>n\<close> little-endian 32-bit values of it; whether the probe of an
  offset is other than 0; and the element the list gets for an offset.
\<close>

fun values_list_element_offsets :: "nat \<Rightarrow> uint8_t list \<Rightarrow> uint32_t list" where
  "values_list_element_offsets 0 data = []"
| "values_list_element_offsets (Suc n) data =
     (case byte_stream_copy_to_uint32_little_endian data of
        None \<Rightarrow> []
      | Some element_offset \<Rightarrow> element_offset # values_list_element_offsets n (drop 4 data))"

definition known_offset :: "'s externals \<Rightarrow> uint32_t \<Rightarrow> bool" where
  "known_offset X element_offset =
     (libregf_hive_bins_list_get_index_at_offset X (uint element_offset) \<noteq> 0)"

definition value_element :: "uint32_t \<Rightarrow> data_range" where
  "value_element element_offset =
     \<lparr>range_file_index = 0, range_offset = uint element_offset, range_size = 0, range_flags = 0\<rparr>"


text \<open>
  A key item whose values list and values cache are created and empty, and the hive of
  the spec's scenario S4: the values list at offset 200 holds the offsets 300 and
  \<^verbatim>\<open>0xDEADBEEF\<close>, of which the bin ranges know the first. At offset
  \<^verbatim>\<open>0x200\<close> is a cell of 4 bytes.
\<close>

definition listed_key_item :: libregf_key_item where
  "listed_key_item =
     \<lparr>named_key = None, class_name = None, class_name_size = 0,
      security_descriptor = None, security_descriptor_size = 0,
      values_list = Some [], values_cache = Some 256, item_flags = {}\<rparr>"

definition values_cells :: "uint32_t \<Rightarrow> uint8_t list option" where
  "values_cells cell_offset =
     (if cell_offset = 200 then Some [0x2C, 1, 0, 0, 0xEF, 0xBE, 0xAD, 0xDE]
      else if cell_offset = 0x200 then Some [0x2C, 1, 0, 0]
      else None)"

definition values_index :: "off64_t \<Rightarrow> int" where
  "values_index offset = (if offset \<in> {200, 300, 0x200} then 1 else 0)"

text \<open>
  To state what the loop over a sub keys list does: the elements a list's data holds,
  each an offset and a hash (0 where the elements have 4 bytes), and the sub node the
  tree gets for an element.
\<close>

fun sub_keys_list_elements :: "nat \<Rightarrow> nat \<Rightarrow> uint8_t list \<Rightarrow> (uint32_t \<times> uint32_t) list" where
  "sub_keys_list_elements 0 element_size data = []"
| "sub_keys_list_elements (Suc n) element_size data =
     (case byte_stream_copy_to_uint32_little_endian data of
        None \<Rightarrow> []
      | Some element_offset \<Rightarrow>
          (case (if element_size = 8
                   then map_option (\<lambda>h. (h, drop 8 data))
                          (byte_stream_copy_to_uint32_little_endian (drop 4 data))
                 else Some (0, drop 4 data)) of
             None \<Rightarrow> []
           | Some (element_hash, data1) \<Rightarrow>
               (element_offset, element_hash) # sub_keys_list_elements n element_size data1))"

definition sub_node :: "uint32_t \<times> uint32_t \<Rightarrow> data_range" where
  "sub_node element =
     \<lparr>range_file_index = 0, range_offset = uint (fst element),
      range_size = ucast (snd element), range_flags = 0\<rparr>"

text \<open>
  The three defects of a sub keys list cell that the spec names (section 4.3, steps 2
  and 3): a payload smaller than the header, a signature that is none of the four, and
  a payload smaller than the header and the elements.
\<close>

definition sub_keys_list_malformed :: "uint8_t list \<Rightarrow> bool" where
  "sub_keys_list_malformed data =
     (length data < 4 \<or>
      (case sub_keys_list_signature data of
         None \<Rightarrow> True
       | Some (element_size, at_leaf_level) \<Rightarrow>
           (case byte_stream_copy_to_uint16_little_endian (drop 2 data) of
              None \<Rightarrow> True
            | Some number_of_elements \<Rightarrow>
                length data < 4 + unat number_of_elements * element_size)))"

text \<open>
  The loop of \<^verbatim>\<open>libregf_key_item_read_sub_keys_list\<close> (lines 1447 to 1571) on the
  elements of a cell, in their order, with the walk over the cell that an element of an
  interior list refers to as a parameter: a probe that fails ends the walk with \<open>-1\<close>;
  an element the probe does not know is skipped and makes the walk partial; a known
  element of a list at leaf level is appended as a sub node with its hash; a known
  element of an interior list is walked, a fatal error of that walk ends this one and a
  partial result makes this one partial. At the end the walk returns 0 when it is
  partial and 1 otherwise. These are the steps 5 and 6 of the spec's section 4.3.
\<close>

fun walk_elements ::
  "(libfdata_tree_node \<Rightarrow> 's hive \<Rightarrow> off64_t \<Rightarrow> (libfdata_tree_node \<times> 's hive) outcome) \<Rightarrow>
   (off64_t \<Rightarrow> int) \<Rightarrow> bool \<Rightarrow> (uint32_t \<times> uint32_t) list \<Rightarrow> bool \<Rightarrow>
   libfdata_tree_node \<Rightarrow> 's hive \<Rightarrow> (libfdata_tree_node \<times> 's hive) outcome" where
  "walk_elements nested probe at_leaf_level [] partial node s =
     Return (if partial then 0 else 1) (node, s)"
| "walk_elements nested probe at_leaf_level (element # elements) partial node s =
     (if probe (uint (fst element)) = - 1 then Return (- 1) (node, s)
      else if probe (uint (fst element)) = 0
        then walk_elements nested probe at_leaf_level elements True node s
      else if at_leaf_level
        then walk_elements nested probe at_leaf_level elements partial
               (node\<lparr>sub_nodes := sub_nodes node @ [sub_node element]\<rparr>) s
      else
        (case nested node s (uint (fst element)) of
           Return result (node1, s1) \<Rightarrow>
             if result = - 1 then Return (- 1) (node1, s1)
             else walk_elements nested probe at_leaf_level elements
                    (partial \<or> result = 0) node1 s1
         | Read_Past_End \<Rightarrow> Read_Past_End
         | No_Fuel \<Rightarrow> No_Fuel))"

text \<open>
  A hive with three sub keys lists. At offset 400 an \<^verbatim>\<open>lf\<close> list of two
  elements, the key at 500 and the offset \<^verbatim>\<open>0xDEADBEEF\<close> that no bin range
  knows. At 900 a cell with the signature \<^verbatim>\<open>xx\<close> of the spec's scenario S6. At
  1000 an \<^verbatim>\<open>ri\<close> list of one element, the offset 700, which the bin ranges know
  but where no cell can be fetched. The tree node is that of a loaded key whose sub
  nodes data range is the list at 400.
\<close>

definition index_cells :: "uint32_t \<Rightarrow> uint8_t list option" where
  "index_cells cell_offset =
     (if cell_offset = 400
        then Some [0x6c, 0x66, 2, 0, 0xF4, 1, 0, 0, 0x11, 0x22, 0x33, 0x44,
                   0xEF, 0xBE, 0xAD, 0xDE, 0x55, 0x66, 0x77, 0x88]
      else if cell_offset = 900 then Some [0x78, 0x78, 1, 0, 0xF4, 1, 0, 0]
      else if cell_offset = 1000 then Some [0x72, 0x69, 1, 0, 0xBC, 2, 0, 0]
      else None)"

definition index_ranges :: "off64_t \<Rightarrow> int" where
  "index_ranges offset = (if offset \<in> {400, 500, 700, 900, 1000} then 1 else 0)"

definition loaded_node :: libfdata_tree_node where
  "loaded_node =
     \<lparr>sub_nodes_data_range =
        Some \<lparr>range_file_index = 0, range_offset = 400, range_size = 0, range_flags = 0\<rparr>,
      sub_nodes = [],
      node_value = Some listed_key_item\<rparr>"

text \<open>
  A hive with three keys, and decoders to read it with. The named key decoder knows the
  three key cells by their third byte; the security key decoder takes what follows the
  signature \<^verbatim>\<open>sk\<close> as the descriptor. The key at offset 32 has a class name of 4
  bytes in the cell at 288 (whose payload has 8), a security key at 320, two values in
  the list at 200 and two sub keys in the list at 400. The key at 64 has no class name,
  no security key, a number of values of 0 with the offset of that same values list,
  and 3 sub keys in a list at \<^verbatim>\<open>0xDEADBEEF\<close>, an offset no bin range knows. The key at 96 has a security key offset of 500, where no
  cell can be fetched.
\<close>

definition key_32 :: libregf_named_key where
  "key_32 =
     \<lparr>class_name_offset = 288, class_name_size = 4, security_key_offset = 320,
      values_list_offset = 200, number_of_values = 2, sub_keys_list_offset = 400,
      number_of_sub_keys = 2\<rparr>"

definition key_64 :: libregf_named_key where
  "key_64 =
     \<lparr>class_name_offset = 0xffffffff, class_name_size = 0,
      security_key_offset = 0xffffffff, values_list_offset = 200,
      number_of_values = 0, sub_keys_list_offset = 0xDEADBEEF, number_of_sub_keys = 3\<rparr>"

definition key_96 :: libregf_named_key where
  "key_96 =
     \<lparr>class_name_offset = 0xffffffff, class_name_size = 0, security_key_offset = 500,
      values_list_offset = 0xffffffff, number_of_values = 0,
      sub_keys_list_offset = 0xffffffff, number_of_sub_keys = 0\<rparr>"

definition key_decoder :: "uint8_t list \<Rightarrow> uint32_t \<Rightarrow> libregf_named_key option" where
  "key_decoder data hash =
     (if data = [0x6e, 0x6b, 32] then Some key_32
      else if data = [0x6e, 0x6b, 64] then Some key_64
      else if data = [0x6e, 0x6b, 96] then Some key_96
      else None)"

definition security_decoder :: "uint8_t list \<Rightarrow> libregf_security_key option" where
  "security_decoder data =
     (case data of
        c0 # c1 # descriptor \<Rightarrow>
          if c0 = 0x73 \<and> c1 = 0x6b
            then Some \<lparr>libregf_security_key.security_descriptor = Some descriptor,
                       libregf_security_key.security_descriptor_size = length descriptor\<rparr>
          else None
      | _ \<Rightarrow> None)"

definition key_cells :: "uint32_t \<Rightarrow> uint8_t list option" where
  "key_cells cell_offset =
     (if cell_offset = 32 then Some [0x6e, 0x6b, 32]
      else if cell_offset = 64 then Some [0x6e, 0x6b, 64]
      else if cell_offset = 96 then Some [0x6e, 0x6b, 96]
      else if cell_offset = 200 then Some [0x2C, 1, 0, 0, 0xEF, 0xBE, 0xAD, 0xDE]
      else if cell_offset = 288 then Some [0x41, 0, 0x42, 0, 0, 0, 0, 0]
      else if cell_offset = 320 then Some [0x73, 0x6b, 1, 0, 4, 0x80]
      else None)"

definition key_ranges :: "off64_t \<Rightarrow> int" where
  "key_ranges offset =
     (if offset \<in> {32, 64, 96, 200, 288, 300, 320, 400, 500} then 1 else 0)"

definition key_store :: "(uint8_t list) externals" where
  "key_store = evicting_store key_cells key_ranges key_decoder security_decoder"

definition loaded_key_32 :: libregf_key_item where
  "loaded_key_32 =
     \<lparr>named_key = Some key_32,
      class_name = Some [0x41, 0, 0x42, 0],
      class_name_size = 4,
      security_descriptor = Some [1, 0, 4, 0x80],
      security_descriptor_size = 4,
      values_list =
        Some [\<lparr>range_file_index = 0, range_offset = 300, range_size = 0, range_flags = 0\<rparr>],
      values_cache = Some 256,
      item_flags = {LIBREGF_KEY_ITEM_FLAG_IS_CORRUPTED}\<rparr>"

definition loaded_key_64 :: libregf_key_item where
  "loaded_key_64 =
     \<lparr>named_key = Some key_64,
      class_name = None,
      class_name_size = 0,
      security_descriptor = None,
      security_descriptor_size = 0,
      values_list = Some [],
      values_cache = Some 256,
      item_flags = {LIBREGF_KEY_ITEM_FLAG_IS_CORRUPTED}\<rparr>"

text \<open>
  A hive whose values list at offset 200 holds the offsets \<^verbatim>\<open>0xDEADBEEF\<close> and 300,
  with a probe that fails on the first and knows the second.
\<close>

definition erring_cells :: "uint32_t \<Rightarrow> uint8_t list option" where
  "erring_cells cell_offset =
     (if cell_offset = 200 then Some [0xEF, 0xBE, 0xAD, 0xDE, 0x2C, 1, 0, 0] else None)"

definition erring_index :: "off64_t \<Rightarrow> int" where
  "erring_index offset =
     (if offset = 0xDEADBEEF then - 1 else if offset \<in> {200, 300} then 1 else 0)"

section \<open>Properties\<close>

subsection \<open>Fetching from a store that serves a hive\<close>

lemma get_cell_served:
  assumes "store_serves X cells"
  shows "\<exists>s1. fetched s1 = fetched s @ [cell_offset] \<and>
           (case cells cell_offset of
              None \<Rightarrow> libregf_hive_bins_list_get_cell_at_offset X s cell_offset = (None, s1)
            | Some data \<Rightarrow>
                (\<exists>hive_bin_cell.
                   libregf_hive_bins_list_get_cell_at_offset X s cell_offset
                     = (Some hive_bin_cell, s1) \<and>
                   hive_bin_cell_data X s1 hive_bin_cell = data))"
proof -
  obtain r b1 where g: "get_cell_at_offset X (bins s) cell_offset = (r, b1)"
    by (cases "get_cell_at_offset X (bins s) cell_offset")
  note assms [unfolded store_serves_def, THEN spec, of "bins s", THEN spec, of cell_offset]
  with g show ?thesis
    by (cases r)
       (auto simp: libregf_hive_bins_list_get_cell_at_offset_def hive_bin_cell_data_def)
qed

lemma get_cell_None:
  assumes "store_serves X cells" and "cells cell_offset = None"
  obtains s1 where "libregf_hive_bins_list_get_cell_at_offset X s cell_offset = (None, s1)"
    and "fetched s1 = fetched s @ [cell_offset]"
  using get_cell_served [OF assms(1), of s cell_offset] assms(2) by auto

lemma get_cell_Some:
  assumes "store_serves X cells" and "cells cell_offset = Some data"
  obtains hive_bin_cell s1 where
    "libregf_hive_bins_list_get_cell_at_offset X s cell_offset = (Some hive_bin_cell, s1)"
    and "hive_bin_cell_data X s1 hive_bin_cell = data"
    and "fetched s1 = fetched s @ [cell_offset]"
  using get_cell_served [OF assms(1), of s cell_offset] assms(2) by auto


lemma elements_sim:
  assumes idx: "get_index_at_offset X = get_index_at_offset Y"
    and walk: "\<And>node s t list_offset.
      map_outcome fst (libregf_key_item_read_sub_keys_list X fuel node s list_offset)
        = map_outcome fst (libregf_key_item_read_sub_keys_list Y fuel node t list_offset)"
  shows "map_outcome fst
           (read_sub_keys_list_elements X fuel n element_size at_leaf_level data corruption_detected node s)
         = map_outcome fst
           (read_sub_keys_list_elements Y fuel n element_size at_leaf_level data corruption_detected node t)"
proof (induction n arbitrary: data corruption_detected node s t)
  case 0
  show ?case by simp
next
  case (Suc n)
  show ?case
  proof (cases "byte_stream_copy_to_uint32_little_endian data")
    case None
    then show ?thesis by simp
  next
    case off: (Some element_offset)
    show ?thesis
    proof (cases "if element_size = 8
                   then map_option (\<lambda>h. (h, drop 8 data))
                          (byte_stream_copy_to_uint32_little_endian (drop 4 data))
                 else Some (0, drop 4 data)")
      case None
      with off show ?thesis by simp
    next
      case (Some hd1)
      obtain element_hash data1 where hd1: "hd1 = (element_hash, data1)" by (cases hd1)
      let ?r = "get_index_at_offset Y (uint element_offset)"
      consider (err) "?r = - 1" | (unknown) "?r = 0" | (known) "?r \<noteq> - 1" "?r \<noteq> 0"
        by blast
      then show ?thesis
      proof cases
        case err
        with off Some hd1 idx show ?thesis
          by (simp add: libregf_hive_bins_list_get_index_at_offset_def)
      next
        case unknown
        with off Some hd1 idx Suc.IH [of data1 True node s t] show ?thesis
          by (simp add: libregf_hive_bins_list_get_index_at_offset_def)
      next
        case known
        show ?thesis
        proof (cases at_leaf_level)
          case True
          with known off Some hd1 idx
            Suc.IH [of data1 corruption_detected
                      "libfdata_tree_node_append_sub_node node 0 (uint element_offset)
                         (ucast element_hash) 0" s t]
          show ?thesis
            by (simp add: libregf_hive_bins_list_get_index_at_offset_def)
        next
          case False
          note w = walk [where node = node and s = s and t = t and list_offset = "uint element_offset"]
          show ?thesis
          proof (cases "libregf_key_item_read_sub_keys_list X fuel node s (uint element_offset)")
            case (Return result1 st1)
            obtain node1 s1 where st1: "st1 = (node1, s1)" by (cases st1)
            from w Return st1 obtain t1 where
              y: "libregf_key_item_read_sub_keys_list Y fuel node t (uint element_offset)
                    = Return result1 (node1, t1)"
              by (cases "libregf_key_item_read_sub_keys_list Y fuel node t (uint element_offset)")
                 auto
            from False known off Some hd1 idx Return st1 y
              Suc.IH [of data1 "corruption_detected \<or> result1 = 0" node1 s1 t1]
            show ?thesis
              by (simp add: libregf_hive_bins_list_get_index_at_offset_def)
          next
            case Read_Past_End
            with w have
              "libregf_key_item_read_sub_keys_list Y fuel node t (uint element_offset) = Read_Past_End"
              by (cases "libregf_key_item_read_sub_keys_list Y fuel node t (uint element_offset)")
                 auto
            with False known off Some hd1 idx Read_Past_End show ?thesis
              by (simp add: libregf_hive_bins_list_get_index_at_offset_def)
          next
            case No_Fuel
            with w have
              "libregf_key_item_read_sub_keys_list Y fuel node t (uint element_offset) = No_Fuel"
              by (cases "libregf_key_item_read_sub_keys_list Y fuel node t (uint element_offset)")
                 auto
            with False known off Some hd1 idx No_Fuel show ?thesis
              by (simp add: libregf_hive_bins_list_get_index_at_offset_def)
          qed
        qed
      qed
    qed
  qed
qed

lemma read_sub_keys_list_fetched:
  assumes "libregf_hive_bins_list_get_cell_at_offset X s (word_of_int list_offset)
             = (Some hive_bin_cell, s1)"
    and "hive_bin_cell_data X s1 hive_bin_cell = data"
    and "list_offset \<noteq> 0" and "list_offset \<noteq> 0xffffffff"
  shows "libregf_key_item_read_sub_keys_list X (Suc fuel) node s list_offset =
     (if length data < sizeof_regf_sub_key_list_t then Return (- 1) (node, s1)
      else
        (case sub_keys_list_signature data of
           None \<Rightarrow> Return (- 1) (node, s1)
         | Some (element_size, at_leaf_level) \<Rightarrow>
             (case byte_stream_copy_to_uint16_little_endian (drop 2 data) of
                None \<Rightarrow> Read_Past_End
              | Some number_of_elements \<Rightarrow>
                  if length data - sizeof_regf_sub_key_list_t
                       < unat number_of_elements * element_size
                    then Return (- 1) (node, s1)
                  else read_sub_keys_list_elements X fuel (unat number_of_elements)
                         element_size at_leaf_level
                         (drop sizeof_regf_sub_key_list_t data) False node s1)))"
  using assms(1,3,4) unfolding assms(2) [symmetric] by (simp add: Let_def)

lemma read_sub_keys_list_not_fetched:
  assumes "libregf_hive_bins_list_get_cell_at_offset X s (word_of_int list_offset) = (None, s1)"
  shows "\<exists>s2. libregf_key_item_read_sub_keys_list X (Suc fuel) node s list_offset
           = Return (- 1) (node, s2)"
  using assms by simp

lemma evicting_store_serves:
  "store_serves (evicting_store cells index nk_decoder sk_decoder) cells"
  by (simp add: store_serves_def evicting_store_def split: option.split)

lemma keeping_store_serves:
  "store_serves (keeping_store cells index nk_decoder sk_decoder) cells"
  by (simp add: store_serves_def keeping_store_def split: option.split)

subsection \<open>The walk does not depend on what the store evicts\<close>

text \<open>
  C2. Two stores that serve the same cells and probe alike, whatever either does to its
  cache at a fetch, give the walk over the sub keys lists the same outcome: the same
  returned status and the same tree node, so the same sub nodes with offset and hash in
  the same order, or on both sides no return within the budget of nested calls. The
  store that never evicts is one of them. This holds because the walk reads each cell
  once, right after fetching it, into its own copy.
\<close>

theorem sub_keys_walk_independent_of_eviction:
  assumes X: "store_serves X cells" and Y: "store_serves Y cells"
    and idx: "get_index_at_offset X = get_index_at_offset Y"
  shows "map_outcome fst (libregf_key_item_read_sub_keys_list X fuel node s list_offset)
         = map_outcome fst (libregf_key_item_read_sub_keys_list Y fuel node t list_offset)"
proof (induction fuel arbitrary: node s t list_offset)
  case 0
  show ?case by simp
next
  case (Suc fuel)
  show ?case
  proof (cases "list_offset = 0 \<or> list_offset = 0xffffffff")
    case True
    then show ?thesis by auto
  next
    case sentinel: False
    show ?thesis
    proof (cases "cells (word_of_int list_offset)")
      case None
      from get_cell_None [OF X None, of s] obtain s1 where
        "libregf_hive_bins_list_get_cell_at_offset X s (word_of_int list_offset) = (None, s1)"
        by metis
      from read_sub_keys_list_not_fetched [OF this, of fuel node] obtain s2 where
        x: "libregf_key_item_read_sub_keys_list X (Suc fuel) node s list_offset
              = Return (- 1) (node, s2)" by blast
      from get_cell_None [OF Y None, of t] obtain t1 where
        "libregf_hive_bins_list_get_cell_at_offset Y t (word_of_int list_offset) = (None, t1)"
        by metis
      from read_sub_keys_list_not_fetched [OF this, of fuel node] obtain t2 where
        y: "libregf_key_item_read_sub_keys_list Y (Suc fuel) node t list_offset
              = Return (- 1) (node, t2)" by blast
      show ?thesis unfolding x y by simp
    next
      case (Some data)
      from get_cell_Some [OF X Some, of s] obtain cx s1 where
        x: "libregf_hive_bins_list_get_cell_at_offset X s (word_of_int list_offset) = (Some cx, s1)"
           "hive_bin_cell_data X s1 cx = data"
        by metis
      from get_cell_Some [OF Y Some, of t] obtain cy t1 where
        y: "libregf_hive_bins_list_get_cell_at_offset Y t (word_of_int list_offset) = (Some cy, t1)"
           "hive_bin_cell_data Y t1 cy = data"
        by metis
      from sentinel have ne: "list_offset \<noteq> 0" "list_offset \<noteq> 0xffffffff" by auto
      note ex = read_sub_keys_list_fetched [OF x ne, of fuel node]
      note ey = read_sub_keys_list_fetched [OF y ne, of fuel node]
      have e: "\<And>n element_size at_leaf_level.
        map_outcome fst (read_sub_keys_list_elements X fuel n element_size at_leaf_level
          (drop sizeof_regf_sub_key_list_t data) False node s1)
        = map_outcome fst (read_sub_keys_list_elements Y fuel n element_size at_leaf_level
          (drop sizeof_regf_sub_key_list_t data) False node t1)"
        by (rule elements_sim [OF idx Suc.IH])
      show ?thesis unfolding ex ey
        by (simp add: e split: option.split prod.split)
    qed
  qed
qed

theorem sub_keys_walk_independent_of_eviction_witness:
  "store_serves (evicting_store ri_cells ri_index no_named_key no_security_key) ri_cells \<and>
   store_serves (keeping_store ri_cells ri_index no_named_key no_security_key) ri_cells \<and>
   get_index_at_offset (evicting_store ri_cells ri_index no_named_key no_security_key)
     = get_index_at_offset (keeping_store ri_cells ri_index no_named_key no_security_key) \<and>
   map_outcome fst
     (libregf_key_item_read_sub_keys_list
        (evicting_store ri_cells ri_index no_named_key no_security_key)
        (Suc (Suc 0)) empty_node \<lparr>bins = [], fetched = []\<rparr> 400)
   = map_outcome fst
     (libregf_key_item_read_sub_keys_list
        (keeping_store ri_cells ri_index no_named_key no_security_key)
        (Suc (Suc 0)) empty_node \<lparr>bins = [], fetched = []\<rparr> 400) \<and>
   map_outcome fst
     (libregf_key_item_read_sub_keys_list
        (keeping_store ri_cells ri_index no_named_key no_security_key)
        (Suc (Suc 0)) empty_node \<lparr>bins = [], fetched = []\<rparr> 400)
   = Return 1
       \<lparr>sub_nodes_data_range = None,
        sub_nodes =
          [\<lparr>range_file_index = 0, range_offset = 500, range_size = 0x44332211,
            range_flags = 0\<rparr>,
           \<lparr>range_file_index = 0, range_offset = 600, range_size = 0x88776655,
            range_flags = 0\<rparr>],
        node_value = None\<rparr>"
proof -
  have h1: "store_serves (evicting_store ri_cells ri_index no_named_key no_security_key) ri_cells"
    by (rule evicting_store_serves)
  have h2: "store_serves (keeping_store ri_cells ri_index no_named_key no_security_key) ri_cells"
    by (rule keeping_store_serves)
  have h3: "get_index_at_offset (evicting_store ri_cells ri_index no_named_key no_security_key)
     = get_index_at_offset (keeping_store ri_cells ri_index no_named_key no_security_key)"
    by (simp add: evicting_store_def keeping_store_def)
  have v: "map_outcome fst
     (libregf_key_item_read_sub_keys_list
        (keeping_store ri_cells ri_index no_named_key no_security_key)
        (Suc (Suc 0)) empty_node \<lparr>bins = [], fetched = []\<rparr> 400)
   = Return 1
       \<lparr>sub_nodes_data_range = None,
        sub_nodes =
          [\<lparr>range_file_index = 0, range_offset = 500, range_size = 0x44332211,
            range_flags = 0\<rparr>,
           \<lparr>range_file_index = 0, range_offset = 600, range_size = 0x88776655,
            range_flags = 0\<rparr>],
        node_value = None\<rparr>"
    by code_simp
  from h1 h2 h3 v
    sub_keys_walk_independent_of_eviction [OF h1 h2 h3, of "Suc (Suc 0)" empty_node
      "\<lparr>bins = [], fetched = []\<rparr>" 400 "\<lparr>bins = [], fetched = []\<rparr>"]
  show ?thesis by simp
qed

subsection \<open>Freeing a key item\<close>

text \<open>
  C10. \<^verbatim>\<open>libregf_key_item_free\<close> on a valid pointer whose target is already
  \<^verbatim>\<open>NULL\<close> returns 1 and changes nothing: the target stays \<^verbatim>\<open>NULL\<close> and
  no block is freed. Every free that returns 1 leaves the target \<^verbatim>\<open>NULL\<close>, so
  a second free of the same pointer variable returns 1 as well and leaves the target and
  the freed blocks as the first free left them.
\<close>

theorem key_item_free_twice:
  "libregf_key_item_free X (Some None) freed = (1, Some None, freed) \<and>
   (libregf_key_item_free X key_item freed = (1, key_item1, freed1) \<longrightarrow>
      key_item1 = Some None \<and>
      libregf_key_item_free X key_item1 freed1 = (1, key_item1, freed1))"
  by (auto simp: libregf_key_item_free_def Let_def split: option.splits if_splits)

theorem key_item_free_twice_witness:
  "libregf_key_item_free (evicting_store ri_cells ri_index no_named_key no_security_key)
     (Some (Some full_key_item)) []
   = (1, Some None,
      [Class_name_block [0x41, 0], Security_descriptor_block [1, 0, 4, 0x80], Key_item_block]) \<and>
   libregf_key_item_free (evicting_store ri_cells ri_index no_named_key no_security_key)
     (Some None)
     [Class_name_block [0x41, 0], Security_descriptor_block [1, 0, 4, 0x80], Key_item_block]
   = (1, Some None,
      [Class_name_block [0x41, 0], Security_descriptor_block [1, 0, 4, 0x80], Key_item_block])"
proof -
  have h: "libregf_key_item_free (evicting_store ri_cells ri_index no_named_key no_security_key)
     (Some (Some full_key_item)) []
   = (1, Some None,
      [Class_name_block [0x41, 0], Security_descriptor_block [1, 0, 4, 0x80], Key_item_block])"
    by (simp add: libregf_key_item_free_def full_key_item_def evicting_store_def)
  from h key_item_free_twice
      [of "evicting_store ri_cells ri_index no_named_key no_security_key" "[]"
          "Some (Some full_key_item)" "Some None"
          "[Class_name_block [0x41, 0], Security_descriptor_block [1, 0, 4, 0x80], Key_item_block]"]
  show ?thesis by simp
qed

subsection \<open>The values list\<close>

lemma copy_to_uint32_Some:
  "4 \<le> length data \<Longrightarrow> \<exists>v. byte_stream_copy_to_uint32_little_endian data = Some v"
  by (cases data rule: list.exhaust; simp add: byte_stream_copy_to_uint32_little_endian_def split: list.split)
     (auto simp: Suc_le_eq split: list.split)

lemma copy_to_uint32_None:
  "length data < 4 \<Longrightarrow> byte_stream_copy_to_uint32_little_endian data = None"
  by (auto simp: byte_stream_copy_to_uint32_little_endian_def split: list.split)

lemma length_values_list_element_offsets:
  "4 * n \<le> length data \<Longrightarrow> length (values_list_element_offsets n data) = n"
proof (induction n arbitrary: data)
  case 0
  show ?case by simp
next
  case (Suc n)
  then have "4 \<le> length data" by simp
  from copy_to_uint32_Some [OF this] obtain v where
    v: "byte_stream_copy_to_uint32_little_endian data = Some v" by blast
  from Suc.prems have "4 * n \<le> length (drop 4 data)" by simp
  from Suc.IH [OF this] v show ?case by simp
qed

lemma read_values_list_elements_all:
  assumes "4 * n \<le> length data"
    and "\<forall>e \<in> set (values_list_element_offsets n data).
           libregf_hive_bins_list_get_index_at_offset X (uint e) \<noteq> - 1"
    and "values_list key_item = Some elements"
  shows "read_values_list_elements X n data key_item =
     Return 1
       (key_item\<lparr>
          values_list :=
            Some (elements @
              map value_element
                (filter (known_offset X) (values_list_element_offsets n data))),
          item_flags :=
            (if \<forall>e \<in> set (values_list_element_offsets n data). known_offset X e
               then item_flags key_item
             else insert LIBREGF_KEY_ITEM_FLAG_IS_CORRUPTED (item_flags key_item))\<rparr>)"
  using assms
proof (induction n arbitrary: data key_item elements)
  case 0
  then show ?case by simp
next
  case (Suc n)
  then have "4 \<le> length data" by simp
  from copy_to_uint32_Some [OF this] obtain v where
    v: "byte_stream_copy_to_uint32_little_endian data = Some v" by blast
  from Suc.prems(1) have len: "4 * n \<le> length (drop 4 data)" by simp
  from Suc.prems(2) v have
    nerr: "libregf_hive_bins_list_get_index_at_offset X (uint v) \<noteq> - 1"
    and rest: "\<forall>e \<in> set (values_list_element_offsets n (drop 4 data)).
           libregf_hive_bins_list_get_index_at_offset X (uint e) \<noteq> - 1"
    by simp_all
  show ?case
  proof (cases "known_offset X v")
    case True
    let ?k = "key_item\<lparr>values_list := Some (elements @ [value_element v])\<rparr>"
    have vl: "values_list ?k = Some (elements @ [value_element v])" by simp
    from Suc.IH [OF len rest vl] True nerr v Suc.prems(3) show ?thesis
      by (simp add: known_offset_def libfdata_list_append_element_def value_element_def)
  next
    case False
    let ?k = "key_item\<lparr>item_flags :=
                insert LIBREGF_KEY_ITEM_FLAG_IS_CORRUPTED (item_flags key_item)\<rparr>"
    have vl: "values_list ?k = Some elements" using Suc.prems(3) by simp
    from Suc.IH [OF len rest vl] False nerr v show ?thesis
      by (simp add: known_offset_def)
  qed
qed

lemma unat_times_4_le: "unat (n * 4 :: uint32_t) \<le> 4 * unat n"
  by (simp add: unat_word_ariths mult.commute)


text \<open>
  C4, as amended. When the values list cell is fetched and holds at least 4 times the
  number of values in bytes, the product taken in the natural numbers, the key item has
  a values list, and no probe of an element offset reports an error,
  \<^verbatim>\<open>libregf_key_item_read_values_list\<close> returns 1 and has appended exactly the
  elements whose offsets the bin ranges know, in the order of the cell; the corrupted
  flag is set when an element was skipped and left as it was otherwise. So the number of
  elements appended is the number of values less the number skipped, and when every
  offset is known each of them is appended.
\<close>

theorem values_list_keeps_known_elements:
  assumes "store_serves X cells"
    and "count \<noteq> 0" and "list_offset \<noteq> 0" and "list_offset \<noteq> 0xffffffff"
    and "cells list_offset = Some data"
    and "4 * unat count \<le> length data"
    and "values_list key_item = Some elements"
    and "\<forall>e \<in> set (values_list_element_offsets (unat count) data).
           libregf_hive_bins_list_get_index_at_offset X (uint e) \<noteq> - 1"
  shows "(\<exists>s1. libregf_key_item_read_values_list X key_item s list_offset count =
            Return 1
              (key_item\<lparr>
                 values_list :=
                   Some (elements @
                     map value_element
                       (filter (known_offset X)
                          (values_list_element_offsets (unat count) data))),
                 item_flags :=
                   (if \<forall>e \<in> set (values_list_element_offsets (unat count) data).
                         known_offset X e
                      then item_flags key_item
                    else insert LIBREGF_KEY_ITEM_FLAG_IS_CORRUPTED (item_flags key_item))\<rparr>,
               s1)) \<and>
         length (values_list_element_offsets (unat count) data) = unat count \<and>
         length (filter (known_offset X) (values_list_element_offsets (unat count) data))
           = unat count
             - length (filter (\<lambda>e. \<not> known_offset X e)
                         (values_list_element_offsets (unat count) data)) \<and>
         ((\<forall>e \<in> set (values_list_element_offsets (unat count) data). known_offset X e) \<longrightarrow>
            filter (known_offset X) (values_list_element_offsets (unat count) data)
              = values_list_element_offsets (unat count) data)"
proof -
  let ?offsets = "values_list_element_offsets (unat count) data"
  from get_cell_Some [OF assms(1) assms(5), of s] obtain hive_bin_cell s1 where
    f: "libregf_hive_bins_list_get_cell_at_offset X s list_offset = (Some hive_bin_cell, s1)"
       "hive_bin_cell_data X s1 hive_bin_cell = data"
    by metis
  have chk: "\<not> length data < unat (count * 4)"
    using unat_times_4_le [of count] assms(6) by simp
  note loop = read_values_list_elements_all [OF assms(6) assms(8) assms(7)]
  have run: "libregf_key_item_read_values_list X key_item s list_offset count =
      map_outcome (\<lambda>key_item1. (key_item1, s1))
        (read_values_list_elements X (unat count) data key_item)"
    using assms(2,3,4) f chk by (simp add: libregf_key_item_read_values_list_def)
  have len: "length ?offsets = unat count"
    by (rule length_values_list_element_offsets [OF assms(6)])
  have "length ?offsets = length (filter (known_offset X) ?offsets)
          + length (filter (\<lambda>e. \<not> known_offset X e) ?offsets)"
    by (rule sum_length_filter_compl [symmetric])
  with len have cnt: "length (filter (known_offset X) ?offsets)
      = unat count - length (filter (\<lambda>e. \<not> known_offset X e) ?offsets)"
    by simp
  from run loop len cnt show ?thesis by simp
qed

theorem values_list_keeps_known_elements_witness:
  "libregf_key_item_read_values_list
     (evicting_store values_cells values_index no_named_key no_security_key)
     listed_key_item \<lparr>bins = [], fetched = []\<rparr> 200 2
   = Return 1
       (listed_key_item\<lparr>
          values_list := Some [value_element 300],
          item_flags := {LIBREGF_KEY_ITEM_FLAG_IS_CORRUPTED}\<rparr>,
        \<lparr>bins = [0x2C, 1, 0, 0, 0xEF, 0xBE, 0xAD, 0xDE], fetched = [200]\<rparr>)"
proof -
  let ?X = "evicting_store values_cells values_index no_named_key no_security_key"
  let ?data = "[0x2C, 1, 0, 0, 0xEF, 0xBE, 0xAD, 0xDE] :: uint8_t list"
  have h1: "store_serves ?X values_cells" by (rule evicting_store_serves)
  have h2: "(2 :: uint32_t) \<noteq> 0" by simp
  have h3: "(200 :: uint32_t) \<noteq> 0" by simp
  have h4: "(200 :: uint32_t) \<noteq> 0xffffffff" by simp
  have h5: "values_cells 200 = Some ?data" by (simp add: values_cells_def)
  have h6: "4 * unat (2 :: uint32_t) \<le> length ?data" by simp
  have h7: "values_list listed_key_item = Some []" by (simp add: listed_key_item_def)
  have offs: "values_list_element_offsets (unat (2 :: uint32_t)) ?data = [300, 0xDEADBEEF]"
    by code_simp
  have k1: "known_offset ?X 300" by code_simp
  have k2: "\<not> known_offset ?X 0xDEADBEEF" by code_simp
  have h8: "\<forall>e \<in> set (values_list_element_offsets (unat (2 :: uint32_t)) ?data).
              libregf_hive_bins_list_get_index_at_offset ?X (uint e) \<noteq> - 1"
    unfolding offs
    by (simp add: libregf_hive_bins_list_get_index_at_offset_def evicting_store_def
          values_index_def)
  have run: "libregf_key_item_read_values_list ?X listed_key_item
               \<lparr>bins = [], fetched = []\<rparr> 200 2
             = Return 1
                 (listed_key_item\<lparr>
                    values_list := Some [value_element 300],
                    item_flags := {LIBREGF_KEY_ITEM_FLAG_IS_CORRUPTED}\<rparr>,
                  \<lparr>bins = ?data, fetched = [200]\<rparr>)"
    by code_simp
  from values_list_keeps_known_elements [OF h1 h2 h3 h4 h5 h6 h7 h8,
      of "\<lparr>bins = [], fetched = []\<rparr>"] run
  show ?thesis by simp
qed

text \<open>
  C4 as stated fails: the cell at offset 200 is fetched and holds the 8 bytes of its two
  elements, the probe fails on the first offset, and
  \<^verbatim>\<open>libregf_key_item_read_values_list\<close> returns \<open>-1\<close> with nothing appended and
  the corrupted flag not set, although the bin ranges know the second offset.
\<close>

theorem values_list_keeps_known_elements_counterexample:
  "libregf_key_item_read_values_list
     (evicting_store erring_cells erring_index no_named_key no_security_key)
     listed_key_item \<lparr>bins = [], fetched = []\<rparr> 200 2
   = Return (- 1)
       (listed_key_item,
        \<lparr>bins = [0xEF, 0xBE, 0xAD, 0xDE, 0x2C, 1, 0, 0], fetched = [200]\<rparr>) \<and>
   erring_cells 200 = Some [0xEF, 0xBE, 0xAD, 0xDE, 0x2C, 1, 0, 0] \<and>
   \<not> length [0xEF, 0xBE, 0xAD, 0xDE, 0x2C, 1, 0, 0 :: uint8_t] < unat (2 * 4 :: uint32_t) \<and>
   values_list_element_offsets 2 [0xEF, 0xBE, 0xAD, 0xDE, 0x2C, 1, 0, 0] = [0xDEADBEEF, 300] \<and>
   known_offset (evicting_store erring_cells erring_index no_named_key no_security_key) 300 \<and>
   values_list listed_key_item = Some [] \<and> item_flags listed_key_item = {}"
  by code_simp

lemma read_values_list_elements_past_end:
  assumes "byte_stream_copy_to_uint32_little_endian data = Some v"
    and "libregf_hive_bins_list_get_index_at_offset X (uint v) \<noteq> - 1"
    and "values_list key_item = Some elements"
    and "length data < 8"
  shows "read_values_list_elements X (Suc (Suc n)) data key_item = Read_Past_End"
proof -
  from assms(4) have "byte_stream_copy_to_uint32_little_endian (drop 4 data) = None"
    by (simp add: copy_to_uint32_None)
  with assms(1,2,3) show ?thesis
    by (simp add: libfdata_list_append_element_def)
qed

text \<open>
  C3. The size check of \<^verbatim>\<open>libregf_key_item_read_values_list\<close> multiplies in 32
  bits. With \<^verbatim>\<open>0x40000001\<close> values the product wraps to 4, a payload of 4 bytes
  passes the check although it is smaller than 4 times the number of values, and the
  second iteration of the loop reads behind the payload.
\<close>

theorem values_list_size_check_wraps:
  "libregf_key_item_read_values_list
     (evicting_store values_cells values_index no_named_key no_security_key)
     listed_key_item \<lparr>bins = [], fetched = []\<rparr> 0x200 0x40000001
   = Read_Past_End \<and>
   values_cells 0x200 = Some [0x2C, 1, 0, 0] \<and>
   length [0x2C, 1, 0, 0 :: uint8_t] < unat (0x40000001 :: uint32_t) * 4"
proof -
  let ?X = "evicting_store values_cells values_index no_named_key no_security_key"
  have u: "unat (0x40000001 :: uint32_t) = Suc (Suc 1073741823)" by simp
  have w: "(0x40000001 :: uint32_t) * 4 = 4" by simp
  have r: "byte_stream_copy_to_uint32_little_endian [0x2C, 1, 0, 0] = Some 300"
    by (simp add: byte_stream_copy_to_uint32_little_endian_def)
  have i: "libregf_hive_bins_list_get_index_at_offset ?X (uint (300 :: uint32_t)) \<noteq> - 1"
    by (simp add: libregf_hive_bins_list_get_index_at_offset_def evicting_store_def
          values_index_def)
  have l: "values_list listed_key_item = Some []" by (simp add: listed_key_item_def)
  have loop: "read_values_list_elements ?X (unat (0x40000001 :: uint32_t)) [0x2C, 1, 0, 0]
                listed_key_item = Read_Past_End"
    unfolding u by (rule read_values_list_elements_past_end [OF r i l]) simp
  have c: "values_cells 0x200 = Some [0x2C, 1, 0, 0]" by (simp add: values_cells_def)
  have "libregf_key_item_read_values_list ?X listed_key_item \<lparr>bins = [], fetched = []\<rparr>
          0x200 0x40000001
        = map_outcome (\<lambda>key_item1. (key_item1, \<lparr>bins = [0x2C, 1, 0, 0], fetched = [0x200]\<rparr>))
            (read_values_list_elements ?X (unat (0x40000001 :: uint32_t)) [0x2C, 1, 0, 0]
               listed_key_item)"
    unfolding libregf_key_item_read_values_list_def w
    by (simp add: libregf_hive_bins_list_get_cell_at_offset_def hive_bin_cell_data_def c
          evicting_store_def Let_def del: read_values_list_elements.simps)
  with loop c show ?thesis by simp
qed

subsection \<open>The sub keys list\<close>

lemma copy_to_uint16_Some:
  "2 \<le> length data \<Longrightarrow> \<exists>v. byte_stream_copy_to_uint16_little_endian data = Some v"
  by (auto simp: byte_stream_copy_to_uint16_little_endian_def Suc_le_eq split: list.split)

lemma sub_keys_list_signature_sizes:
  "sub_keys_list_signature data = Some (element_size, at_leaf_level) \<Longrightarrow>
   element_size = 4 \<or> element_size = 8"
  by (auto simp: sub_keys_list_signature_def split: list.splits if_splits)

lemma read_sub_keys_list_elements_at_leaf:
  assumes "n * element_size \<le> length data"
    and "element_size = 4 \<or> element_size = 8"
    and "\<forall>e \<in> set (sub_keys_list_elements n element_size data).
           libregf_hive_bins_list_get_index_at_offset X (uint (fst e)) \<noteq> - 1"
  shows "read_sub_keys_list_elements X fuel n element_size True data corruption_detected node s =
     Return
       (if corruption_detected \<or>
           (\<exists>e \<in> set (sub_keys_list_elements n element_size data). \<not> known_offset X (fst e))
          then 0 else 1)
       (node\<lparr>sub_nodes := sub_nodes node @
                map sub_node
                  (filter (\<lambda>e. known_offset X (fst e))
                     (sub_keys_list_elements n element_size data))\<rparr>,
        s)"
  using assms
proof (induction n arbitrary: data corruption_detected node)
  case 0
  then show ?case by simp
next
  case (Suc n)
  from Suc.prems(1,2) have l4: "4 \<le> length data" and l: "element_size \<le> length data"
    by auto
  from copy_to_uint32_Some [OF l4] obtain v where
    v: "byte_stream_copy_to_uint32_little_endian data = Some v" by blast
  have "\<exists>h. (if element_size = 8
                   then map_option (\<lambda>h. (h, drop 8 data))
                          (byte_stream_copy_to_uint32_little_endian (drop 4 data))
                 else Some (0, drop 4 data)) = Some (h, drop element_size data)"
  proof (cases "element_size = 8")
    case True
    with l have "4 \<le> length (drop 4 data)" by simp
    from copy_to_uint32_Some [OF this] True show ?thesis by auto
  next
    case False
    with Suc.prems(2) show ?thesis by auto
  qed
  then obtain h where
    h: "(if element_size = 8
                   then map_option (\<lambda>h. (h, drop 8 data))
                          (byte_stream_copy_to_uint32_little_endian (drop 4 data))
                 else Some (0, drop 4 data)) = Some (h, drop element_size data)" by blast
  from Suc.prems(1) have len: "n * element_size \<le> length (drop element_size data)" by simp
  have els: "sub_keys_list_elements (Suc n) element_size data
      = (v, h) # sub_keys_list_elements n element_size (drop element_size data)"
    using v h by simp
  from Suc.prems(3) [unfolded els] have
    nerr: "libregf_hive_bins_list_get_index_at_offset X (uint v) \<noteq> - 1"
    and rest: "\<forall>e \<in> set (sub_keys_list_elements n element_size (drop element_size data)).
           libregf_hive_bins_list_get_index_at_offset X (uint (fst e)) \<noteq> - 1"
    by simp_all
  note IH = Suc.IH [OF len Suc.prems(2) rest]
  show ?case
  proof (cases "known_offset X v")
    case True
    have step: "read_sub_keys_list_elements X fuel (Suc n) element_size True data
                  corruption_detected node s
        = read_sub_keys_list_elements X fuel n element_size True (drop element_size data)
            corruption_detected
            (libfdata_tree_node_append_sub_node node 0 (uint v) (ucast h) 0) s"
      using v h True nerr by (simp add: known_offset_def)
    show ?thesis unfolding step IH els using True
      by (simp add: libfdata_tree_node_append_sub_node_def sub_node_def)
  next
    case False
    have step: "read_sub_keys_list_elements X fuel (Suc n) element_size True data
                  corruption_detected node s
        = read_sub_keys_list_elements X fuel n element_size True (drop element_size data)
            True node s"
      using v h False nerr by (simp add: known_offset_def)
    show ?thesis unfolding step IH els using False by simp
  qed
qed


lemma read_sub_keys_list_elements_keep_value:
  assumes walk: "\<And>node s list_offset result node1 s1.
      libregf_key_item_read_sub_keys_list X fuel node s list_offset = Return result (node1, s1)
      \<Longrightarrow> node_value node1 = node_value node"
    and "read_sub_keys_list_elements X fuel n element_size at_leaf_level data
           corruption_detected node s = Return result (node1, s1)"
  shows "node_value node1 = node_value node"
  using assms(2)
proof (induction n arbitrary: data corruption_detected node s)
  case 0
  then show ?case by simp
next
  case (Suc n)
  from Suc.prems obtain v where
    v: "byte_stream_copy_to_uint32_little_endian data = Some v"
    by (cases "byte_stream_copy_to_uint32_little_endian data") auto
  from Suc.prems v obtain h data1 where
    h: "(if element_size = 8
           then map_option (\<lambda>h. (h, drop 8 data))
                  (byte_stream_copy_to_uint32_little_endian (drop 4 data))
         else Some (0, drop 4 data)) = Some (h, data1)"
    by (cases "if element_size = 8
           then map_option (\<lambda>h. (h, drop 8 data))
                  (byte_stream_copy_to_uint32_little_endian (drop 4 data))
         else Some (0, drop 4 data)") auto
  let ?r = "libregf_hive_bins_list_get_index_at_offset X (uint v)"
  consider (err) "?r = - 1" | (unknown) "?r = 0"
    | (leaf) "?r \<noteq> - 1" "?r \<noteq> 0" "at_leaf_level"
    | (inner) "?r \<noteq> - 1" "?r \<noteq> 0" "\<not> at_leaf_level"
    by blast
  then show ?case
  proof cases
    case err
    with Suc.prems v h show ?thesis by simp
  next
    case unknown
    with Suc.prems v h have
      "read_sub_keys_list_elements X fuel n element_size at_leaf_level data1 True node s
         = Return result (node1, s1)" by simp
    from Suc.IH [OF this] show ?thesis .
  next
    case leaf
    with Suc.prems v h have
      "read_sub_keys_list_elements X fuel n element_size at_leaf_level data1
         corruption_detected
         (libfdata_tree_node_append_sub_node node 0 (uint v) (ucast h) 0) s
         = Return result (node1, s1)" by simp
    from Suc.IH [OF this] show ?thesis
      by (simp add: libfdata_tree_node_append_sub_node_def)
  next
    case inner
    show ?thesis
    proof (cases "libregf_key_item_read_sub_keys_list X fuel node s (uint v)")
      case (Return result2 st2)
      obtain node2 s2 where st2: "st2 = (node2, s2)" by (cases st2)
      note kept = walk [OF Return [unfolded st2]]
      show ?thesis
      proof (cases "result2 = - 1")
        case True
        with Suc.prems v h inner Return st2 kept show ?thesis by simp
      next
        case False
        with Suc.prems v h inner Return st2 have
          "read_sub_keys_list_elements X fuel n element_size at_leaf_level data1
             (corruption_detected \<or> result2 = 0) node2 s2 = Return result (node1, s1)"
          by simp
        from Suc.IH [OF this] kept show ?thesis by simp
      qed
    next
      case Read_Past_End
      with Suc.prems v h inner show ?thesis by simp
    next
      case No_Fuel
      with Suc.prems v h inner show ?thesis by simp
    qed
  qed
qed

lemma read_sub_keys_list_keeps_value:
  "libregf_key_item_read_sub_keys_list X fuel node s list_offset = Return result (node1, s1)
   \<Longrightarrow> node_value node1 = node_value node"
proof (induction fuel arbitrary: node s list_offset result node1 s1)
  case 0
  then show ?case by simp
next
  case (Suc fuel)
  have loop: "node_value n1 = node_value n0"
    if "read_sub_keys_list_elements X fuel n element_size at_leaf_level data
          corruption_detected n0 t = Return r (n1, t1)"
    for n element_size at_leaf_level data corruption_detected n0 t r n1 t1
    using Suc.IH that by (rule read_sub_keys_list_elements_keep_value)
  from Suc.prems show ?case
    by (auto simp: Let_def split: if_splits option.splits prod.splits dest: loop)
qed

lemma read_sub_nodes_keeps_value:
  "libregf_key_item_read_sub_nodes X fuel node s sub_nodes_data_offset
     = Return result (node1, s1)
   \<Longrightarrow> node_value node1 = node_value node"
  by (auto simp: libregf_key_item_read_sub_nodes_def
           split: outcome.splits if_splits dest: read_sub_keys_list_keeps_value)


lemma read_sub_keys_list_cell:
  assumes "store_serves X cells"
    and "cells (word_of_int list_offset) = Some data"
    and "list_offset \<noteq> 0" and "list_offset \<noteq> 0xffffffff"
  shows "(sub_keys_list_malformed data \<longrightarrow>
            (\<exists>s1. libregf_key_item_read_sub_keys_list X (Suc fuel) node s list_offset
                     = Return (- 1) (node, s1))) \<and>
         (\<not> sub_keys_list_malformed data \<and>
          sub_keys_list_signature data = Some (element_size, True) \<and>
          byte_stream_copy_to_uint16_little_endian (drop 2 data) = Some number_of_elements \<and>
          (\<forall>e \<in> set (sub_keys_list_elements (unat number_of_elements) element_size
                        (drop 4 data)).
             libregf_hive_bins_list_get_index_at_offset X (uint (fst e)) \<noteq> - 1) \<longrightarrow>
            (\<exists>s1. libregf_key_item_read_sub_keys_list X (Suc fuel) node s list_offset
                     = Return
                         (if \<exists>e \<in> set (sub_keys_list_elements (unat number_of_elements)
                                          element_size (drop 4 data)).
                               \<not> known_offset X (fst e)
                            then 0 else 1)
                         (node\<lparr>sub_nodes := sub_nodes node @
                                  map sub_node
                                    (filter (\<lambda>e. known_offset X (fst e))
                                       (sub_keys_list_elements (unat number_of_elements)
                                          element_size (drop 4 data)))\<rparr>,
                          s1))) \<and>
         sub_keys_list_signature (c0 # c1 # rest) =
           (if c0 = 0x72 \<and> c1 = 0x69 then Some (4, False)
            else if c0 = 0x6c \<and> c1 = 0x69 then Some (4, True)
            else if c0 = 0x6c \<and> (c1 = 0x66 \<or> c1 = 0x68) then Some (8, True)
            else None)"
proof -
  from get_cell_Some [OF assms(1,2), of s] obtain hive_bin_cell s1 where
    f: "libregf_hive_bins_list_get_cell_at_offset X s (word_of_int list_offset)
          = (Some hive_bin_cell, s1)"
       "hive_bin_cell_data X s1 hive_bin_cell = data"
    by metis
  note run = read_sub_keys_list_fetched [OF f assms(3,4), of fuel node]
  have fatal: "libregf_key_item_read_sub_keys_list X (Suc fuel) node s list_offset
                 = Return (- 1) (node, s1)"
    if "sub_keys_list_malformed data"
  proof (cases "length data < 4")
    case True
    then show ?thesis unfolding run by (simp add: sizeof_regf_sub_key_list_t_def)
  next
    case False
    then have "2 \<le> length (drop 2 data)" by simp
    from copy_to_uint16_Some [OF this] obtain n where
      n: "byte_stream_copy_to_uint16_little_endian (drop 2 data) = Some n" by blast
    from that False n show ?thesis unfolding run
      by (auto simp: sub_keys_list_malformed_def sizeof_regf_sub_key_list_t_def
               split: option.splits)
  qed
  have leaf: "libregf_key_item_read_sub_keys_list X (Suc fuel) node s list_offset
      = Return
          (if \<exists>e \<in> set (sub_keys_list_elements (unat number_of_elements)
                           element_size (drop 4 data)).
                \<not> known_offset X (fst e)
             then 0 else 1)
          (node\<lparr>sub_nodes := sub_nodes node @
                   map sub_node
                     (filter (\<lambda>e. known_offset X (fst e))
                        (sub_keys_list_elements (unat number_of_elements)
                           element_size (drop 4 data)))\<rparr>,
           s1)"
    if wf: "\<not> sub_keys_list_malformed data"
      and sg: "sub_keys_list_signature data = Some (element_size, True)"
      and n: "byte_stream_copy_to_uint16_little_endian (drop 2 data) = Some number_of_elements"
      and pr: "\<forall>e \<in> set (sub_keys_list_elements (unat number_of_elements) element_size
                        (drop 4 data)).
             libregf_hive_bins_list_get_index_at_offset X (uint (fst e)) \<noteq> - 1"
  proof -
    from wf sg n have l4: "\<not> length data < 4"
      and ln: "\<not> length data < 4 + unat number_of_elements * element_size"
      by (auto simp: sub_keys_list_malformed_def)
    then have len: "unat number_of_elements * element_size \<le> length (drop 4 data)"
      by simp
    note loop = read_sub_keys_list_elements_at_leaf
      [OF len sub_keys_list_signature_sizes [OF sg] pr, of fuel False node s1]
    from l4 ln have chk: "\<not> length data - 4 < unat number_of_elements * element_size"
      by arith
    from l4 chk sg n show ?thesis unfolding run
      by (simp add: sizeof_regf_sub_key_list_t_def loop)
  qed
  have shape: "sub_keys_list_signature (c0 # c1 # rest) =
           (if c0 = 0x72 \<and> c1 = 0x69 then Some (4, False)
            else if c0 = 0x6c \<and> c1 = 0x69 then Some (4, True)
            else if c0 = 0x6c \<and> (c1 = 0x66 \<or> c1 = 0x68) then Some (8, True)
            else None)"
    by (simp add: sub_keys_list_signature_def)
  from fatal leaf shape show ?thesis by blast
qed

lemma read_sub_keys_list_elements_walk:
  assumes "n * element_size \<le> length data"
    and "element_size = 4 \<or> element_size = 8"
  shows "read_sub_keys_list_elements X fuel n element_size at_leaf_level data
           corruption_detected node s =
         walk_elements (libregf_key_item_read_sub_keys_list X fuel)
           (libregf_hive_bins_list_get_index_at_offset X) at_leaf_level
           (sub_keys_list_elements n element_size data) corruption_detected node s"
  using assms(1)
proof (induction n arbitrary: data corruption_detected node s)
  case 0
  show ?case by simp
next
  case (Suc n)
  from Suc.prems assms(2) have l4: "4 \<le> length data" and l: "element_size \<le> length data"
    by auto
  from copy_to_uint32_Some [OF l4] obtain v where
    v: "byte_stream_copy_to_uint32_little_endian data = Some v" by blast
  have "\<exists>h. (if element_size = 8
                   then map_option (\<lambda>h. (h, drop 8 data))
                          (byte_stream_copy_to_uint32_little_endian (drop 4 data))
                 else Some (0, drop 4 data)) = Some (h, drop element_size data)"
  proof (cases "element_size = 8")
    case True
    with l have "4 \<le> length (drop 4 data)" by simp
    from copy_to_uint32_Some [OF this] True show ?thesis by auto
  next
    case False
    with assms(2) show ?thesis by auto
  qed
  then obtain h where
    h: "(if element_size = 8
                   then map_option (\<lambda>h. (h, drop 8 data))
                          (byte_stream_copy_to_uint32_little_endian (drop 4 data))
                 else Some (0, drop 4 data)) = Some (h, drop element_size data)" by blast
  from Suc.prems have len: "n * element_size \<le> length (drop element_size data)" by simp
  have els: "sub_keys_list_elements (Suc n) element_size data
      = (v, h) # sub_keys_list_elements n element_size (drop element_size data)"
    using v h by simp
  note IH = Suc.IH [OF len]
  have step: "read_sub_keys_list_elements X fuel (Suc n) element_size at_leaf_level data
                corruption_detected node s =
      (let result = libregf_hive_bins_list_get_index_at_offset X (uint v)
       in if result = - 1 then Return (- 1) (node, s)
          else if result \<noteq> 0 then
            (if at_leaf_level
               then read_sub_keys_list_elements X fuel n element_size at_leaf_level
                      (drop element_size data) corruption_detected
                      (libfdata_tree_node_append_sub_node node 0 (uint v) (ucast h) 0) s
             else
               (case libregf_key_item_read_sub_keys_list X fuel node s (uint v) of
                  Return result1 (node1, s1) \<Rightarrow>
                    if result1 = - 1 then Return (- 1) (node1, s1)
                    else read_sub_keys_list_elements X fuel n element_size at_leaf_level
                           (drop element_size data) (corruption_detected \<or> result1 = 0)
                           node1 s1
                | Read_Past_End \<Rightarrow> Read_Past_End
                | No_Fuel \<Rightarrow> No_Fuel))
          else read_sub_keys_list_elements X fuel n element_size at_leaf_level
                 (drop element_size data) True node s)"
    using v h by simp
  show ?case unfolding step els using IH
    by (cases at_leaf_level)
       (simp_all add: Let_def libfdata_tree_node_append_sub_node_def sub_node_def
          split: outcome.split)
qed

lemma walk_elements_not_fatal:
  assumes "\<forall>e \<in> set elements. probe (uint (fst e)) \<noteq> - 1"
    and "at_leaf_level \<or>
         (\<forall>e \<in> set elements. probe (uint (fst e)) \<noteq> 0 \<longrightarrow>
            (\<forall>node s st. nested node s (uint (fst e)) \<noteq> Return (- 1) st))"
  shows "walk_elements nested probe at_leaf_level elements partial node s \<noteq> Return (- 1) st"
  using assms
proof (induction elements arbitrary: partial node s)
  case Nil
  show ?case by simp
next
  case (Cons e elements)
  from Cons.prems have IH: "\<And>partial node s.
      walk_elements nested probe at_leaf_level elements partial node s \<noteq> Return (- 1) st"
    by (intro Cons.IH) auto
  show ?case
  proof (cases "at_leaf_level \<or> probe (uint (fst e)) = 0")
    case True
    with Cons.prems(1) IH show ?thesis by auto
  next
    case False
    with Cons.prems(2) have n: "\<And>st. nested node s (uint (fst e)) \<noteq> Return (- 1) st"
      by auto
    show ?thesis
    proof (cases "nested node s (uint (fst e))")
      case (Return result st1)
      obtain node1 s1 where st1: "st1 = (node1, s1)" by (cases st1)
      from n [of st1] Return have "result \<noteq> - 1" by auto
      with False Cons.prems(1) Return st1 IH show ?thesis by simp
    next
      case Read_Past_End
      with False Cons.prems(1) show ?thesis by simp
    next
      case No_Fuel
      with False Cons.prems(1) show ?thesis by simp
    qed
  qed
qed


text \<open>
  C5, as amended. For a sub keys list cell that is fetched at an offset other than 0 and
  \<^verbatim>\<open>0xffffffff\<close>: when the payload is smaller than the header of 4 bytes, or the
  signature is none of \<^verbatim>\<open>lf\<close>, \<^verbatim>\<open>lh\<close>, \<^verbatim>\<open>li\<close>, \<^verbatim>\<open>ri\<close>, or the
  payload is smaller than the header and the elements, the walk returns \<open>-1\<close> and the
  tree node is as it was. When none of the three holds, the walk has fetched that one
  cell and is the loop over the elements of the cell, in their order, at the level the
  signature gives: it skips an element the probe does not know, appends a known element
  of a list at leaf level, and walks the cell of a known element of an interior list.
  Such a walk returns \<open>-1\<close> only when the probe of an element offset reports an
  error, or when the list is interior and the walk over the cell of a known element
  returns \<open>-1\<close>; at leaf level without a probe error it returns 1, or 0 when it
  skipped an element, and has appended the elements it knows. The signature gives the
  shape: \<^verbatim>\<open>ri\<close> elements of 4 bytes and not at leaf level, \<^verbatim>\<open>li\<close> 4 bytes at leaf
  level, \<^verbatim>\<open>lf\<close> and \<^verbatim>\<open>lh\<close> 8 bytes at leaf level.
\<close>

theorem sub_keys_list_fatal_error:
  assumes "store_serves X cells"
    and "cells (word_of_int list_offset) = Some data"
    and "list_offset \<noteq> 0" and "list_offset \<noteq> 0xffffffff"
  shows "(sub_keys_list_malformed data \<longrightarrow>
            (\<exists>s1. libregf_key_item_read_sub_keys_list X (Suc fuel) node s list_offset
                     = Return (- 1) (node, s1))) \<and>
         (\<not> sub_keys_list_malformed data \<and>
          sub_keys_list_signature data = Some (element_size, at_leaf_level) \<and>
          byte_stream_copy_to_uint16_little_endian (drop 2 data) = Some number_of_elements \<longrightarrow>
            (\<exists>s1. fetched s1 = fetched s @ [word_of_int list_offset] \<and>
                  libregf_key_item_read_sub_keys_list X (Suc fuel) node s list_offset
                    = walk_elements (libregf_key_item_read_sub_keys_list X fuel)
                        (libregf_hive_bins_list_get_index_at_offset X) at_leaf_level
                        (sub_keys_list_elements (unat number_of_elements) element_size
                           (drop 4 data))
                        False node s1)) \<and>
         (\<not> sub_keys_list_malformed data \<and>
          sub_keys_list_signature data = Some (element_size, at_leaf_level) \<and>
          byte_stream_copy_to_uint16_little_endian (drop 2 data) = Some number_of_elements \<and>
          (\<forall>e \<in> set (sub_keys_list_elements (unat number_of_elements) element_size
                        (drop 4 data)).
             libregf_hive_bins_list_get_index_at_offset X (uint (fst e)) \<noteq> - 1) \<and>
          (at_leaf_level \<or>
           (\<forall>e \<in> set (sub_keys_list_elements (unat number_of_elements) element_size
                         (drop 4 data)).
              known_offset X (fst e) \<longrightarrow>
                (\<forall>node1 s1 st.
                   libregf_key_item_read_sub_keys_list X fuel node1 s1 (uint (fst e))
                     \<noteq> Return (- 1) st))) \<longrightarrow>
            (\<forall>st. libregf_key_item_read_sub_keys_list X (Suc fuel) node s list_offset
                     \<noteq> Return (- 1) st)) \<and>
         (\<not> sub_keys_list_malformed data \<and>
          sub_keys_list_signature data = Some (element_size, True) \<and>
          byte_stream_copy_to_uint16_little_endian (drop 2 data) = Some number_of_elements \<and>
          (\<forall>e \<in> set (sub_keys_list_elements (unat number_of_elements) element_size
                        (drop 4 data)).
             libregf_hive_bins_list_get_index_at_offset X (uint (fst e)) \<noteq> - 1) \<longrightarrow>
            (\<exists>s1. libregf_key_item_read_sub_keys_list X (Suc fuel) node s list_offset
                     = Return
                         (if \<exists>e \<in> set (sub_keys_list_elements (unat number_of_elements)
                                          element_size (drop 4 data)).
                               \<not> known_offset X (fst e)
                            then 0 else 1)
                         (node\<lparr>sub_nodes := sub_nodes node @
                                  map sub_node
                                    (filter (\<lambda>e. known_offset X (fst e))
                                       (sub_keys_list_elements (unat number_of_elements)
                                          element_size (drop 4 data)))\<rparr>,
                          s1))) \<and>
         sub_keys_list_signature (c0 # c1 # rest) =
           (if c0 = 0x72 \<and> c1 = 0x69 then Some (4, False)
            else if c0 = 0x6c \<and> c1 = 0x69 then Some (4, True)
            else if c0 = 0x6c \<and> (c1 = 0x66 \<or> c1 = 0x68) then Some (8, True)
            else None)"
proof -
  let ?walk = "libregf_key_item_read_sub_keys_list X (Suc fuel) node s list_offset"
  let ?elements = "sub_keys_list_elements (unat number_of_elements) element_size (drop 4 data)"
  let ?probe = "libregf_hive_bins_list_get_index_at_offset X"
  note cell = read_sub_keys_list_cell [OF assms, of fuel node s element_size
    number_of_elements c0 c1 rest]
  from get_cell_Some [OF assms(1,2), of s] obtain hive_bin_cell s1 where
    f: "libregf_hive_bins_list_get_cell_at_offset X s (word_of_int list_offset)
          = (Some hive_bin_cell, s1)"
       "hive_bin_cell_data X s1 hive_bin_cell = data"
    and g: "fetched s1 = fetched s @ [word_of_int list_offset]"
    by metis
  note run = read_sub_keys_list_fetched [OF f assms(3,4), of fuel node]
  have loop: "?walk = walk_elements (libregf_key_item_read_sub_keys_list X fuel) ?probe
                        at_leaf_level ?elements False node s1"
    if wf: "\<not> sub_keys_list_malformed data"
      and sg: "sub_keys_list_signature data = Some (element_size, at_leaf_level)"
      and n: "byte_stream_copy_to_uint16_little_endian (drop 2 data) = Some number_of_elements"
  proof -
    from wf sg n have l4: "\<not> length data < 4"
      and ln: "\<not> length data < 4 + unat number_of_elements * element_size"
      by (auto simp: sub_keys_list_malformed_def)
    then have len: "unat number_of_elements * element_size \<le> length (drop 4 data)"
      by simp
    note els = read_sub_keys_list_elements_walk
      [OF len sub_keys_list_signature_sizes [OF sg], of X fuel at_leaf_level False node s1]
    from l4 ln have chk: "\<not> length data - 4 < unat number_of_elements * element_size"
      by arith
    from l4 chk sg n show ?thesis unfolding run
      by (simp add: sizeof_regf_sub_key_list_t_def els)
  qed
  have not_fatal: "?walk \<noteq> Return (- 1) st"
    if wf: "\<not> sub_keys_list_malformed data"
      and sg: "sub_keys_list_signature data = Some (element_size, at_leaf_level)"
      and n: "byte_stream_copy_to_uint16_little_endian (drop 2 data) = Some number_of_elements"
      and pr: "\<forall>e \<in> set ?elements. ?probe (uint (fst e)) \<noteq> - 1"
      and nested: "at_leaf_level \<or>
           (\<forall>e \<in> set ?elements.
              known_offset X (fst e) \<longrightarrow>
                (\<forall>node1 s1 st.
                   libregf_key_item_read_sub_keys_list X fuel node1 s1 (uint (fst e))
                     \<noteq> Return (- 1) st))"
    for st
  proof -
    from nested have "at_leaf_level \<or>
         (\<forall>e \<in> set ?elements. ?probe (uint (fst e)) \<noteq> 0 \<longrightarrow>
            (\<forall>node1 s1 st.
               libregf_key_item_read_sub_keys_list X fuel node1 s1 (uint (fst e))
                 \<noteq> Return (- 1) st))"
      by (simp add: known_offset_def)
    from walk_elements_not_fatal [OF pr this] show ?thesis
      unfolding loop [OF wf sg n] .
  qed
  from cell have a: "sub_keys_list_malformed data \<longrightarrow>
            (\<exists>s1. ?walk = Return (- 1) (node, s1))" by blast
  from loop g have b: "\<not> sub_keys_list_malformed data \<and>
          sub_keys_list_signature data = Some (element_size, at_leaf_level) \<and>
          byte_stream_copy_to_uint16_little_endian (drop 2 data) = Some number_of_elements \<longrightarrow>
            (\<exists>s1. fetched s1 = fetched s @ [word_of_int list_offset] \<and>
                  ?walk = walk_elements (libregf_key_item_read_sub_keys_list X fuel)
                        ?probe at_leaf_level ?elements False node s1)" by blast
  from not_fatal have c: "\<not> sub_keys_list_malformed data \<and>
          sub_keys_list_signature data = Some (element_size, at_leaf_level) \<and>
          byte_stream_copy_to_uint16_little_endian (drop 2 data) = Some number_of_elements \<and>
          (\<forall>e \<in> set ?elements. ?probe (uint (fst e)) \<noteq> - 1) \<and>
          (at_leaf_level \<or>
           (\<forall>e \<in> set ?elements.
              known_offset X (fst e) \<longrightarrow>
                (\<forall>node1 s1 st.
                   libregf_key_item_read_sub_keys_list X fuel node1 s1 (uint (fst e))
                     \<noteq> Return (- 1) st))) \<longrightarrow>
            (\<forall>st. ?walk \<noteq> Return (- 1) st)" by blast
  from cell have d: "\<not> sub_keys_list_malformed data \<and>
          sub_keys_list_signature data = Some (element_size, True) \<and>
          byte_stream_copy_to_uint16_little_endian (drop 2 data) = Some number_of_elements \<and>
          (\<forall>e \<in> set ?elements. ?probe (uint (fst e)) \<noteq> - 1) \<longrightarrow>
            (\<exists>s1. ?walk
                     = Return
                         (if \<exists>e \<in> set ?elements. \<not> known_offset X (fst e) then 0 else 1)
                         (node\<lparr>sub_nodes := sub_nodes node @
                                  map sub_node
                                    (filter (\<lambda>e. known_offset X (fst e)) ?elements)\<rparr>,
                          s1))" by blast
  from cell have e: "sub_keys_list_signature (c0 # c1 # rest) =
           (if c0 = 0x72 \<and> c1 = 0x69 then Some (4, False)
            else if c0 = 0x6c \<and> c1 = 0x69 then Some (4, True)
            else if c0 = 0x6c \<and> (c1 = 0x66 \<or> c1 = 0x68) then Some (8, True)
            else None)" by blast
  from a b c d e show ?thesis by (intro conjI)
qed


theorem sub_keys_list_fatal_error_witness:
  "sub_keys_list_malformed [0x78, 0x78, 1, 0, 0xF4, 1, 0, 0] \<and>
   libregf_key_item_read_sub_keys_list
     (evicting_store index_cells index_ranges no_named_key no_security_key)
     (Suc 0) empty_node \<lparr>bins = [], fetched = []\<rparr> 900
   = Return (- 1)
       (empty_node, \<lparr>bins = [0x78, 0x78, 1, 0, 0xF4, 1, 0, 0], fetched = [900]\<rparr>) \<and>
   \<not> sub_keys_list_malformed
       [0x6c, 0x66, 2, 0, 0xF4, 1, 0, 0, 0x11, 0x22, 0x33, 0x44,
        0xEF, 0xBE, 0xAD, 0xDE, 0x55, 0x66, 0x77, 0x88] \<and>
   libregf_key_item_read_sub_keys_list
     (evicting_store index_cells index_ranges no_named_key no_security_key)
     (Suc 0) empty_node \<lparr>bins = [], fetched = []\<rparr> 400
   = Return 0
       (empty_node\<lparr>sub_nodes :=
          [\<lparr>range_file_index = 0, range_offset = 500, range_size = 0x44332211,
            range_flags = 0\<rparr>]\<rparr>,
        \<lparr>bins = [0x6c, 0x66, 2, 0, 0xF4, 1, 0, 0, 0x11, 0x22, 0x33, 0x44,
                 0xEF, 0xBE, 0xAD, 0xDE, 0x55, 0x66, 0x77, 0x88],
          fetched = [400]\<rparr>) \<and>
   \<not> sub_keys_list_malformed [0x72, 0x69, 2, 0, 0xBC, 2, 0, 0, 0x20, 3, 0, 0] \<and>
   sub_keys_list_elements 2 4 [0xBC, 2, 0, 0, 0x20, 3, 0, 0] = [(700, 0), (800, 0)] \<and>
   (\<exists>s1. fetched s1 = [400] \<and>
      libregf_key_item_read_sub_keys_list
        (evicting_store ri_cells ri_index no_named_key no_security_key)
        (Suc (Suc 0)) empty_node \<lparr>bins = [], fetched = []\<rparr> 400
      = walk_elements
          (libregf_key_item_read_sub_keys_list
             (evicting_store ri_cells ri_index no_named_key no_security_key) (Suc 0))
          ri_index False [(700, 0), (800, 0)] False empty_node s1) \<and>
   libregf_key_item_read_sub_keys_list
     (evicting_store ri_cells ri_index no_named_key no_security_key)
     (Suc (Suc 0)) empty_node \<lparr>bins = [], fetched = []\<rparr> 400
   = Return 1
       (empty_node\<lparr>sub_nodes :=
          [\<lparr>range_file_index = 0, range_offset = 500, range_size = 0x44332211,
            range_flags = 0\<rparr>,
           \<lparr>range_file_index = 0, range_offset = 600, range_size = 0x88776655,
            range_flags = 0\<rparr>]\<rparr>,
        \<lparr>bins = [0x6c, 0x68, 1, 0, 0x58, 2, 0, 0, 0x55, 0x66, 0x77, 0x88, 0, 0, 0, 0],
          fetched = [400, 700, 800]\<rparr>) \<and>
   (\<forall>st. libregf_key_item_read_sub_keys_list
           (evicting_store ri_cells ri_index no_named_key no_security_key)
           (Suc (Suc 0)) empty_node \<lparr>bins = [], fetched = []\<rparr> 400
         \<noteq> Return (- 1) st)"
proof -
  let ?X = "evicting_store index_cells index_ranges no_named_key no_security_key"
  let ?R = "evicting_store ri_cells ri_index no_named_key no_security_key"
  let ?s = "\<lparr>bins = [], fetched = []\<rparr> :: (uint8_t list) hive"
  let ?xx = "[0x78, 0x78, 1, 0, 0xF4, 1, 0, 0] :: uint8_t list"
  let ?lf = "[0x6c, 0x66, 2, 0, 0xF4, 1, 0, 0, 0x11, 0x22, 0x33, 0x44,
              0xEF, 0xBE, 0xAD, 0xDE, 0x55, 0x66, 0x77, 0x88] :: uint8_t list"
  let ?ri = "[0x72, 0x69, 2, 0, 0xBC, 2, 0, 0, 0x20, 3, 0, 0] :: uint8_t list"
  let ?lh7 = "[0x6c, 0x68, 1, 0, 0xF4, 1, 0, 0, 0x11, 0x22, 0x33, 0x44] :: uint8_t list"
  let ?lh8 = "[0x6c, 0x68, 1, 0, 0x58, 2, 0, 0, 0x55, 0x66, 0x77, 0x88, 0, 0, 0, 0]
                :: uint8_t list"
  have h1: "store_serves ?X index_cells" by (rule evicting_store_serves)
  have h2: "index_cells (word_of_int 900) = Some ?xx" by (simp add: index_cells_def)
  have h3: "(900 :: int) \<noteq> 0" by simp
  have h4: "(900 :: int) \<noteq> 0xffffffff" by simp
  have g2: "index_cells (word_of_int 400) = Some ?lf" by (simp add: index_cells_def)
  have g3: "(400 :: int) \<noteq> 0" by simp
  have g4: "(400 :: int) \<noteq> 0xffffffff" by simp
  have m1: "sub_keys_list_malformed ?xx" by code_simp
  have m2: "\<not> sub_keys_list_malformed ?lf" by code_simp
  have r1: "libregf_key_item_read_sub_keys_list ?X (Suc 0) empty_node ?s 900
            = Return (- 1) (empty_node, \<lparr>bins = ?xx, fetched = [900]\<rparr>)"
    by code_simp
  have r2: "libregf_key_item_read_sub_keys_list ?X (Suc 0) empty_node ?s 400
            = Return 0
                (empty_node\<lparr>sub_nodes :=
                   [\<lparr>range_file_index = 0, range_offset = 500, range_size = 0x44332211,
                     range_flags = 0\<rparr>]\<rparr>,
                 \<lparr>bins = ?lf, fetched = [400]\<rparr>)"
    by code_simp
  have k1: "store_serves ?R ri_cells" by (rule evicting_store_serves)
  have k2: "ri_cells (word_of_int 400) = Some ?ri" by (simp add: ri_cells_def)
  have m3: "\<not> sub_keys_list_malformed ?ri" by code_simp
  have sg3: "sub_keys_list_signature ?ri = Some (4, False)" by code_simp
  have n3: "byte_stream_copy_to_uint16_little_endian (drop 2 ?ri) = Some 2" by code_simp
  have u2: "unat (2 :: uint16_t) = 2" by simp
  have d3: "drop 4 ?ri = [0xBC, 2, 0, 0, 0x20, 3, 0, 0]" by simp
  have e3: "sub_keys_list_elements 2 4 [0xBC, 2, 0, 0, 0x20, 3, 0, 0]
              = [(700, 0), (800, 0)]" by code_simp
  have p3: "libregf_hive_bins_list_get_index_at_offset ?R = ri_index"
    by (simp add: libregf_hive_bins_list_get_index_at_offset_def evicting_store_def fun_eq_iff)
  have u7: "uint (700 :: uint32_t) = 700" by simp
  have u8: "uint (800 :: uint32_t) = 800" by simp
  have i7: "ri_index 700 = 1" by (simp add: ri_index_def)
  have i8: "ri_index 800 = 1" by (simp add: ri_index_def)
  have pr3: "\<forall>e \<in> set (sub_keys_list_elements (unat (2 :: uint16_t)) 4 (drop 4 ?ri)).
               libregf_hive_bins_list_get_index_at_offset ?R (uint (fst e)) \<noteq> - 1"
    unfolding u2 d3 e3 p3 by (simp add: u7 u8 i7 i8)
  have c7: "ri_cells (word_of_int 700) = Some ?lh7" by (simp add: ri_cells_def)
  have c8: "ri_cells (word_of_int 800) = Some ?lh8" by (simp add: ri_cells_def)
  have ne7: "(700 :: int) \<noteq> 0" "(700 :: int) \<noteq> 0xffffffff" by simp_all
  have ne8: "(800 :: int) \<noteq> 0" "(800 :: int) \<noteq> 0xffffffff" by simp_all
  have m7: "\<not> sub_keys_list_malformed ?lh7" by code_simp
  have m8: "\<not> sub_keys_list_malformed ?lh8" by code_simp
  have sg7: "sub_keys_list_signature ?lh7 = Some (8, True)" by code_simp
  have sg8: "sub_keys_list_signature ?lh8 = Some (8, True)" by code_simp
  have n7: "byte_stream_copy_to_uint16_little_endian (drop 2 ?lh7) = Some 1" by code_simp
  have n8: "byte_stream_copy_to_uint16_little_endian (drop 2 ?lh8) = Some 1" by code_simp
  have u1: "unat (1 :: uint16_t) = 1" by simp
  have e7: "sub_keys_list_elements 1 8 (drop 4 ?lh7) = [(500, 0x44332211)]" by code_simp
  have e8: "sub_keys_list_elements 1 8 (drop 4 ?lh8) = [(600, 0x88776655)]" by code_simp
  have u5: "uint (500 :: uint32_t) = 500" by simp
  have u6: "uint (600 :: uint32_t) = 600" by simp
  have pr7: "\<forall>e \<in> set (sub_keys_list_elements (unat (1 :: uint16_t)) 8 (drop 4 ?lh7)).
               libregf_hive_bins_list_get_index_at_offset ?R (uint (fst e)) \<noteq> - 1"
    unfolding u1 e7 p3 by (simp add: u5 ri_index_def)
  have pr8: "\<forall>e \<in> set (sub_keys_list_elements (unat (1 :: uint16_t)) 8 (drop 4 ?lh8)).
               libregf_hive_bins_list_get_index_at_offset ?R (uint (fst e)) \<noteq> - 1"
    unfolding u1 e8 p3 by (simp add: u6 ri_index_def)
  have w7: "libregf_key_item_read_sub_keys_list ?R (Suc 0) node1 s1 700 \<noteq> Return (- 1) st"
    for node1 s1 st
    using sub_keys_list_fatal_error [OF k1 c7 ne7,
        where fuel = 0 and node = node1 and s = s1 and element_size = 8
          and at_leaf_level = True and number_of_elements = 1]
      m7 sg7 n7 pr7
    by blast
  have w8: "libregf_key_item_read_sub_keys_list ?R (Suc 0) node1 s1 800 \<noteq> Return (- 1) st"
    for node1 s1 st
    using sub_keys_list_fatal_error [OF k1 c8 ne8,
        where fuel = 0 and node = node1 and s = s1 and element_size = 8
          and at_leaf_level = True and number_of_elements = 1]
      m8 sg8 n8 pr8
    by blast
  have nested3: "False \<or>
      (\<forall>e \<in> set (sub_keys_list_elements (unat (2 :: uint16_t)) 4 (drop 4 ?ri)).
         known_offset ?R (fst e) \<longrightarrow>
           (\<forall>node1 s1 st.
              libregf_key_item_read_sub_keys_list ?R (Suc 0) node1 s1 (uint (fst e))
                \<noteq> Return (- 1) st))"
    unfolding u2 d3 e3
  proof (intro disjI2 ballI impI allI)
    fix e :: "uint32_t \<times> uint32_t" and node1 :: libfdata_tree_node
      and s1 :: "(uint8_t list) hive" and st
    assume "e \<in> set [(700, 0), (800, 0)]"
    then consider "fst e = 700" | "fst e = 800" by auto
    then show "libregf_key_item_read_sub_keys_list ?R (Suc 0) node1 s1 (uint (fst e))
                 \<noteq> Return (- 1) st"
    proof cases
      case 1
      show ?thesis unfolding 1 u7 by (rule w7)
    next
      case 2
      show ?thesis unfolding 2 u8 by (rule w8)
    qed
  qed
  note t3 = sub_keys_list_fatal_error [OF k1 k2 g3 g4,
      where fuel = "Suc 0" and node = empty_node and s = ?s and element_size = 4
        and at_leaf_level = False and number_of_elements = 2]
  from t3 m3 sg3 n3 have "\<exists>s1. fetched s1 = fetched ?s @ [word_of_int 400] \<and>
      libregf_key_item_read_sub_keys_list ?R (Suc (Suc 0)) empty_node ?s 400
        = walk_elements (libregf_key_item_read_sub_keys_list ?R (Suc 0))
            (libregf_hive_bins_list_get_index_at_offset ?R) False
            (sub_keys_list_elements (unat (2 :: uint16_t)) 4 (drop 4 ?ri))
            False empty_node s1"
    by blast
  then have b3: "\<exists>s1. fetched s1 = [400] \<and>
      libregf_key_item_read_sub_keys_list ?R (Suc (Suc 0)) empty_node ?s 400
        = walk_elements (libregf_key_item_read_sub_keys_list ?R (Suc 0))
            ri_index False [(700, 0), (800, 0)] False empty_node s1"
    unfolding u2 d3 e3 p3 by simp
  from t3 m3 sg3 n3 pr3 nested3
  have c3: "\<forall>st. libregf_key_item_read_sub_keys_list ?R (Suc (Suc 0)) empty_node ?s 400
                 \<noteq> Return (- 1) st"
    by blast
  have r3: "libregf_key_item_read_sub_keys_list ?R (Suc (Suc 0)) empty_node ?s 400
     = Return 1
       (empty_node\<lparr>sub_nodes :=
          [\<lparr>range_file_index = 0, range_offset = 500, range_size = 0x44332211,
            range_flags = 0\<rparr>,
           \<lparr>range_file_index = 0, range_offset = 600, range_size = 0x88776655,
            range_flags = 0\<rparr>]\<rparr>,
        \<lparr>bins = ?lh8, fetched = [400, 700, 800]\<rparr>)"
    by code_simp
  from m1 m2 r1 r2
    sub_keys_list_fatal_error [OF h1 h2 h3 h4, of 0 empty_node ?s]
    sub_keys_list_fatal_error [OF h1 g2 g3 g4, of 0 empty_node ?s]
  have a: "sub_keys_list_malformed ?xx \<and>
           libregf_key_item_read_sub_keys_list ?X (Suc 0) empty_node ?s 900
            = Return (- 1) (empty_node, \<lparr>bins = ?xx, fetched = [900]\<rparr>) \<and>
           \<not> sub_keys_list_malformed ?lf \<and>
           libregf_key_item_read_sub_keys_list ?X (Suc 0) empty_node ?s 400
            = Return 0
                (empty_node\<lparr>sub_nodes :=
                   [\<lparr>range_file_index = 0, range_offset = 500, range_size = 0x44332211,
                     range_flags = 0\<rparr>]\<rparr>,
                 \<lparr>bins = ?lf, fetched = [400]\<rparr>)"
    by blast
  from a m3 e3 b3 r3 c3 show ?thesis by (intro conjI) blast+
qed

text \<open>
  C5 as stated fails: the \<^verbatim>\<open>ri\<close> list at offset 1000 has none of the three
  defects, and the walk over it returns \<open>-1\<close>, because the cell its element refers to
  cannot be fetched.
\<close>

theorem sub_keys_list_fatal_error_counterexample:
  "libregf_key_item_read_sub_keys_list
     (evicting_store index_cells index_ranges no_named_key no_security_key)
     (Suc (Suc 0)) empty_node \<lparr>bins = [], fetched = []\<rparr> 1000
   = Return (- 1)
       (empty_node, \<lparr>bins = [0x72, 0x69, 1, 0, 0xBC, 2, 0, 0], fetched = [1000, 700]\<rparr>) \<and>
   index_cells 1000 = Some [0x72, 0x69, 1, 0, 0xBC, 2, 0, 0] \<and>
   \<not> sub_keys_list_malformed [0x72, 0x69, 1, 0, 0xBC, 2, 0, 0]"
  by code_simp

text \<open>
  C1. The walk over the \<^verbatim>\<open>lf\<close> list at offset 400 skips the element whose offset
  no bin range knows, appends the other and returns 0. The loader of the sub nodes turns
  the 0 into 1 and does nothing else: the key item of the node is as it was, its
  corrupted flag not set.
\<close>

theorem sub_nodes_corruption_not_signalled:
  "libregf_key_item_read_sub_keys_list
     (evicting_store index_cells index_ranges no_named_key no_security_key)
     (Suc 0) loaded_node \<lparr>bins = [], fetched = []\<rparr> 400
   = Return 0
       (loaded_node\<lparr>sub_nodes :=
          [\<lparr>range_file_index = 0, range_offset = 500, range_size = 0x44332211,
            range_flags = 0\<rparr>]\<rparr>,
        \<lparr>bins = [0x6c, 0x66, 2, 0, 0xF4, 1, 0, 0, 0x11, 0x22, 0x33, 0x44,
                 0xEF, 0xBE, 0xAD, 0xDE, 0x55, 0x66, 0x77, 0x88],
          fetched = [400]\<rparr>) \<and>
   libregf_key_item_read_sub_nodes
     (evicting_store index_cells index_ranges no_named_key no_security_key)
     (Suc 0) loaded_node \<lparr>bins = [], fetched = []\<rparr> 400
   = Return 1
       (loaded_node\<lparr>sub_nodes :=
          [\<lparr>range_file_index = 0, range_offset = 500, range_size = 0x44332211,
            range_flags = 0\<rparr>]\<rparr>,
        \<lparr>bins = [0x6c, 0x66, 2, 0, 0xF4, 1, 0, 0, 0x11, 0x22, 0x33, 0x44,
                 0xEF, 0xBE, 0xAD, 0xDE, 0x55, 0x66, 0x77, 0x88],
          fetched = [400]\<rparr>) \<and>
   node_value loaded_node = Some listed_key_item \<and>
   item_flags listed_key_item = {}"
  by code_simp

subsection \<open>The walk stays inside the payload\<close>

text \<open>
  The size check of \<^verbatim>\<open>libregf_key_item_read_sub_keys_list\<close> multiplies a
  \<^verbatim>\<open>uint16_t\<close> by 4 or 8 as an \<^verbatim>\<open>int\<close>, which cannot wrap, so the loop
  never reads behind the copy of the payload: the walk returns or runs out of nested
  calls.
\<close>

lemma read_sub_keys_list_elements_in_bounds:
  assumes walk: "\<And>node s list_offset.
      libregf_key_item_read_sub_keys_list X fuel node s list_offset \<noteq> Read_Past_End"
    and "n * element_size \<le> length data"
    and "element_size = 4 \<or> element_size = 8"
  shows "read_sub_keys_list_elements X fuel n element_size at_leaf_level data
           corruption_detected node s \<noteq> Read_Past_End"
  using assms(2)
proof (induction n arbitrary: data corruption_detected node s)
  case 0
  show ?case by simp
next
  case (Suc n)
  from Suc.prems assms(3) have l4: "4 \<le> length data" and l: "element_size \<le> length data"
    by auto
  from copy_to_uint32_Some [OF l4] obtain v where
    v: "byte_stream_copy_to_uint32_little_endian data = Some v" by blast
  have "\<exists>h. (if element_size = 8
                   then map_option (\<lambda>h. (h, drop 8 data))
                          (byte_stream_copy_to_uint32_little_endian (drop 4 data))
                 else Some (0, drop 4 data)) = Some (h, drop element_size data)"
  proof (cases "element_size = 8")
    case True
    with l have "4 \<le> length (drop 4 data)" by simp
    from copy_to_uint32_Some [OF this] True show ?thesis by auto
  next
    case False
    with assms(3) show ?thesis by auto
  qed
  then obtain h where
    h: "(if element_size = 8
                   then map_option (\<lambda>h. (h, drop 8 data))
                          (byte_stream_copy_to_uint32_little_endian (drop 4 data))
                 else Some (0, drop 4 data)) = Some (h, drop element_size data)" by blast
  from Suc.prems have len: "n * element_size \<le> length (drop element_size data)" by simp
  note IH = Suc.IH [OF len]
  note w = walk [of node s "uint v"]
  show ?case
  proof (cases "libregf_key_item_read_sub_keys_list X fuel node s (uint v)")
    case (Return result1 st1)
    obtain node1 s1 where "st1 = (node1, s1)" by (cases st1)
    with Return v h show ?thesis using IH by (cases at_leaf_level) (auto simp: Let_def)
  next
    case Read_Past_End
    with w show ?thesis by simp
  next
    case No_Fuel
    with v h show ?thesis using IH by (cases at_leaf_level) (auto simp: Let_def)
  qed
qed

lemma read_sub_keys_list_in_bounds:
  "libregf_key_item_read_sub_keys_list X fuel node s list_offset \<noteq> Read_Past_End"
proof (induction fuel arbitrary: node s list_offset)
  case 0
  show ?case by simp
next
  case (Suc fuel)
  obtain r s1 where
    g: "libregf_hive_bins_list_get_cell_at_offset X s (word_of_int list_offset) = (r, s1)"
    by (cases "libregf_hive_bins_list_get_cell_at_offset X s (word_of_int list_offset)")
  show ?case
  proof (cases "list_offset = 0 \<or> list_offset = 0xffffffff \<or> r = None")
    case True
    with g show ?thesis by auto
  next
    case False
    then obtain hive_bin_cell where r: "r = Some hive_bin_cell" by auto
    let ?data = "hive_bin_cell_data X s1 hive_bin_cell"
    from False have ne: "list_offset \<noteq> 0" "list_offset \<noteq> 0xffffffff" by auto
    note run = read_sub_keys_list_fetched [OF g [unfolded r] refl ne, of fuel node]
    show ?thesis
    proof (cases "length ?data < sizeof_regf_sub_key_list_t")
      case True
      then show ?thesis unfolding run by simp
    next
      case long: False
      then have "2 \<le> length (drop 2 ?data)" by (simp add: sizeof_regf_sub_key_list_t_def)
      from copy_to_uint16_Some [OF this] obtain n where
        n: "byte_stream_copy_to_uint16_little_endian (drop 2 ?data) = Some n" by blast
      show ?thesis
      proof (cases "sub_keys_list_signature ?data")
        case None
        with long show ?thesis unfolding run by simp
      next
        case (Some shape)
        obtain element_size at_leaf_level where
          shape: "shape = (element_size, at_leaf_level)" by (cases shape)
        note sz = sub_keys_list_signature_sizes [OF Some [unfolded shape]]
        show ?thesis
        proof (cases "length ?data - sizeof_regf_sub_key_list_t < unat n * element_size")
          case True
          with long Some shape n show ?thesis unfolding run by simp
        next
          case False
          then have "unat n * element_size
                       \<le> length (drop sizeof_regf_sub_key_list_t ?data)" by simp
          from read_sub_keys_list_elements_in_bounds [of X fuel, OF Suc.IH this sz]
            long Some shape n False
          show ?thesis unfolding run by simp
        qed
      qed
    qed
  qed
qed

subsection \<open>Loading a key item\<close>

lemma read_node_data_loaded:
  assumes "libregf_key_item_read_node_data X node s node_data_offset node_data_size
             = Return 1 (node1, s1)"
  shows "\<exists>key_item node2.
           node_data_size \<le> 0xffffffff \<and>
           libregf_key_item_read_named_key X cleared_key_item node s node_data_offset
             (ucast node_data_size) = Return 1 (key_item, node2, s1) \<and>
           node1 = node2\<lparr>node_value := Some key_item\<rparr>"
  using assms
  by (auto simp: libregf_key_item_read_node_data_def libregf_key_item_initialize_def
        libfdata_tree_node_set_node_value_def
      split: if_splits outcome.splits prod.splits)

lemma read_named_key_loaded:
  assumes "libregf_key_item_read_named_key X key_item node s named_key_offset named_key_hash
             = Return 1 (key_item5, node4, s5)"
  shows "\<exists>hive_bin_cell s1 nk key_item2 s2 key_item3 s3 key_item4.
           named_key key_item = None \<and> named_key_offset \<noteq> 0 \<and>
           named_key_offset < 0xffffffff \<and>
           libregf_hive_bins_list_get_cell_at_offset X s (word_of_int named_key_offset)
             = (Some hive_bin_cell, s1) \<and>
           named_key_read_data X (hive_bin_cell_data X s1 hive_bin_cell) named_key_hash
             = Some nk \<and>
           libregf_key_item_read_class_name X (key_item\<lparr>named_key := Some nk\<rparr>) s1
             (class_name_offset nk) (libregf_named_key.class_name_size nk)
             = (1, key_item2, s2) \<and>
           read_named_key_security_key X nk key_item2 s2 = (1, key_item3, s3) \<and>
           read_named_key_sub_keys X nk key_item3 node = (1, key_item4, node4) \<and>
           read_named_key_values X nk key_item4 s3 = Return 1 (key_item5, s5)"
  using assms
  by (auto simp: libregf_key_item_read_named_key_def
      split: if_splits outcome.splits prod.splits option.splits)


lemma read_class_name_loaded:
  assumes "store_serves X cells"
    and "libregf_key_item_read_class_name X key_item s name_offset name_size
           = (1, key_item1, s1)"
  shows "class_name key_item = None \<and>
         (if name_offset = 0xffffffff \<or> (name_offset = 0 \<and> name_size = 0)
            then key_item1 = key_item \<and> s1 = s
          else name_offset \<noteq> 0 \<and>
            (\<exists>data. cells name_offset = Some data \<and> name_size \<noteq> 0 \<and>
               unat name_size \<le> length data \<and>
               key_item1 = key_item\<lparr>class_name := Some (take (unat name_size) data),
                                    class_name_size := name_size\<rparr> \<and>
               fetched s1 = fetched s @ [name_offset]))"
proof (cases "cells name_offset")
  case None
  obtain s2 where
    "libregf_hive_bins_list_get_cell_at_offset X s name_offset = (None, s2)"
    using get_cell_None [OF assms(1) None, of s] by metis
  with assms(2) show ?thesis
    by (auto simp: libregf_key_item_read_class_name_def split: if_splits)
next
  case (Some data)
  from get_cell_Some [OF assms(1) Some, of s] obtain hive_bin_cell s2 where
    f: "libregf_hive_bins_list_get_cell_at_offset X s name_offset = (Some hive_bin_cell, s2)"
       "hive_bin_cell_data X s2 hive_bin_cell = data"
       "fetched s2 = fetched s @ [name_offset]"
    by metis
  from assms(2) f Some show ?thesis
    by (auto simp: libregf_key_item_read_class_name_def
          libregf_key_item_read_class_name_data_def
        split: if_splits)
qed

lemma read_security_key_loaded:
  assumes "store_serves X cells"
    and "read_named_key_security_key X nk key_item s = (1, key_item1, s1)"
  shows "if security_key_offset nk = 0xffffffff
           then key_item1 = key_item \<and> s1 = s
         else security_key_offset nk \<noteq> 0 \<and>
           (\<exists>data security_key.
              cells (security_key_offset nk) = Some data \<and>
              security_key_read_data X data = Some security_key \<and>
              key_item1 = key_item\<lparr>
                libregf_key_item.security_descriptor :=
                  libregf_security_key.security_descriptor security_key,
                libregf_key_item.security_descriptor_size :=
                  libregf_security_key.security_descriptor_size security_key\<rparr> \<and>
              fetched s1 = fetched s @ [security_key_offset nk])"
proof (cases "cells (security_key_offset nk)")
  case None
  obtain s2 where
    "libregf_hive_bins_list_get_cell_at_offset X s (security_key_offset nk) = (None, s2)"
    using get_cell_None [OF assms(1) None, of s] by metis
  with assms(2) show ?thesis
    by (auto simp: read_named_key_security_key_def libregf_key_item_read_security_key_def
        split: if_splits)
next
  case (Some data)
  from get_cell_Some [OF assms(1) Some, of s] obtain hive_bin_cell s2 where
    f: "libregf_hive_bins_list_get_cell_at_offset X s (security_key_offset nk)
          = (Some hive_bin_cell, s2)"
       "hive_bin_cell_data X s2 hive_bin_cell = data"
       "fetched s2 = fetched s @ [security_key_offset nk]"
    by metis
  from assms(2) f Some show ?thesis
    by (auto simp: read_named_key_security_key_def libregf_key_item_read_security_key_def
        split: if_splits option.splits)
qed

lemma read_security_key_fails:
  assumes "store_serves X cells"
    and "security_key_offset nk \<noteq> 0xffffffff"
    and "security_key_offset nk = 0 \<or> cells (security_key_offset nk) = None \<or>
         (\<exists>data. cells (security_key_offset nk) = Some data \<and>
                 security_key_read_data X data = None)"
  shows "fst (read_named_key_security_key X nk key_item s) = - 1"
proof (cases "cells (security_key_offset nk)")
  case None
  obtain s2 where
    "libregf_hive_bins_list_get_cell_at_offset X s (security_key_offset nk) = (None, s2)"
    using get_cell_None [OF assms(1) None, of s] by metis
  with assms(2) show ?thesis
    by (auto simp: read_named_key_security_key_def libregf_key_item_read_security_key_def)
next
  case (Some data)
  from get_cell_Some [OF assms(1) Some, of s] obtain hive_bin_cell s2 where
    f: "libregf_hive_bins_list_get_cell_at_offset X s (security_key_offset nk)
          = (Some hive_bin_cell, s2)"
       "hive_bin_cell_data X s2 hive_bin_cell = data"
    by metis
  from assms(2,3) f Some show ?thesis
    by (auto simp: read_named_key_security_key_def libregf_key_item_read_security_key_def)
qed

lemma read_values_list_elements_keeps:
  "read_values_list_elements X n data key_item = Return result key_item1 \<Longrightarrow>
   named_key key_item1 = named_key key_item \<and>
   class_name key_item1 = class_name key_item \<and>
   libregf_key_item.class_name_size key_item1 = libregf_key_item.class_name_size key_item \<and>
   libregf_key_item.security_descriptor key_item1
     = libregf_key_item.security_descriptor key_item \<and>
   libregf_key_item.security_descriptor_size key_item1
     = libregf_key_item.security_descriptor_size key_item \<and>
   values_cache key_item1 = values_cache key_item \<and>
   item_flags key_item \<subseteq> item_flags key_item1"
proof (induction n arbitrary: data key_item)
  case 0
  then show ?case by simp
next
  case (Suc n)
  from Suc.prems show ?case
    by (auto simp: Let_def split: option.splits if_splits dest!: Suc.IH)
qed

lemma read_values_list_keeps:
  assumes "libregf_key_item_read_values_list X key_item s list_offset count
             = Return result (key_item1, s1)"
  shows "named_key key_item1 = named_key key_item \<and>
   class_name key_item1 = class_name key_item \<and>
   libregf_key_item.class_name_size key_item1 = libregf_key_item.class_name_size key_item \<and>
   libregf_key_item.security_descriptor key_item1
     = libregf_key_item.security_descriptor key_item \<and>
   libregf_key_item.security_descriptor_size key_item1
     = libregf_key_item.security_descriptor_size key_item \<and>
   values_cache key_item1 = values_cache key_item \<and>
   item_flags key_item \<subseteq> item_flags key_item1"
proof (cases "count = 0 \<or> list_offset = 0 \<or> list_offset = 0xffffffff")
  case True
  with assms show ?thesis
    by (auto simp: libregf_key_item_read_values_list_def split: if_splits)
next
  case False
  obtain r s2 where g: "libregf_hive_bins_list_get_cell_at_offset X s list_offset = (r, s2)"
    by (cases "libregf_hive_bins_list_get_cell_at_offset X s list_offset")
  show ?thesis
  proof (cases r)
    case None
    with assms False g show ?thesis
      by (auto simp: libregf_key_item_read_values_list_def)
  next
    case (Some hive_bin_cell)
    show ?thesis
    proof (cases "length (hive_bin_cell_data X s2 hive_bin_cell) < unat (count * 4)")
      case True
      with assms False g Some show ?thesis
        by (auto simp: libregf_key_item_read_values_list_def)
    next
      case chk: False
      from assms False g Some chk have
        "map_outcome (\<lambda>key_item1. (key_item1, s2))
           (read_values_list_elements X (unat count) (hive_bin_cell_data X s2 hive_bin_cell)
              key_item) = Return result (key_item1, s1)"
        by (simp add: libregf_key_item_read_values_list_def Let_def)
      then have "read_values_list_elements X (unat count)
                   (hive_bin_cell_data X s2 hive_bin_cell) key_item = Return result key_item1"
        by (cases "read_values_list_elements X (unat count)
                   (hive_bin_cell_data X s2 hive_bin_cell) key_item") auto
      from read_values_list_elements_keeps [OF this] show ?thesis .
    qed
  qed
qed

lemma get_cell_fetched:
  "libregf_hive_bins_list_get_cell_at_offset X s cell_offset = (r, s1) \<Longrightarrow>
   fetched s1 = fetched s @ [cell_offset]"
  by (auto simp: libregf_hive_bins_list_get_cell_at_offset_def split: prod.splits)

lemma read_values_list_fetched:
  assumes "libregf_key_item_read_values_list X key_item s list_offset count
             = Return result (key_item1, s1)"
  shows "fetched s1 = fetched s @
           (if count = 0 \<or> list_offset = 0 \<or> list_offset = 0xffffffff
              then [] else [list_offset])"
proof (cases "count = 0 \<or> list_offset = 0 \<or> list_offset = 0xffffffff")
  case True
  with assms show ?thesis
    by (auto simp: libregf_key_item_read_values_list_def split: if_splits)
next
  case False
  obtain r s2 where g: "libregf_hive_bins_list_get_cell_at_offset X s list_offset = (r, s2)"
    by (cases "libregf_hive_bins_list_get_cell_at_offset X s list_offset")
  have "s1 = s2"
  proof (cases r)
    case None
    with assms False g show ?thesis
      by (auto simp: libregf_key_item_read_values_list_def)
  next
    case (Some hive_bin_cell)
    with assms False g show ?thesis
      by (cases "read_values_list_elements X (unat count)
                   (hive_bin_cell_data X s2 hive_bin_cell) key_item")
         (auto simp: libregf_key_item_read_values_list_def Let_def split: if_splits)
  qed
  with get_cell_fetched [OF g] False show ?thesis by simp
qed

lemma read_named_key_values_steps:
  assumes "read_named_key_values X nk key_item s = Return 1 (key_item1, s1)"
  shows "values_list key_item = None \<and> values_cache key_item = None \<and>
     (libregf_hive_bins_list_get_index_at_offset X (uint (values_list_offset nk)) = 0 \<and>
        key_item1 = key_item\<lparr>values_list := Some [],
                      values_cache := Some (maximum_cache_entries_values X),
                      item_flags :=
                        insert LIBREGF_KEY_ITEM_FLAG_IS_CORRUPTED (item_flags key_item)\<rparr> \<and>
        s1 = s
      \<or>
      libregf_hive_bins_list_get_index_at_offset X (uint (values_list_offset nk)) \<noteq> 0 \<and>
        libregf_hive_bins_list_get_index_at_offset X (uint (values_list_offset nk)) \<noteq> - 1 \<and>
        libregf_key_item_read_values_list X
          (key_item\<lparr>values_list := Some [],
                      values_cache := Some (maximum_cache_entries_values X)\<rparr>)
          s (values_list_offset nk) (number_of_values nk) = Return 1 (key_item1, s1))"
  using assms
  by (auto simp: read_named_key_values_def libfdata_list_initialize_def
        libfcache_cache_initialize_def Let_def
      split: option.splits if_splits outcome.splits)

lemma read_named_key_values_loaded:
  assumes "read_named_key_values X nk key_item s = Return 1 (key_item1, s1)"
  shows "named_key key_item1 = named_key key_item \<and>
   class_name key_item1 = class_name key_item \<and>
   libregf_key_item.class_name_size key_item1 = libregf_key_item.class_name_size key_item \<and>
   libregf_key_item.security_descriptor key_item1
     = libregf_key_item.security_descriptor key_item \<and>
   libregf_key_item.security_descriptor_size key_item1
     = libregf_key_item.security_descriptor_size key_item \<and>
   item_flags key_item \<subseteq> item_flags key_item1 \<and>
   (number_of_values nk = 0 \<longrightarrow> values_list key_item1 = Some [] \<and> s1 = s)"
proof -
  let ?k = "key_item\<lparr>values_list := Some [],
                      values_cache := Some (maximum_cache_entries_values X)\<rparr>"
  from read_named_key_values_steps [OF assms] consider
    (unknown) "key_item1 = ?k\<lparr>item_flags :=
                        insert LIBREGF_KEY_ITEM_FLAG_IS_CORRUPTED (item_flags key_item)\<rparr>"
      "s1 = s"
    | (known) "libregf_key_item_read_values_list X ?k s (values_list_offset nk)
                 (number_of_values nk) = Return 1 (key_item1, s1)"
    by auto
  then show ?thesis
  proof cases
    case unknown
    then show ?thesis by auto
  next
    case known
    have zero: "values_list key_item1 = Some [] \<and> s1 = s" if "number_of_values nk = 0"
      using known that by (auto simp: libregf_key_item_read_values_list_def)
    from read_values_list_keeps [OF known] zero show ?thesis by simp
  qed
qed


lemma read_class_name_keeps:
  assumes "libregf_key_item_read_class_name X key_item s name_offset name_size
             = (1, key_item1, s1)"
  shows "named_key key_item1 = named_key key_item \<and>
   libregf_key_item.security_descriptor key_item1
     = libregf_key_item.security_descriptor key_item \<and>
   libregf_key_item.security_descriptor_size key_item1
     = libregf_key_item.security_descriptor_size key_item \<and>
   values_list key_item1 = values_list key_item \<and>
   values_cache key_item1 = values_cache key_item \<and>
   item_flags key_item1 = item_flags key_item \<and>
   fetched s1 = fetched s @
     (if name_offset = 0 \<or> name_offset = 0xffffffff then [] else [name_offset])"
  using assms
  by (auto simp: libregf_key_item_read_class_name_def
        libregf_key_item_read_class_name_data_def
        libregf_hive_bins_list_get_cell_at_offset_def
      split: if_splits prod.splits option.splits)

lemma read_security_key_keeps:
  assumes "read_named_key_security_key X nk key_item s = (1, key_item1, s1)"
  shows "named_key key_item1 = named_key key_item \<and>
   class_name key_item1 = class_name key_item \<and>
   libregf_key_item.class_name_size key_item1 = libregf_key_item.class_name_size key_item \<and>
   values_list key_item1 = values_list key_item \<and>
   values_cache key_item1 = values_cache key_item \<and>
   item_flags key_item1 = item_flags key_item \<and>
   fetched s1 = fetched s @
     (if security_key_offset nk = 0xffffffff then [] else [security_key_offset nk])"
  using assms
  by (auto simp: read_named_key_security_key_def libregf_key_item_read_security_key_def
        libregf_hive_bins_list_get_cell_at_offset_def
      split: if_splits prod.splits option.splits)

lemma read_named_key_sub_keys_loaded:
  assumes "read_named_key_sub_keys X nk key_item node = (1, key_item1, node1)"
  shows "named_key key_item1 = named_key key_item \<and>
   class_name key_item1 = class_name key_item \<and>
   libregf_key_item.class_name_size key_item1 = libregf_key_item.class_name_size key_item \<and>
   libregf_key_item.security_descriptor key_item1
     = libregf_key_item.security_descriptor key_item \<and>
   libregf_key_item.security_descriptor_size key_item1
     = libregf_key_item.security_descriptor_size key_item \<and>
   values_list key_item1 = values_list key_item \<and>
   values_cache key_item1 = values_cache key_item \<and>
   sub_nodes node1 = sub_nodes node \<and> node_value node1 = node_value node \<and>
   (if 0 < number_of_sub_keys nk \<and> sub_nodes_data_range node = None
      then libregf_hive_bins_list_get_index_at_offset X (uint (sub_keys_list_offset nk)) \<noteq> - 1 \<and>
        (if libregf_hive_bins_list_get_index_at_offset X (uint (sub_keys_list_offset nk)) = 0
           then item_flags key_item1
                  = insert LIBREGF_KEY_ITEM_FLAG_IS_CORRUPTED (item_flags key_item) \<and>
                node1 = node
         else item_flags key_item1 = item_flags key_item \<and>
           node1 = node\<lparr>sub_nodes_data_range :=
                     Some \<lparr>range_file_index = 0,
                           range_offset = uint (sub_keys_list_offset nk),
                           range_size = 0, range_flags = 0\<rparr>\<rparr>)
    else key_item1 = key_item \<and> node1 = node)"
  using assms
  by (auto simp: read_named_key_sub_keys_def Let_def
        libfdata_tree_node_sub_nodes_data_range_is_set_def
        libfdata_tree_node_set_sub_nodes_data_range_def
      split: if_splits)

lemma read_node_data_steps:
  assumes "libregf_key_item_read_node_data X node s node_data_offset node_data_size
             = Return 1 (node1, s5)"
  shows "\<exists>hive_bin_cell s1 nk key_item2 s2 key_item3 s3 key_item4 node4 key_item5.
           node_data_size \<le> 0xffffffff \<and> node_data_offset \<noteq> 0 \<and>
           node_data_offset < 0xffffffff \<and>
           libregf_hive_bins_list_get_cell_at_offset X s (word_of_int node_data_offset)
             = (Some hive_bin_cell, s1) \<and>
           named_key_read_data X (hive_bin_cell_data X s1 hive_bin_cell)
             (ucast node_data_size) = Some nk \<and>
           libregf_key_item_read_class_name X (cleared_key_item\<lparr>named_key := Some nk\<rparr>) s1
             (class_name_offset nk) (libregf_named_key.class_name_size nk)
             = (1, key_item2, s2) \<and>
           read_named_key_security_key X nk key_item2 s2 = (1, key_item3, s3) \<and>
           read_named_key_sub_keys X nk key_item3 node = (1, key_item4, node4) \<and>
           read_named_key_values X nk key_item4 s3 = Return 1 (key_item5, s5) \<and>
           node1 = node4\<lparr>node_value := Some key_item5\<rparr> \<and>
           named_key key_item5 = Some nk"
proof -
  from read_node_data_loaded [OF assms] obtain key_item5 node4 where
    a: "node_data_size \<le> 0xffffffff"
       "libregf_key_item_read_named_key X cleared_key_item node s node_data_offset
          (ucast node_data_size) = Return 1 (key_item5, node4, s5)"
       "node1 = node4\<lparr>node_value := Some key_item5\<rparr>"
    by blast
  from read_named_key_loaded [OF a(2)] obtain hive_bin_cell s1 nk key_item2 s2 key_item3 s3
      key_item4 where
    b: "node_data_offset \<noteq> 0" "node_data_offset < 0xffffffff"
       "libregf_hive_bins_list_get_cell_at_offset X s (word_of_int node_data_offset)
          = (Some hive_bin_cell, s1)"
       "named_key_read_data X (hive_bin_cell_data X s1 hive_bin_cell)
          (ucast node_data_size) = Some nk"
       "libregf_key_item_read_class_name X (cleared_key_item\<lparr>named_key := Some nk\<rparr>) s1
          (class_name_offset nk) (libregf_named_key.class_name_size nk)
          = (1, key_item2, s2)"
       "read_named_key_security_key X nk key_item2 s2 = (1, key_item3, s3)"
       "read_named_key_sub_keys X nk key_item3 node = (1, key_item4, node4)"
       "read_named_key_values X nk key_item4 s3 = Return 1 (key_item5, s5)"
    by blast
  from read_class_name_keeps [OF b(5)] read_security_key_keeps [OF b(6)]
    read_named_key_sub_keys_loaded [OF b(7)] read_named_key_values_loaded [OF b(8)]
  have "named_key key_item5 = Some nk" by simp
  with a b show ?thesis by blast
qed


lemma read_node_data_sub_keys_range:
  assumes "libregf_key_item_read_node_data X node s node_data_offset node_data_size
             = Return 1 (node1, s1)"
    and "node_value node1 = Some key_item"
    and "named_key key_item = Some nk"
    and "0 < number_of_sub_keys nk"
    and "sub_nodes_data_range node = None"
  shows "libregf_hive_bins_list_get_index_at_offset X (uint (sub_keys_list_offset nk)) \<noteq> - 1 \<and>
         (libregf_hive_bins_list_get_index_at_offset X (uint (sub_keys_list_offset nk)) = 0 \<longrightarrow>
            LIBREGF_KEY_ITEM_FLAG_IS_CORRUPTED \<in> item_flags key_item \<and>
            sub_nodes_data_range node1 = None) \<and>
         (libregf_hive_bins_list_get_index_at_offset X (uint (sub_keys_list_offset nk)) \<noteq> 0 \<longrightarrow>
            sub_nodes_data_range node1 =
              Some \<lparr>range_file_index = 0, range_offset = uint (sub_keys_list_offset nk),
                    range_size = 0, range_flags = 0\<rparr>) \<and>
         sub_nodes node1 = sub_nodes node"
proof -
  from read_node_data_steps [OF assms(1)] obtain nk1 key_item3 s3 key_item4 node4 key_item5
    where st: "read_named_key_sub_keys X nk1 key_item3 node = (1, key_item4, node4)"
      "read_named_key_values X nk1 key_item4 s3 = Return 1 (key_item5, s1)"
      "node1 = node4\<lparr>node_value := Some key_item5\<rparr>"
      "named_key key_item5 = Some nk1"
    by blast
  from st(3,4) assms(2,3) have eq: "key_item5 = key_item" "nk1 = nk" by auto
  note sub = read_named_key_sub_keys_loaded [OF st(1), unfolded eq]
  note val = read_named_key_values_loaded [OF st(2), unfolded eq]
  from sub val assms(4,5) st(3) show ?thesis
    by (auto split: if_splits)
qed

lemma read_node_data_composed:
  assumes "node_data_size \<le> 0xffffffff"
    and "node_data_offset \<noteq> 0" and "node_data_offset < 0xffffffff"
    and "libregf_hive_bins_list_get_cell_at_offset X s (word_of_int node_data_offset)
           = (Some hive_bin_cell, s1)"
    and "named_key_read_data X (hive_bin_cell_data X s1 hive_bin_cell)
           (ucast node_data_size) = Some nk"
    and "libregf_key_item_read_class_name X (cleared_key_item\<lparr>named_key := Some nk\<rparr>) s1
           (class_name_offset nk) (libregf_named_key.class_name_size nk)
           = (1, key_item2, s2)"
    and "read_named_key_security_key X nk key_item2 s2 = (result3, key_item3, s3)"
  shows "libregf_key_item_read_node_data X node s node_data_offset node_data_size =
     (if result3 \<noteq> 1 then Return (- 1) (node, s3)
      else
        (case read_named_key_sub_keys X nk key_item3 node of
           (result4, key_item4, node4) \<Rightarrow>
             if result4 \<noteq> 1 then Return (- 1) (node4, s3)
             else
               (case read_named_key_values X nk key_item4 s3 of
                  Return result5 (key_item5, s5) \<Rightarrow>
                    if result5 \<noteq> 1 then Return (- 1) (node4, s5)
                    else Return 1 (node4\<lparr>node_value := Some key_item5\<rparr>, s5)
                | Read_Past_End \<Rightarrow> Read_Past_End
                | No_Fuel \<Rightarrow> No_Fuel)))"
proof -
  from assms(1) have sz: "\<not> node_data_size > 0xffffffff" by simp
  have nk0: "named_key cleared_key_item = None" by (simp add: cleared_key_item_def)
  from assms(3) have off: "\<not> node_data_offset \<ge> 0xffffffff" by simp
  show ?thesis
    unfolding libregf_key_item_read_node_data_def libregf_key_item_initialize_def
      libregf_key_item_read_named_key_def
    using sz nk0 off assms(2,4,5,6,7)
    by (simp add: libfdata_tree_node_set_node_value_def
          split: outcome.split prod.split)
qed

lemma read_named_key_sub_keys_block:
  assumes "0 < number_of_sub_keys nk" and "sub_nodes_data_range node = None"
  shows "read_named_key_sub_keys X nk key_item node =
     (if libregf_hive_bins_list_get_index_at_offset X (uint (sub_keys_list_offset nk)) = - 1
        then (- 1, key_item, node)
      else if libregf_hive_bins_list_get_index_at_offset X (uint (sub_keys_list_offset nk)) = 0
        then (1, key_item\<lparr>item_flags :=
                   insert LIBREGF_KEY_ITEM_FLAG_IS_CORRUPTED (item_flags key_item)\<rparr>,
              node)
      else (1, key_item,
            node\<lparr>sub_nodes_data_range :=
                   Some \<lparr>range_file_index = 0, range_offset = uint (sub_keys_list_offset nk),
                         range_size = 0, range_flags = 0\<rparr>\<rparr>))"
  using assms
  by (simp add: read_named_key_sub_keys_def Let_def
        libfdata_tree_node_sub_nodes_data_range_is_set_def
        libfdata_tree_node_set_sub_nodes_data_range_def)


text \<open>
  C6. For a key with sub keys and a tree node whose sub nodes data range is not set
  yet, the sub keys block of the load probes the sub keys list offset: when the probe
  does not know the offset, the block returns 1 with the key item's corrupted flag set
  and the node as it was; when the probe knows it, the block returns 1 with the key item
  as it was and the node's sub nodes data range set to the offset with size 0; when the
  probe fails, it returns \<open>-1\<close>. A load whose key cell is fetched and decoded and whose
  class name and security key steps return 1 goes on from the block to the values: it
  returns \<open>-1\<close> when the probe fails, and otherwise what the values step makes of the
  key item the block left, with the node the block left as its node. So a load that
  succeeds has set the corrupted flag and left the node without a sub nodes data range
  when the probe does not know the offset, has installed the range when it does, and has
  appended no sub node in either case: the walk is left for later.
\<close>

theorem sub_keys_range_installed:
  "(0 < number_of_sub_keys nk \<and> sub_nodes_data_range node = None \<longrightarrow>
      read_named_key_sub_keys X nk key_item3 node =
        (if libregf_hive_bins_list_get_index_at_offset X (uint (sub_keys_list_offset nk)) = - 1
           then (- 1, key_item3, node)
         else if libregf_hive_bins_list_get_index_at_offset X (uint (sub_keys_list_offset nk)) = 0
           then (1, key_item3\<lparr>item_flags :=
                      insert LIBREGF_KEY_ITEM_FLAG_IS_CORRUPTED (item_flags key_item3)\<rparr>,
                 node)
         else (1, key_item3,
               node\<lparr>sub_nodes_data_range :=
                      Some \<lparr>range_file_index = 0,
                            range_offset = uint (sub_keys_list_offset nk),
                            range_size = 0, range_flags = 0\<rparr>\<rparr>))) \<and>
   (0 < number_of_sub_keys nk \<and> sub_nodes_data_range node = None \<and>
    node_data_size \<le> 0xffffffff \<and> node_data_offset \<noteq> 0 \<and> node_data_offset < 0xffffffff \<and>
    libregf_hive_bins_list_get_cell_at_offset X s (word_of_int node_data_offset)
      = (Some hive_bin_cell, s1) \<and>
    named_key_read_data X (hive_bin_cell_data X s1 hive_bin_cell) (ucast node_data_size)
      = Some nk \<and>
    libregf_key_item_read_class_name X (cleared_key_item\<lparr>named_key := Some nk\<rparr>) s1
      (class_name_offset nk) (libregf_named_key.class_name_size nk)
      = (1, key_item2, s2) \<and>
    read_named_key_security_key X nk key_item2 s2 = (1, key_item3, s3) \<longrightarrow>
      libregf_key_item_read_node_data X node s node_data_offset node_data_size =
        (if libregf_hive_bins_list_get_index_at_offset X (uint (sub_keys_list_offset nk)) = - 1
           then Return (- 1) (node, s3)
         else
           (case read_named_key_values X nk
                   (if libregf_hive_bins_list_get_index_at_offset X
                         (uint (sub_keys_list_offset nk)) = 0
                      then key_item3\<lparr>item_flags :=
                             insert LIBREGF_KEY_ITEM_FLAG_IS_CORRUPTED (item_flags key_item3)\<rparr>
                    else key_item3) s3 of
              Return result5 (key_item5, s5) \<Rightarrow>
                if result5 \<noteq> 1
                  then Return (- 1)
                         (if libregf_hive_bins_list_get_index_at_offset X
                               (uint (sub_keys_list_offset nk)) = 0
                            then node
                          else node\<lparr>sub_nodes_data_range :=
                                 Some \<lparr>range_file_index = 0,
                                       range_offset = uint (sub_keys_list_offset nk),
                                       range_size = 0, range_flags = 0\<rparr>\<rparr>,
                          s5)
                else Return 1
                       (if libregf_hive_bins_list_get_index_at_offset X
                             (uint (sub_keys_list_offset nk)) = 0
                          then node\<lparr>node_value := Some key_item5\<rparr>
                        else node\<lparr>sub_nodes_data_range :=
                               Some \<lparr>range_file_index = 0,
                                     range_offset = uint (sub_keys_list_offset nk),
                                     range_size = 0, range_flags = 0\<rparr>,
                             node_value := Some key_item5\<rparr>,
                        s5)
            | Read_Past_End \<Rightarrow> Read_Past_End
            | No_Fuel \<Rightarrow> No_Fuel))) \<and>
   (0 < number_of_sub_keys nk \<and> sub_nodes_data_range node = None \<and>
    libregf_key_item_read_node_data X node s node_data_offset node_data_size
      = Return 1 (node1, t1) \<and>
    node_value node1 = Some key_item \<and> named_key key_item = Some nk \<longrightarrow>
      libregf_hive_bins_list_get_index_at_offset X (uint (sub_keys_list_offset nk)) \<noteq> - 1 \<and>
      (libregf_hive_bins_list_get_index_at_offset X (uint (sub_keys_list_offset nk)) = 0 \<longrightarrow>
         LIBREGF_KEY_ITEM_FLAG_IS_CORRUPTED \<in> item_flags key_item \<and>
         sub_nodes_data_range node1 = None) \<and>
      (libregf_hive_bins_list_get_index_at_offset X (uint (sub_keys_list_offset nk)) \<noteq> 0 \<longrightarrow>
         sub_nodes_data_range node1 =
           Some \<lparr>range_file_index = 0, range_offset = uint (sub_keys_list_offset nk),
                 range_size = 0, range_flags = 0\<rparr>) \<and>
      sub_nodes node1 = sub_nodes node)"
proof (intro conjI impI)
  assume "0 < number_of_sub_keys nk \<and> sub_nodes_data_range node = None"
  then show "read_named_key_sub_keys X nk key_item3 node =
        (if libregf_hive_bins_list_get_index_at_offset X (uint (sub_keys_list_offset nk)) = - 1
           then (- 1, key_item3, node)
         else if libregf_hive_bins_list_get_index_at_offset X (uint (sub_keys_list_offset nk)) = 0
           then (1, key_item3\<lparr>item_flags :=
                      insert LIBREGF_KEY_ITEM_FLAG_IS_CORRUPTED (item_flags key_item3)\<rparr>,
                 node)
         else (1, key_item3,
               node\<lparr>sub_nodes_data_range :=
                      Some \<lparr>range_file_index = 0,
                            range_offset = uint (sub_keys_list_offset nk),
                            range_size = 0, range_flags = 0\<rparr>\<rparr>))"
    using read_named_key_sub_keys_block [of nk node X key_item3] by blast
next
  assume a: "0 < number_of_sub_keys nk \<and> sub_nodes_data_range node = None \<and>
    node_data_size \<le> 0xffffffff \<and> node_data_offset \<noteq> 0 \<and> node_data_offset < 0xffffffff \<and>
    libregf_hive_bins_list_get_cell_at_offset X s (word_of_int node_data_offset)
      = (Some hive_bin_cell, s1) \<and>
    named_key_read_data X (hive_bin_cell_data X s1 hive_bin_cell) (ucast node_data_size)
      = Some nk \<and>
    libregf_key_item_read_class_name X (cleared_key_item\<lparr>named_key := Some nk\<rparr>) s1
      (class_name_offset nk) (libregf_named_key.class_name_size nk)
      = (1, key_item2, s2) \<and>
    read_named_key_security_key X nk key_item2 s2 = (1, key_item3, s3)"
  then have b: "0 < number_of_sub_keys nk" "sub_nodes_data_range node = None"
    and st: "node_data_size \<le> 0xffffffff" "node_data_offset \<noteq> 0"
      "node_data_offset < 0xffffffff"
      "libregf_hive_bins_list_get_cell_at_offset X s (word_of_int node_data_offset)
         = (Some hive_bin_cell, s1)"
      "named_key_read_data X (hive_bin_cell_data X s1 hive_bin_cell) (ucast node_data_size)
         = Some nk"
      "libregf_key_item_read_class_name X (cleared_key_item\<lparr>named_key := Some nk\<rparr>) s1
         (class_name_offset nk) (libregf_named_key.class_name_size nk)
         = (1, key_item2, s2)"
      "read_named_key_security_key X nk key_item2 s2 = (1, key_item3, s3)"
    by blast+
  show "libregf_key_item_read_node_data X node s node_data_offset node_data_size =
        (if libregf_hive_bins_list_get_index_at_offset X (uint (sub_keys_list_offset nk)) = - 1
           then Return (- 1) (node, s3)
         else
           (case read_named_key_values X nk
                   (if libregf_hive_bins_list_get_index_at_offset X
                         (uint (sub_keys_list_offset nk)) = 0
                      then key_item3\<lparr>item_flags :=
                             insert LIBREGF_KEY_ITEM_FLAG_IS_CORRUPTED (item_flags key_item3)\<rparr>
                    else key_item3) s3 of
              Return result5 (key_item5, s5) \<Rightarrow>
                if result5 \<noteq> 1
                  then Return (- 1)
                         (if libregf_hive_bins_list_get_index_at_offset X
                               (uint (sub_keys_list_offset nk)) = 0
                            then node
                          else node\<lparr>sub_nodes_data_range :=
                                 Some \<lparr>range_file_index = 0,
                                       range_offset = uint (sub_keys_list_offset nk),
                                       range_size = 0, range_flags = 0\<rparr>\<rparr>,
                          s5)
                else Return 1
                       (if libregf_hive_bins_list_get_index_at_offset X
                             (uint (sub_keys_list_offset nk)) = 0
                          then node\<lparr>node_value := Some key_item5\<rparr>
                        else node\<lparr>sub_nodes_data_range :=
                               Some \<lparr>range_file_index = 0,
                                     range_offset = uint (sub_keys_list_offset nk),
                                     range_size = 0, range_flags = 0\<rparr>,
                             node_value := Some key_item5\<rparr>,
                        s5)
            | Read_Past_End \<Rightarrow> Read_Past_End
            | No_Fuel \<Rightarrow> No_Fuel))"
    unfolding read_node_data_composed [OF st, of node]
      read_named_key_sub_keys_block [OF b, of X key_item3]
    by (simp split: outcome.split)
next
  assume a: "0 < number_of_sub_keys nk \<and> sub_nodes_data_range node = None \<and>
    libregf_key_item_read_node_data X node s node_data_offset node_data_size
      = Return 1 (node1, t1) \<and>
    node_value node1 = Some key_item \<and> named_key key_item = Some nk"
  then have "libregf_key_item_read_node_data X node s node_data_offset node_data_size
      = Return 1 (node1, t1)"
    and "node_value node1 = Some key_item" and "named_key key_item = Some nk"
    and "0 < number_of_sub_keys nk" and "sub_nodes_data_range node = None"
    by blast+
  from read_node_data_sub_keys_range [OF this]
  show "libregf_hive_bins_list_get_index_at_offset X (uint (sub_keys_list_offset nk)) \<noteq> - 1"
    and "libregf_hive_bins_list_get_index_at_offset X (uint (sub_keys_list_offset nk)) = 0 \<Longrightarrow>
         LIBREGF_KEY_ITEM_FLAG_IS_CORRUPTED \<in> item_flags key_item"
    and "libregf_hive_bins_list_get_index_at_offset X (uint (sub_keys_list_offset nk)) = 0 \<Longrightarrow>
         sub_nodes_data_range node1 = None"
    and "libregf_hive_bins_list_get_index_at_offset X (uint (sub_keys_list_offset nk)) \<noteq> 0 \<Longrightarrow>
         sub_nodes_data_range node1 =
           Some \<lparr>range_file_index = 0, range_offset = uint (sub_keys_list_offset nk),
                 range_size = 0, range_flags = 0\<rparr>"
    and "sub_nodes node1 = sub_nodes node"
    by blast+
qed

text \<open>
  C7. After a load that succeeds from a store that serves the hive, the key item has a
  class name exactly when the class name offset is neither 0 nor \<^verbatim>\<open>0xffffffff\<close>
  and the class name size is more than 0 and at most the size of the payload of the cell
  at that offset; the class name is then the first class name size bytes of that
  payload. For a key item without a class name,
  \<^verbatim>\<open>libregf_key_item_read_class_name\<close> returns 1 and changes nothing when the
  offset is \<^verbatim>\<open>0xffffffff\<close> and when offset and size are both 0, and returns
  \<open>-1\<close> when the offset is 0 and the size is not.
\<close>

theorem class_name_loaded:
  assumes "store_serves X cells"
    and "libregf_key_item_read_node_data X node s node_data_offset node_data_size
           = Return 1 (node1, s1)"
    and "node_value node1 = Some key_item"
    and "named_key key_item = Some nk"
  shows "(class_name key_item \<noteq> None \<longleftrightarrow>
            class_name_offset nk \<noteq> 0 \<and> class_name_offset nk \<noteq> 0xffffffff \<and>
            (\<exists>data. cells (class_name_offset nk) = Some data \<and>
                    0 < libregf_named_key.class_name_size nk \<and>
                    unat (libregf_named_key.class_name_size nk) \<le> length data)) \<and>
         (class_name key_item \<noteq> None \<longrightarrow>
            (\<exists>data. cells (class_name_offset nk) = Some data \<and>
               class_name key_item
                 = Some (take (unat (libregf_named_key.class_name_size nk)) data))) \<and>
         (class_name k = None \<longrightarrow>
            libregf_key_item_read_class_name X k t 0xffffffff name_size = (1, k, t) \<and>
            libregf_key_item_read_class_name X k t 0 0 = (1, k, t) \<and>
            (name_size \<noteq> 0 \<longrightarrow>
               libregf_key_item_read_class_name X k t 0 name_size = (- 1, k, t)))"
proof -
  from read_node_data_steps [OF assms(2)] obtain s2 nk1 key_item2 s3 key_item3 s4 key_item4
      node4 key_item5
    where st: "libregf_key_item_read_class_name X (cleared_key_item\<lparr>named_key := Some nk1\<rparr>)
          s2 (class_name_offset nk1) (libregf_named_key.class_name_size nk1)
          = (1, key_item2, s3)"
      "read_named_key_security_key X nk1 key_item2 s3 = (1, key_item3, s4)"
      "read_named_key_sub_keys X nk1 key_item3 node = (1, key_item4, node4)"
      "read_named_key_values X nk1 key_item4 s4 = Return 1 (key_item5, s1)"
      "node1 = node4\<lparr>node_value := Some key_item5\<rparr>"
      "named_key key_item5 = Some nk1"
    by blast
  from st(5,6) assms(3,4) have eq: "key_item5 = key_item" "nk1 = nk" by auto
  from read_security_key_keeps [OF st(2)] read_named_key_sub_keys_loaded [OF st(3)]
    read_named_key_values_loaded [OF st(4)] eq
  have same: "class_name key_item = class_name key_item2" by simp
  note cn = read_class_name_loaded [OF assms(1) st(1), unfolded eq]
  have loaded: "(class_name key_item \<noteq> None \<longleftrightarrow>
            class_name_offset nk \<noteq> 0 \<and> class_name_offset nk \<noteq> 0xffffffff \<and>
            (\<exists>data. cells (class_name_offset nk) = Some data \<and>
                    0 < libregf_named_key.class_name_size nk \<and>
                    unat (libregf_named_key.class_name_size nk) \<le> length data)) \<and>
         (class_name key_item \<noteq> None \<longrightarrow>
            (\<exists>data. cells (class_name_offset nk) = Some data \<and>
               class_name key_item
                 = Some (take (unat (libregf_named_key.class_name_size nk)) data)))"
    using cn unfolding same
    by (auto simp: cleared_key_item_def word_greater_zero_iff split: if_splits)
  have policy: "class_name k = None \<longrightarrow>
            libregf_key_item_read_class_name X k t 0xffffffff name_size = (1, k, t) \<and>
            libregf_key_item_read_class_name X k t 0 0 = (1, k, t) \<and>
            (name_size \<noteq> 0 \<longrightarrow>
               libregf_key_item_read_class_name X k t 0 name_size = (- 1, k, t))"
    by (simp add: libregf_key_item_read_class_name_def)
  from loaded policy show ?thesis by blast
qed


lemma read_named_key_security_fails:
  assumes "store_serves X cells"
    and "cells (word_of_int named_key_offset) = Some key_data"
    and "named_key_read_data X key_data named_key_hash = Some nk"
    and "security_key_offset nk \<noteq> 0xffffffff"
    and "security_key_offset nk = 0 \<or> cells (security_key_offset nk) = None \<or>
         (\<exists>data. cells (security_key_offset nk) = Some data \<and>
                 security_key_read_data X data = None)"
  shows "\<exists>st. libregf_key_item_read_named_key X key_item node s named_key_offset
                 named_key_hash = Return (- 1) st"
proof (cases "named_key key_item \<noteq> None \<or> named_key_offset = 0 \<or>
              named_key_offset \<ge> 0xffffffff")
  case True
  then show ?thesis by (auto simp: libregf_key_item_read_named_key_def)
next
  case False
  from get_cell_Some [OF assms(1,2), of s] obtain hive_bin_cell s1 where
    f: "libregf_hive_bins_list_get_cell_at_offset X s (word_of_int named_key_offset)
          = (Some hive_bin_cell, s1)"
       "hive_bin_cell_data X s1 hive_bin_cell = key_data"
    by metis
  obtain result2 key_item2 s2 where
    c: "libregf_key_item_read_class_name X (key_item\<lparr>named_key := Some nk\<rparr>) s1
          (class_name_offset nk) (libregf_named_key.class_name_size nk)
          = (result2, key_item2, s2)"
    by (cases "libregf_key_item_read_class_name X (key_item\<lparr>named_key := Some nk\<rparr>) s1
          (class_name_offset nk) (libregf_named_key.class_name_size nk)")
  obtain result3 key_item3 s3 where
    k: "read_named_key_security_key X nk key_item2 s2 = (result3, key_item3, s3)"
    by (cases "read_named_key_security_key X nk key_item2 s2")
  from read_security_key_fails [OF assms(1,4,5), of key_item2 s2] k
  have "result3 = - 1" by simp
  with False f assms(3) c k show ?thesis
    by (simp add: libregf_key_item_read_named_key_def)
qed

lemma read_node_data_security_fails:
  assumes "store_serves X cells"
    and "cells (word_of_int node_data_offset) = Some key_data"
    and "named_key_read_data X key_data (ucast node_data_size) = Some nk"
    and "security_key_offset nk \<noteq> 0xffffffff"
    and "security_key_offset nk = 0 \<or> cells (security_key_offset nk) = None \<or>
         (\<exists>data. cells (security_key_offset nk) = Some data \<and>
                 security_key_read_data X data = None)"
  shows "\<exists>st. libregf_key_item_read_node_data X node s node_data_offset node_data_size
                 = Return (- 1) st"
proof -
  from read_named_key_security_fails [OF assms, of cleared_key_item node s]
  obtain st where
    "libregf_key_item_read_named_key X cleared_key_item node s node_data_offset
       (ucast node_data_size) = Return (- 1) st" by blast
  then show ?thesis
    by (cases st)
       (simp add: libregf_key_item_read_node_data_def libregf_key_item_initialize_def)
qed

lemma read_node_data_security_key:
  assumes "store_serves X cells"
  shows "(security_key_offset nk = 0xffffffff \<longrightarrow>
            read_named_key_security_key X nk k t = (1, k, t)) \<and>
         (libregf_key_item_read_node_data X node s node_data_offset node_data_size
            = Return 1 (node1, s1) \<and>
          node_value node1 = Some key_item \<and> named_key key_item = Some nk \<longrightarrow>
            (if security_key_offset nk = 0xffffffff
               then libregf_key_item.security_descriptor key_item = None \<and>
                 libregf_key_item.security_descriptor_size key_item = 0
             else security_key_offset nk \<noteq> 0 \<and>
               (\<exists>data security_key.
                  cells (security_key_offset nk) = Some data \<and>
                  security_key_read_data X data = Some security_key \<and>
                  libregf_key_item.security_descriptor key_item
                    = libregf_security_key.security_descriptor security_key \<and>
                  libregf_key_item.security_descriptor_size key_item
                    = libregf_security_key.security_descriptor_size security_key \<and>
                  security_key_offset nk \<in> set (fetched s1)))) \<and>
         (cells (word_of_int node_data_offset) = Some key_data \<and>
          named_key_read_data X key_data (ucast node_data_size) = Some nk \<and>
          security_key_offset nk \<noteq> 0xffffffff \<and>
          (security_key_offset nk = 0 \<or> cells (security_key_offset nk) = None \<or>
           (\<exists>data. cells (security_key_offset nk) = Some data \<and>
                   security_key_read_data X data = None)) \<longrightarrow>
            (\<exists>st. libregf_key_item_read_node_data X node s node_data_offset node_data_size
                     = Return (- 1) st))"
proof -
  have skipped: "security_key_offset nk = 0xffffffff \<longrightarrow>
            read_named_key_security_key X nk k t = (1, k, t)"
    by (simp add: read_named_key_security_key_def)
  have loaded: "if security_key_offset nk = 0xffffffff
               then libregf_key_item.security_descriptor key_item = None \<and>
                 libregf_key_item.security_descriptor_size key_item = 0
             else security_key_offset nk \<noteq> 0 \<and>
               (\<exists>data security_key.
                  cells (security_key_offset nk) = Some data \<and>
                  security_key_read_data X data = Some security_key \<and>
                  libregf_key_item.security_descriptor key_item
                    = libregf_security_key.security_descriptor security_key \<and>
                  libregf_key_item.security_descriptor_size key_item
                    = libregf_security_key.security_descriptor_size security_key \<and>
                  security_key_offset nk \<in> set (fetched s1))"
    if ld: "libregf_key_item_read_node_data X node s node_data_offset node_data_size
            = Return 1 (node1, s1)"
      and nv: "node_value node1 = Some key_item" and nm: "named_key key_item = Some nk"
  proof -
    from read_node_data_steps [OF ld] obtain s2 nk1 key_item2 s3 key_item3 s4 key_item4
        node4 key_item5
      where st: "libregf_key_item_read_class_name X
            (cleared_key_item\<lparr>named_key := Some nk1\<rparr>)
            s2 (class_name_offset nk1) (libregf_named_key.class_name_size nk1)
            = (1, key_item2, s3)"
        "read_named_key_security_key X nk1 key_item2 s3 = (1, key_item3, s4)"
        "read_named_key_sub_keys X nk1 key_item3 node = (1, key_item4, node4)"
        "read_named_key_values X nk1 key_item4 s4 = Return 1 (key_item5, s1)"
        "node1 = node4\<lparr>node_value := Some key_item5\<rparr>"
        "named_key key_item5 = Some nk1"
      by blast
    from st(5,6) nv nm have eq: "key_item5 = key_item" "nk1 = nk" by auto
    from read_class_name_keeps [OF st(1)] have
      k2: "libregf_key_item.security_descriptor key_item2 = None"
          "libregf_key_item.security_descriptor_size key_item2 = 0"
      by (simp_all add: cleared_key_item_def)
    from read_named_key_sub_keys_loaded [OF st(3)] read_named_key_values_loaded [OF st(4)] eq
    have same: "libregf_key_item.security_descriptor key_item
                  = libregf_key_item.security_descriptor key_item3"
         "libregf_key_item.security_descriptor_size key_item
                  = libregf_key_item.security_descriptor_size key_item3"
      by simp_all
    have grows: "set (fetched s4) \<subseteq> set (fetched s1)"
    proof -
      from read_named_key_values_steps [OF st(4)] consider "s1 = s4"
        | k where "libregf_key_item_read_values_list X k s4 (values_list_offset nk1)
                 (number_of_values nk1) = Return 1 (key_item5, s1)"
        by auto
      then show ?thesis
      proof cases
        case 1
        then show ?thesis by simp
      next
        case 2
        from read_values_list_fetched [OF this] show ?thesis by simp
      qed
    qed
    from read_security_key_loaded [OF assms st(2), unfolded eq] k2 same grows
    show ?thesis by (auto split: if_splits)
  qed
  from skipped loaded read_node_data_security_fails [OF assms, of node_data_offset key_data
      node_data_size nk node s]
  show ?thesis by blast
qed

lemma read_security_key_moves:
  assumes "store_serves X cells"
    and "security_key_offset nk \<noteq> 0xffffffff" and "security_key_offset nk \<noteq> 0"
    and "cells (security_key_offset nk) = Some data"
    and "security_key_read_data X data = Some security_key"
    and "libregf_key_item.security_descriptor k = None"
  shows "\<exists>t1. fetched t1 = fetched t @ [security_key_offset nk] \<and>
           libregf_key_item_read_security_key X k t (security_key_offset nk)
             = (1, k\<lparr>libregf_key_item.security_descriptor :=
                       libregf_security_key.security_descriptor security_key,
                     libregf_key_item.security_descriptor_size :=
                       libregf_security_key.security_descriptor_size security_key\<rparr>,
                t1) \<and>
           read_named_key_security_key X nk k t
             = (1, k\<lparr>libregf_key_item.security_descriptor :=
                       libregf_security_key.security_descriptor security_key,
                     libregf_key_item.security_descriptor_size :=
                       libregf_security_key.security_descriptor_size security_key\<rparr>,
                t1)"
proof -
  from get_cell_Some [OF assms(1,4), of t] obtain hive_bin_cell t1 where
    f: "libregf_hive_bins_list_get_cell_at_offset X t (security_key_offset nk)
          = (Some hive_bin_cell, t1)"
       "hive_bin_cell_data X t1 hive_bin_cell = data"
    and g: "fetched t1 = fetched t @ [security_key_offset nk]"
    by metis
  from assms(2,3,5,6) f have
    "libregf_key_item_read_security_key X k t (security_key_offset nk)
       = (1, k\<lparr>libregf_key_item.security_descriptor :=
                 libregf_security_key.security_descriptor security_key,
               libregf_key_item.security_descriptor_size :=
                 libregf_security_key.security_descriptor_size security_key\<rparr>,
          t1)"
    by (simp add: libregf_key_item_read_security_key_def)
  with assms(2) g show ?thesis
    by (auto simp: read_named_key_security_key_def)
qed

text \<open>
  C8. When the security key offset is \<^verbatim>\<open>0xffffffff\<close>, the security key block of
  the load returns 1 and leaves the key item and the store as they are, and a load that
  succeeds leaves the key item without a security descriptor. When the offset is
  another one and not 0, the store serves a cell at it and the decoder reads a security
  key from the cell, \<^verbatim>\<open>libregf_key_item_read_security_key\<close> fetches that cell and
  returns 1 with the descriptor and its size moved into the key item, and a load whose
  key cell is fetched and decoded and whose class name step returns 1 goes on to the
  sub keys and the values with that key item. A load that succeeds with such an offset
  has fetched the cell at it, which is not 0, decoded it into a security key and moved
  the descriptor and its size into the key item; and when the offset is 0, or the cell
  cannot be fetched, or cannot be decoded, the load returns \<open>-1\<close>.
\<close>

theorem security_key_loaded:
  assumes "store_serves X cells"
  shows "(security_key_offset nk = 0xffffffff \<longrightarrow>
            read_named_key_security_key X nk k t = (1, k, t)) \<and>
         (security_key_offset nk \<noteq> 0xffffffff \<and> security_key_offset nk \<noteq> 0 \<and>
          cells (security_key_offset nk) = Some data \<and>
          security_key_read_data X data = Some security_key \<and>
          libregf_key_item.security_descriptor k = None \<longrightarrow>
            (\<exists>t1. fetched t1 = fetched t @ [security_key_offset nk] \<and>
               libregf_key_item_read_security_key X k t (security_key_offset nk)
                 = (1, k\<lparr>libregf_key_item.security_descriptor :=
                           libregf_security_key.security_descriptor security_key,
                         libregf_key_item.security_descriptor_size :=
                           libregf_security_key.security_descriptor_size security_key\<rparr>,
                    t1) \<and>
               read_named_key_security_key X nk k t
                 = (1, k\<lparr>libregf_key_item.security_descriptor :=
                           libregf_security_key.security_descriptor security_key,
                         libregf_key_item.security_descriptor_size :=
                           libregf_security_key.security_descriptor_size security_key\<rparr>,
                    t1))) \<and>
         (security_key_offset nk \<noteq> 0xffffffff \<and> security_key_offset nk \<noteq> 0 \<and>
          cells (security_key_offset nk) = Some data \<and>
          security_key_read_data X data = Some security_key \<and>
          node_data_size \<le> 0xffffffff \<and> node_data_offset \<noteq> 0 \<and>
          node_data_offset < 0xffffffff \<and>
          libregf_hive_bins_list_get_cell_at_offset X s (word_of_int node_data_offset)
            = (Some hive_bin_cell, s2) \<and>
          named_key_read_data X (hive_bin_cell_data X s2 hive_bin_cell) (ucast node_data_size)
            = Some nk \<and>
          libregf_key_item_read_class_name X (cleared_key_item\<lparr>named_key := Some nk\<rparr>) s2
            (class_name_offset nk) (libregf_named_key.class_name_size nk)
            = (1, key_item2, s3) \<longrightarrow>
            (\<exists>s4. fetched s4 = fetched s3 @ [security_key_offset nk] \<and>
               libregf_key_item_read_node_data X node s node_data_offset node_data_size =
                 (case read_named_key_sub_keys X nk
                         (key_item2\<lparr>libregf_key_item.security_descriptor :=
                              libregf_security_key.security_descriptor security_key,
                            libregf_key_item.security_descriptor_size :=
                              libregf_security_key.security_descriptor_size security_key\<rparr>)
                         node of
                    (result4, key_item4, node4) \<Rightarrow>
                      if result4 \<noteq> 1 then Return (- 1) (node4, s4)
                      else
                        (case read_named_key_values X nk key_item4 s4 of
                           Return result5 (key_item5, s5) \<Rightarrow>
                             if result5 \<noteq> 1 then Return (- 1) (node4, s5)
                             else Return 1 (node4\<lparr>node_value := Some key_item5\<rparr>, s5)
                         | Read_Past_End \<Rightarrow> Read_Past_End
                         | No_Fuel \<Rightarrow> No_Fuel)))) \<and>
         (libregf_key_item_read_node_data X node s node_data_offset node_data_size
            = Return 1 (node1, s1) \<and>
          node_value node1 = Some key_item \<and> named_key key_item = Some nk \<longrightarrow>
            (if security_key_offset nk = 0xffffffff
               then libregf_key_item.security_descriptor key_item = None \<and>
                 libregf_key_item.security_descriptor_size key_item = 0
             else security_key_offset nk \<noteq> 0 \<and>
               (\<exists>data security_key.
                  cells (security_key_offset nk) = Some data \<and>
                  security_key_read_data X data = Some security_key \<and>
                  libregf_key_item.security_descriptor key_item
                    = libregf_security_key.security_descriptor security_key \<and>
                  libregf_key_item.security_descriptor_size key_item
                    = libregf_security_key.security_descriptor_size security_key \<and>
                  security_key_offset nk \<in> set (fetched s1)))) \<and>
         (cells (word_of_int node_data_offset) = Some key_data \<and>
          named_key_read_data X key_data (ucast node_data_size) = Some nk \<and>
          security_key_offset nk \<noteq> 0xffffffff \<and>
          (security_key_offset nk = 0 \<or> cells (security_key_offset nk) = None \<or>
           (\<exists>data. cells (security_key_offset nk) = Some data \<and>
                   security_key_read_data X data = None)) \<longrightarrow>
            (\<exists>st. libregf_key_item_read_node_data X node s node_data_offset node_data_size
                     = Return (- 1) st))"
proof -
  note old = read_node_data_security_key [OF assms, of nk k t node s node_data_offset
    node_data_size node1 s1 key_item key_data]
  have moved: "security_key_offset nk \<noteq> 0xffffffff \<and> security_key_offset nk \<noteq> 0 \<and>
          cells (security_key_offset nk) = Some data \<and>
          security_key_read_data X data = Some security_key \<and>
          libregf_key_item.security_descriptor k = None \<longrightarrow>
            (\<exists>t1. fetched t1 = fetched t @ [security_key_offset nk] \<and>
               libregf_key_item_read_security_key X k t (security_key_offset nk)
                 = (1, k\<lparr>libregf_key_item.security_descriptor :=
                           libregf_security_key.security_descriptor security_key,
                         libregf_key_item.security_descriptor_size :=
                           libregf_security_key.security_descriptor_size security_key\<rparr>,
                    t1) \<and>
               read_named_key_security_key X nk k t
                 = (1, k\<lparr>libregf_key_item.security_descriptor :=
                           libregf_security_key.security_descriptor security_key,
                         libregf_key_item.security_descriptor_size :=
                           libregf_security_key.security_descriptor_size security_key\<rparr>,
                    t1))"
    using read_security_key_moves [OF assms, of nk data security_key k t] by blast
  have goes_on: "\<exists>s4. fetched s4 = fetched s3 @ [security_key_offset nk] \<and>
               libregf_key_item_read_node_data X node s node_data_offset node_data_size =
                 (case read_named_key_sub_keys X nk
                         (key_item2\<lparr>libregf_key_item.security_descriptor :=
                              libregf_security_key.security_descriptor security_key,
                            libregf_key_item.security_descriptor_size :=
                              libregf_security_key.security_descriptor_size security_key\<rparr>)
                         node of
                    (result4, key_item4, node4) \<Rightarrow>
                      if result4 \<noteq> 1 then Return (- 1) (node4, s4)
                      else
                        (case read_named_key_values X nk key_item4 s4 of
                           Return result5 (key_item5, s5) \<Rightarrow>
                             if result5 \<noteq> 1 then Return (- 1) (node4, s5)
                             else Return 1 (node4\<lparr>node_value := Some key_item5\<rparr>, s5)
                         | Read_Past_End \<Rightarrow> Read_Past_End
                         | No_Fuel \<Rightarrow> No_Fuel))"
    if sec: "security_key_offset nk \<noteq> 0xffffffff" "security_key_offset nk \<noteq> 0"
        "cells (security_key_offset nk) = Some data"
        "security_key_read_data X data = Some security_key"
      and st: "node_data_size \<le> 0xffffffff" "node_data_offset \<noteq> 0"
        "node_data_offset < 0xffffffff"
        "libregf_hive_bins_list_get_cell_at_offset X s (word_of_int node_data_offset)
           = (Some hive_bin_cell, s2)"
        "named_key_read_data X (hive_bin_cell_data X s2 hive_bin_cell) (ucast node_data_size)
           = Some nk"
        "libregf_key_item_read_class_name X (cleared_key_item\<lparr>named_key := Some nk\<rparr>) s2
           (class_name_offset nk) (libregf_named_key.class_name_size nk)
           = (1, key_item2, s3)"
  proof -
    from read_class_name_keeps [OF st(6)]
    have none: "libregf_key_item.security_descriptor key_item2 = None"
      by (simp add: cleared_key_item_def)
    from read_security_key_moves [OF assms sec none, of s3] obtain s4 where
      g: "fetched s4 = fetched s3 @ [security_key_offset nk]"
      and r: "read_named_key_security_key X nk key_item2 s3
             = (1, key_item2\<lparr>libregf_key_item.security_descriptor :=
                       libregf_security_key.security_descriptor security_key,
                     libregf_key_item.security_descriptor_size :=
                       libregf_security_key.security_descriptor_size security_key\<rparr>,
                s4)"
      by blast
    from g show ?thesis
      unfolding read_node_data_composed [OF st r, of node] by (intro exI [of _ s4]) simp
  qed
  from old have a: "security_key_offset nk = 0xffffffff \<longrightarrow>
            read_named_key_security_key X nk k t = (1, k, t)" by blast
  from old have d: "libregf_key_item_read_node_data X node s node_data_offset node_data_size
            = Return 1 (node1, s1) \<and>
          node_value node1 = Some key_item \<and> named_key key_item = Some nk \<longrightarrow>
            (if security_key_offset nk = 0xffffffff
               then libregf_key_item.security_descriptor key_item = None \<and>
                 libregf_key_item.security_descriptor_size key_item = 0
             else security_key_offset nk \<noteq> 0 \<and>
               (\<exists>data security_key.
                  cells (security_key_offset nk) = Some data \<and>
                  security_key_read_data X data = Some security_key \<and>
                  libregf_key_item.security_descriptor key_item
                    = libregf_security_key.security_descriptor security_key \<and>
                  libregf_key_item.security_descriptor_size key_item
                    = libregf_security_key.security_descriptor_size security_key \<and>
                  security_key_offset nk \<in> set (fetched s1)))" by (elim conjE)
  from old have e: "cells (word_of_int node_data_offset) = Some key_data \<and>
          named_key_read_data X key_data (ucast node_data_size) = Some nk \<and>
          security_key_offset nk \<noteq> 0xffffffff \<and>
          (security_key_offset nk = 0 \<or> cells (security_key_offset nk) = None \<or>
           (\<exists>data. cells (security_key_offset nk) = Some data \<and>
                   security_key_read_data X data = None)) \<longrightarrow>
            (\<exists>st. libregf_key_item_read_node_data X node s node_data_offset node_data_size
                     = Return (- 1) st)" by (elim conjE)
  from goes_on have c: "security_key_offset nk \<noteq> 0xffffffff \<and> security_key_offset nk \<noteq> 0 \<and>
          cells (security_key_offset nk) = Some data \<and>
          security_key_read_data X data = Some security_key \<and>
          node_data_size \<le> 0xffffffff \<and> node_data_offset \<noteq> 0 \<and>
          node_data_offset < 0xffffffff \<and>
          libregf_hive_bins_list_get_cell_at_offset X s (word_of_int node_data_offset)
            = (Some hive_bin_cell, s2) \<and>
          named_key_read_data X (hive_bin_cell_data X s2 hive_bin_cell) (ucast node_data_size)
            = Some nk \<and>
          libregf_key_item_read_class_name X (cleared_key_item\<lparr>named_key := Some nk\<rparr>) s2
            (class_name_offset nk) (libregf_named_key.class_name_size nk)
            = (1, key_item2, s3) \<longrightarrow>
            (\<exists>s4. fetched s4 = fetched s3 @ [security_key_offset nk] \<and>
               libregf_key_item_read_node_data X node s node_data_offset node_data_size =
                 (case read_named_key_sub_keys X nk
                         (key_item2\<lparr>libregf_key_item.security_descriptor :=
                              libregf_security_key.security_descriptor security_key,
                            libregf_key_item.security_descriptor_size :=
                              libregf_security_key.security_descriptor_size security_key\<rparr>)
                         node of
                    (result4, key_item4, node4) \<Rightarrow>
                      if result4 \<noteq> 1 then Return (- 1) (node4, s4)
                      else
                        (case read_named_key_values X nk key_item4 s4 of
                           Return result5 (key_item5, s5) \<Rightarrow>
                             if result5 \<noteq> 1 then Return (- 1) (node4, s5)
                             else Return 1 (node4\<lparr>node_value := Some key_item5\<rparr>, s5)
                         | Read_Past_End \<Rightarrow> Read_Past_End
                         | No_Fuel \<Rightarrow> No_Fuel)))"
    by (intro impI) (elim conjE, assumption)
  from a moved c d e show ?thesis by (intro conjI)
qed

text \<open>
  C9. With a number of values of 0, \<^verbatim>\<open>libregf_key_item_read_values_list\<close> returns
  1 at once, whatever the offset, with the key item and the store as they were. A load
  that succeeds for a key without values leaves the values list empty, and the cells it
  has fetched are the key's cell, then the class name cell when the class name offset is
  neither 0 nor \<^verbatim>\<open>0xffffffff\<close>, then the security key cell when its offset is
  not \<^verbatim>\<open>0xffffffff\<close>: none for the values list, whatever its offset.
\<close>

theorem no_values_no_fetch:
  assumes "libregf_key_item_read_node_data X node s node_data_offset node_data_size
             = Return 1 (node1, s1)"
    and "node_value node1 = Some key_item"
    and "named_key key_item = Some nk"
    and "number_of_values nk = 0"
  shows "libregf_key_item_read_values_list X k t list_offset 0 = Return 1 (k, t) \<and>
         values_list key_item = Some [] \<and>
         fetched s1 = fetched s @ [word_of_int node_data_offset] @
           (if class_name_offset nk = 0 \<or> class_name_offset nk = 0xffffffff
              then [] else [class_name_offset nk]) @
           (if security_key_offset nk = 0xffffffff then [] else [security_key_offset nk])"
proof -
  from read_node_data_steps [OF assms(1)] obtain hive_bin_cell s2 nk1 key_item2 s3 key_item3
      s4 key_item4 node4 key_item5
    where st: "libregf_hive_bins_list_get_cell_at_offset X s (word_of_int node_data_offset)
             = (Some hive_bin_cell, s2)"
      "libregf_key_item_read_class_name X (cleared_key_item\<lparr>named_key := Some nk1\<rparr>)
          s2 (class_name_offset nk1) (libregf_named_key.class_name_size nk1)
          = (1, key_item2, s3)"
      "read_named_key_security_key X nk1 key_item2 s3 = (1, key_item3, s4)"
      "read_named_key_values X nk1 key_item4 s4 = Return 1 (key_item5, s1)"
      "node1 = node4\<lparr>node_value := Some key_item5\<rparr>"
      "named_key key_item5 = Some nk1"
    by blast
  from st(5,6) assms(2,3) have eq: "key_item5 = key_item" "nk1 = nk" by auto
  from read_named_key_values_loaded [OF st(4)] assms(4) eq
  have v: "values_list key_item = Some []" "s1 = s4" by simp_all
  from get_cell_fetched [OF st(1)] read_class_name_keeps [OF st(2)]
    read_security_key_keeps [OF st(3)] eq v
  have "fetched s1 = fetched s @ [word_of_int node_data_offset] @
           (if class_name_offset nk = 0 \<or> class_name_offset nk = 0xffffffff
              then [] else [class_name_offset nk]) @
           (if security_key_offset nk = 0xffffffff then [] else [security_key_offset nk])"
    by simp
  with v show ?thesis by (simp add: libregf_key_item_read_values_list_def)
qed

subsection \<open>Loads of the three keys\<close>

lemma key_store_serves: "store_serves key_store key_cells"
  unfolding key_store_def by (rule evicting_store_serves)

lemma load_32:
  "libregf_key_item_read_node_data key_store empty_node \<lparr>bins = [], fetched = []\<rparr> 32 0
   = Return 1
       (\<lparr>sub_nodes_data_range =
           Some \<lparr>range_file_index = 0, range_offset = 400, range_size = 0, range_flags = 0\<rparr>,
         sub_nodes = [],
         node_value = Some loaded_key_32\<rparr>,
        \<lparr>bins = [0x2C, 1, 0, 0, 0xEF, 0xBE, 0xAD, 0xDE], fetched = [32, 288, 320, 200]\<rparr>)"
  by code_simp

lemma load_64:
  "libregf_key_item_read_node_data key_store empty_node \<lparr>bins = [], fetched = []\<rparr> 64 0
   = Return 1
       (\<lparr>sub_nodes_data_range = None, sub_nodes = [], node_value = Some loaded_key_64\<rparr>,
        \<lparr>bins = [0x6e, 0x6b, 64], fetched = [64]\<rparr>)"
  by code_simp

lemma load_96:
  "libregf_key_item_read_node_data key_store empty_node \<lparr>bins = [], fetched = []\<rparr> 96 0
   = Return (- 1) (empty_node, \<lparr>bins = [0x6e, 0x6b, 96], fetched = [96, 500]\<rparr>)"
  by code_simp

theorem sub_keys_range_installed_witness:
  "libregf_key_item_read_node_data key_store empty_node \<lparr>bins = [], fetched = []\<rparr> 32 0
   = Return 1
       (\<lparr>sub_nodes_data_range =
           Some \<lparr>range_file_index = 0, range_offset = 400, range_size = 0, range_flags = 0\<rparr>,
         sub_nodes = [],
         node_value = Some loaded_key_32\<rparr>,
        \<lparr>bins = [0x2C, 1, 0, 0, 0xEF, 0xBE, 0xAD, 0xDE], fetched = [32, 288, 320, 200]\<rparr>) \<and>
   number_of_sub_keys key_32 = 2 \<and> sub_keys_list_offset key_32 = 400 \<and>
   libregf_hive_bins_list_get_index_at_offset key_store 400 = 1 \<and>
   read_named_key_sub_keys key_store key_32
     (cleared_key_item\<lparr>named_key := Some key_32, class_name := Some [0x41, 0, 0x42, 0],
        class_name_size := 4, security_descriptor := Some [1, 0, 4, 0x80],
        security_descriptor_size := 4\<rparr>)
     empty_node
   = (1,
      cleared_key_item\<lparr>named_key := Some key_32, class_name := Some [0x41, 0, 0x42, 0],
        class_name_size := 4, security_descriptor := Some [1, 0, 4, 0x80],
        security_descriptor_size := 4\<rparr>,
      empty_node\<lparr>sub_nodes_data_range :=
        Some \<lparr>range_file_index = 0, range_offset = 400, range_size = 0,
              range_flags = 0\<rparr>\<rparr>) \<and>
   libregf_key_item_read_node_data key_store empty_node \<lparr>bins = [], fetched = []\<rparr> 64 0
   = Return 1
       (\<lparr>sub_nodes_data_range = None, sub_nodes = [], node_value = Some loaded_key_64\<rparr>,
        \<lparr>bins = [0x6e, 0x6b, 64], fetched = [64]\<rparr>) \<and>
   number_of_sub_keys key_64 = 3 \<and> sub_keys_list_offset key_64 = 0xDEADBEEF \<and>
   libregf_hive_bins_list_get_index_at_offset key_store 0xDEADBEEF = 0 \<and>
   read_named_key_sub_keys key_store key_64 (cleared_key_item\<lparr>named_key := Some key_64\<rparr>)
     empty_node
   = (1,
      cleared_key_item\<lparr>named_key := Some key_64,
        item_flags := {LIBREGF_KEY_ITEM_FLAG_IS_CORRUPTED}\<rparr>,
      empty_node) \<and>
   LIBREGF_KEY_ITEM_FLAG_IS_CORRUPTED \<in> item_flags loaded_key_64 \<and>
   sub_nodes_data_range empty_node = None"
proof -
  let ?s = "\<lparr>bins = [], fetched = []\<rparr> :: (uint8_t list) hive"
  let ?n32 = "\<lparr>sub_nodes_data_range =
           Some \<lparr>range_file_index = 0, range_offset = 400, range_size = 0, range_flags = 0\<rparr>,
         sub_nodes = [],
         node_value = Some loaded_key_32\<rparr>"
  let ?n64 = "\<lparr>sub_nodes_data_range = None, sub_nodes = [],
                node_value = Some loaded_key_64\<rparr>"
  let ?t32 = "\<lparr>bins = [0x2C, 1, 0, 0, 0xEF, 0xBE, 0xAD, 0xDE],
               fetched = [32, 288, 320, 200]\<rparr> :: (uint8_t list) hive"
  let ?t64 = "\<lparr>bins = [0x6e, 0x6b, 64], fetched = [64]\<rparr> :: (uint8_t list) hive"
  let ?a1 = "\<lparr>bins = [0x6e, 0x6b, 32], fetched = [32]\<rparr> :: (uint8_t list) hive"
  let ?a2 = "\<lparr>bins = [0x41, 0, 0x42, 0, 0, 0, 0, 0], fetched = [32, 288]\<rparr>
               :: (uint8_t list) hive"
  let ?a3 = "\<lparr>bins = [0x73, 0x6b, 1, 0, 4, 0x80], fetched = [32, 288, 320]\<rparr>
               :: (uint8_t list) hive"
  let ?k2 = "cleared_key_item\<lparr>named_key := Some key_32,
               class_name := Some [0x41, 0, 0x42, 0], class_name_size := 4\<rparr>"
  let ?k3 = "cleared_key_item\<lparr>named_key := Some key_32,
               class_name := Some [0x41, 0, 0x42, 0], class_name_size := 4,
               security_descriptor := Some [1, 0, 4, 0x80],
               security_descriptor_size := 4\<rparr>"
  let ?j = "cleared_key_item\<lparr>named_key := Some key_64\<rparr>"
  have a2: "node_value ?n32 = Some loaded_key_32" by simp
  have a3: "named_key loaded_key_32 = Some key_32" by (simp add: loaded_key_32_def)
  have a4: "0 < number_of_sub_keys key_32" by (simp add: key_32_def)
  have a5: "sub_nodes_data_range empty_node = None" by (simp add: empty_node_def)
  have b2: "node_value ?n64 = Some loaded_key_64" by simp
  have b3: "named_key loaded_key_64 = Some key_64" by (simp add: loaded_key_64_def)
  have b4: "0 < number_of_sub_keys key_64" by (simp add: key_64_def)
  have c1: "number_of_sub_keys key_32 = 2" "sub_keys_list_offset key_32 = 400"
    by (simp_all add: key_32_def)
  have c2: "number_of_sub_keys key_64 = 3" "sub_keys_list_offset key_64 = 0xDEADBEEF"
    by (simp_all add: key_64_def)
  have p1: "libregf_hive_bins_list_get_index_at_offset key_store 400 = 1" by code_simp
  have p2: "libregf_hive_bins_list_get_index_at_offset key_store 0xDEADBEEF = 0" by code_simp
  have q1: "libregf_hive_bins_list_get_index_at_offset key_store
              (uint (sub_keys_list_offset key_32)) = 1" by code_simp
  have q2: "libregf_hive_bins_list_get_index_at_offset key_store
              (uint (sub_keys_list_offset key_64)) = 0" by code_simp
  have sz: "(0 :: size64_t) \<le> 0xffffffff" by simp
  have o32: "(32 :: int) \<noteq> 0" "(32 :: int) < 0xffffffff" by simp_all
  have o64: "(64 :: int) \<noteq> 0" "(64 :: int) < 0xffffffff" by simp_all
  have f32: "libregf_hive_bins_list_get_cell_at_offset key_store ?s (word_of_int 32)
               = (Some 0, ?a1)" by code_simp
  have d32: "named_key_read_data key_store (hive_bin_cell_data key_store ?a1 0)
               (ucast (0 :: size64_t)) = Some key_32" by code_simp
  have n32: "libregf_key_item_read_class_name key_store
               (cleared_key_item\<lparr>named_key := Some key_32\<rparr>) ?a1
               (class_name_offset key_32) (libregf_named_key.class_name_size key_32)
             = (1, ?k2, ?a2)" by code_simp
  have s32: "read_named_key_security_key key_store key_32 ?k2 ?a2 = (1, ?k3, ?a3)"
    by code_simp
  have f64: "libregf_hive_bins_list_get_cell_at_offset key_store ?s (word_of_int 64)
               = (Some 0, ?t64)" by code_simp
  have d64: "named_key_read_data key_store (hive_bin_cell_data key_store ?t64 0)
               (ucast (0 :: size64_t)) = Some key_64" by code_simp
  have n64: "libregf_key_item_read_class_name key_store ?j ?t64
               (class_name_offset key_64) (libregf_named_key.class_name_size key_64)
             = (1, ?j, ?t64)" by code_simp
  have s64: "read_named_key_security_key key_store key_64 ?j ?t64 = (1, ?j, ?t64)"
    by code_simp
  have v32: "read_named_key_values key_store key_32 ?k3 ?a3 = Return 1 (loaded_key_32, ?t32)"
    by code_simp
  have v64: "read_named_key_values key_store key_64
               (?j\<lparr>item_flags :=
                    insert LIBREGF_KEY_ITEM_FLAG_IS_CORRUPTED (item_flags ?j)\<rparr>) ?t64
             = Return 1 (loaded_key_64, ?t64)"
    by code_simp
  note t32 = sub_keys_range_installed [where X = key_store and nk = key_32
      and node = empty_node and s = ?s and node_data_offset = 32 and node_data_size = 0
      and hive_bin_cell = 0 and ?s1.0 = ?a1 and ?key_item2.0 = ?k2 and ?s2.0 = ?a2
      and ?key_item3.0 = ?k3 and ?s3.0 = ?a3 and ?node1.0 = ?n32 and ?t1.0 = ?t32
      and key_item = loaded_key_32]
  note t64 = sub_keys_range_installed [where X = key_store and nk = key_64
      and node = empty_node and s = ?s and node_data_offset = 64 and node_data_size = 0
      and hive_bin_cell = 0 and ?s1.0 = ?t64 and ?key_item2.0 = ?j and ?s2.0 = ?t64
      and ?key_item3.0 = ?j and ?s3.0 = ?t64 and ?node1.0 = ?n64 and ?t1.0 = ?t64
      and key_item = loaded_key_64]
  from t32 a4 a5 have "read_named_key_sub_keys key_store key_32 ?k3 empty_node =
      (if libregf_hive_bins_list_get_index_at_offset key_store
            (uint (sub_keys_list_offset key_32)) = - 1
         then (- 1, ?k3, empty_node)
       else if libregf_hive_bins_list_get_index_at_offset key_store
            (uint (sub_keys_list_offset key_32)) = 0
         then (1, ?k3\<lparr>item_flags :=
                    insert LIBREGF_KEY_ITEM_FLAG_IS_CORRUPTED (item_flags ?k3)\<rparr>,
               empty_node)
       else (1, ?k3,
             empty_node\<lparr>sub_nodes_data_range :=
                    Some \<lparr>range_file_index = 0,
                          range_offset = uint (sub_keys_list_offset key_32),
                          range_size = 0, range_flags = 0\<rparr>\<rparr>))"
    by blast
  then have blk32: "read_named_key_sub_keys key_store key_32 ?k3 empty_node
      = (1, ?k3,
         empty_node\<lparr>sub_nodes_data_range :=
           Some \<lparr>range_file_index = 0, range_offset = 400, range_size = 0,
                 range_flags = 0\<rparr>\<rparr>)"
    unfolding q1 by (simp add: c1)
  from t64 b4 a5 have "read_named_key_sub_keys key_store key_64 ?j empty_node =
      (if libregf_hive_bins_list_get_index_at_offset key_store
            (uint (sub_keys_list_offset key_64)) = - 1
         then (- 1, ?j, empty_node)
       else if libregf_hive_bins_list_get_index_at_offset key_store
            (uint (sub_keys_list_offset key_64)) = 0
         then (1, ?j\<lparr>item_flags :=
                    insert LIBREGF_KEY_ITEM_FLAG_IS_CORRUPTED (item_flags ?j)\<rparr>,
               empty_node)
       else (1, ?j,
             empty_node\<lparr>sub_nodes_data_range :=
                    Some \<lparr>range_file_index = 0,
                          range_offset = uint (sub_keys_list_offset key_64),
                          range_size = 0, range_flags = 0\<rparr>\<rparr>))"
    by blast
  then have blk64: "read_named_key_sub_keys key_store key_64 ?j empty_node
      = (1, ?j\<lparr>item_flags := {LIBREGF_KEY_ITEM_FLAG_IS_CORRUPTED}\<rparr>, empty_node)"
    unfolding q2 by (simp add: cleared_key_item_def)
  from t32 a4 a5 sz o32 f32 d32 n32 s32
  have "libregf_key_item_read_node_data key_store empty_node ?s 32 0 =
        (if libregf_hive_bins_list_get_index_at_offset key_store
              (uint (sub_keys_list_offset key_32)) = - 1
           then Return (- 1) (empty_node, ?a3)
         else
           (case read_named_key_values key_store key_32
                   (if libregf_hive_bins_list_get_index_at_offset key_store
                         (uint (sub_keys_list_offset key_32)) = 0
                      then ?k3\<lparr>item_flags :=
                             insert LIBREGF_KEY_ITEM_FLAG_IS_CORRUPTED (item_flags ?k3)\<rparr>
                    else ?k3) ?a3 of
              Return result5 (key_item5, s5) \<Rightarrow>
                if result5 \<noteq> 1
                  then Return (- 1)
                         (if libregf_hive_bins_list_get_index_at_offset key_store
                               (uint (sub_keys_list_offset key_32)) = 0
                            then empty_node
                          else empty_node\<lparr>sub_nodes_data_range :=
                                 Some \<lparr>range_file_index = 0,
                                       range_offset = uint (sub_keys_list_offset key_32),
                                       range_size = 0, range_flags = 0\<rparr>\<rparr>,
                          s5)
                else Return 1
                       (if libregf_hive_bins_list_get_index_at_offset key_store
                             (uint (sub_keys_list_offset key_32)) = 0
                          then empty_node\<lparr>node_value := Some key_item5\<rparr>
                        else empty_node\<lparr>sub_nodes_data_range :=
                               Some \<lparr>range_file_index = 0,
                                     range_offset = uint (sub_keys_list_offset key_32),
                                     range_size = 0, range_flags = 0\<rparr>,
                             node_value := Some key_item5\<rparr>,
                        s5)
            | Read_Past_End \<Rightarrow> Read_Past_End
            | No_Fuel \<Rightarrow> No_Fuel))"
    by blast
  then have l32: "libregf_key_item_read_node_data key_store empty_node ?s 32 0
      = Return 1 (?n32, ?t32)"
    unfolding q1 by (simp add: v32 c1 empty_node_def)
  from t64 b4 a5 sz o64 f64 d64 n64 s64
  have "libregf_key_item_read_node_data key_store empty_node ?s 64 0 =
        (if libregf_hive_bins_list_get_index_at_offset key_store
              (uint (sub_keys_list_offset key_64)) = - 1
           then Return (- 1) (empty_node, ?t64)
         else
           (case read_named_key_values key_store key_64
                   (if libregf_hive_bins_list_get_index_at_offset key_store
                         (uint (sub_keys_list_offset key_64)) = 0
                      then ?j\<lparr>item_flags :=
                             insert LIBREGF_KEY_ITEM_FLAG_IS_CORRUPTED (item_flags ?j)\<rparr>
                    else ?j) ?t64 of
              Return result5 (key_item5, s5) \<Rightarrow>
                if result5 \<noteq> 1
                  then Return (- 1)
                         (if libregf_hive_bins_list_get_index_at_offset key_store
                               (uint (sub_keys_list_offset key_64)) = 0
                            then empty_node
                          else empty_node\<lparr>sub_nodes_data_range :=
                                 Some \<lparr>range_file_index = 0,
                                       range_offset = uint (sub_keys_list_offset key_64),
                                       range_size = 0, range_flags = 0\<rparr>\<rparr>,
                          s5)
                else Return 1
                       (if libregf_hive_bins_list_get_index_at_offset key_store
                             (uint (sub_keys_list_offset key_64)) = 0
                          then empty_node\<lparr>node_value := Some key_item5\<rparr>
                        else empty_node\<lparr>sub_nodes_data_range :=
                               Some \<lparr>range_file_index = 0,
                                     range_offset = uint (sub_keys_list_offset key_64),
                                     range_size = 0, range_flags = 0\<rparr>,
                             node_value := Some key_item5\<rparr>,
                        s5)
            | Read_Past_End \<Rightarrow> Read_Past_End
            | No_Fuel \<Rightarrow> No_Fuel))"
    by blast
  then have l64: "libregf_key_item_read_node_data key_store empty_node ?s 64 0
      = Return 1 (?n64, ?t64)"
    using v64 unfolding q2 by (simp add: empty_node_def)
  from t64 b4 a5 l64 b2 b3 q2
  have f: "LIBREGF_KEY_ITEM_FLAG_IS_CORRUPTED \<in> item_flags loaded_key_64"
    by blast
  from l32 c1 p1 blk32 l64 c2 p2 blk64 f a5 show ?thesis by (intro conjI)
qed

theorem class_name_loaded_witness:
  "store_serves key_store key_cells \<and>
   libregf_key_item_read_node_data key_store empty_node \<lparr>bins = [], fetched = []\<rparr> 32 0
   = Return 1
       (\<lparr>sub_nodes_data_range =
           Some \<lparr>range_file_index = 0, range_offset = 400, range_size = 0, range_flags = 0\<rparr>,
         sub_nodes = [],
         node_value = Some loaded_key_32\<rparr>,
        \<lparr>bins = [0x2C, 1, 0, 0, 0xEF, 0xBE, 0xAD, 0xDE], fetched = [32, 288, 320, 200]\<rparr>) \<and>
   class_name_offset key_32 = 288 \<and> libregf_named_key.class_name_size key_32 = 4 \<and>
   key_cells 288 = Some [0x41, 0, 0x42, 0, 0, 0, 0, 0] \<and>
   class_name loaded_key_32 = Some (take 4 [0x41, 0, 0x42, 0, 0, 0, 0, 0]) \<and>
   libregf_key_item_read_node_data key_store empty_node \<lparr>bins = [], fetched = []\<rparr> 64 0
   = Return 1
       (\<lparr>sub_nodes_data_range = None, sub_nodes = [], node_value = Some loaded_key_64\<rparr>,
        \<lparr>bins = [0x6e, 0x6b, 64], fetched = [64]\<rparr>) \<and>
   class_name_offset key_64 = 0xffffffff \<and> class_name loaded_key_64 = None \<and>
   libregf_key_item_read_class_name key_store cleared_key_item \<lparr>bins = [], fetched = []\<rparr>
     0 2 = (- 1, cleared_key_item, \<lparr>bins = [], fetched = []\<rparr>)"
proof -
  let ?n32 = "\<lparr>sub_nodes_data_range =
           Some \<lparr>range_file_index = 0, range_offset = 400, range_size = 0, range_flags = 0\<rparr>,
         sub_nodes = [],
         node_value = Some loaded_key_32\<rparr>"
  let ?n64 = "\<lparr>sub_nodes_data_range = None, sub_nodes = [],
                node_value = Some loaded_key_64\<rparr>"
  have a2: "node_value ?n32 = Some loaded_key_32" by simp
  have a3: "named_key loaded_key_32 = Some key_32" by (simp add: loaded_key_32_def)
  have b2: "node_value ?n64 = Some loaded_key_64" by simp
  have b3: "named_key loaded_key_64 = Some key_64" by (simp add: loaded_key_64_def)
  have c1: "class_name_offset key_32 = 288" "libregf_named_key.class_name_size key_32 = 4"
    by (simp_all add: key_32_def)
  have c2: "class_name_offset key_64 = 0xffffffff" by (simp add: key_64_def)
  have d1: "key_cells 288 = Some [0x41, 0, 0x42, 0, 0, 0, 0, 0]" by (simp add: key_cells_def)
  have e1: "class_name loaded_key_32 = Some (take 4 [0x41, 0, 0x42, 0, 0, 0, 0, 0])"
    by (simp add: loaded_key_32_def)
  have e2: "class_name loaded_key_64 = None" by (simp add: loaded_key_64_def)
  have n: "class_name cleared_key_item = None" by (simp add: cleared_key_item_def)
  note t32 = class_name_loaded [OF key_store_serves load_32 a2 a3,
      where k = cleared_key_item and t = "\<lparr>bins = [], fetched = []\<rparr>" and name_size = 2]
  note t64 = class_name_loaded [OF key_store_serves load_64 b2 b3,
      where k = cleared_key_item and t = "\<lparr>bins = [], fetched = []\<rparr>" and name_size = 2]
  from t32 n have p: "libregf_key_item_read_class_name key_store cleared_key_item
      \<lparr>bins = [], fetched = []\<rparr> 0 2 = (- 1, cleared_key_item, \<lparr>bins = [], fetched = []\<rparr>)"
    by simp
  from t64 key_store_serves load_32 load_64 c1 c2 d1 e1 e2 p show ?thesis by blast
qed

theorem security_key_loaded_witness:
  "store_serves key_store key_cells \<and>
   libregf_key_item_read_node_data key_store empty_node \<lparr>bins = [], fetched = []\<rparr> 32 0
   = Return 1
       (\<lparr>sub_nodes_data_range =
           Some \<lparr>range_file_index = 0, range_offset = 400, range_size = 0, range_flags = 0\<rparr>,
         sub_nodes = [],
         node_value = Some loaded_key_32\<rparr>,
        \<lparr>bins = [0x2C, 1, 0, 0, 0xEF, 0xBE, 0xAD, 0xDE], fetched = [32, 288, 320, 200]\<rparr>) \<and>
   security_key_offset key_32 = 320 \<and>
   key_cells 320 = Some [0x73, 0x6b, 1, 0, 4, 0x80] \<and>
   security_key_read_data key_store [0x73, 0x6b, 1, 0, 4, 0x80]
     = Some \<lparr>libregf_security_key.security_descriptor = Some [1, 0, 4, 0x80],
             libregf_security_key.security_descriptor_size = 4\<rparr> \<and>
   (\<exists>t1. fetched t1 = [32, 288, 320] \<and>
      libregf_key_item_read_security_key key_store
        (cleared_key_item\<lparr>named_key := Some key_32,
           class_name := Some [0x41, 0, 0x42, 0], class_name_size := 4\<rparr>)
        \<lparr>bins = [0x41, 0, 0x42, 0, 0, 0, 0, 0], fetched = [32, 288]\<rparr> 320
      = (1,
         cleared_key_item\<lparr>named_key := Some key_32,
           class_name := Some [0x41, 0, 0x42, 0], class_name_size := 4,
           security_descriptor := Some [1, 0, 4, 0x80], security_descriptor_size := 4\<rparr>,
         t1)) \<and>
   (\<exists>s4. fetched s4 = [32, 288, 320] \<and>
      libregf_key_item_read_node_data key_store empty_node \<lparr>bins = [], fetched = []\<rparr> 32 0 =
        (case read_named_key_values key_store key_32
                (cleared_key_item\<lparr>named_key := Some key_32,
                   class_name := Some [0x41, 0, 0x42, 0], class_name_size := 4,
                   security_descriptor := Some [1, 0, 4, 0x80],
                   security_descriptor_size := 4\<rparr>)
                s4 of
           Return result5 (key_item5, s5) \<Rightarrow>
             if result5 \<noteq> 1
               then Return (- 1)
                      (empty_node\<lparr>sub_nodes_data_range :=
                         Some \<lparr>range_file_index = 0, range_offset = 400, range_size = 0,
                               range_flags = 0\<rparr>\<rparr>,
                       s5)
             else Return 1
                    (empty_node\<lparr>sub_nodes_data_range :=
                       Some \<lparr>range_file_index = 0, range_offset = 400, range_size = 0,
                             range_flags = 0\<rparr>,
                       node_value := Some key_item5\<rparr>,
                     s5)
         | Read_Past_End \<Rightarrow> Read_Past_End
         | No_Fuel \<Rightarrow> No_Fuel)) \<and>
   libregf_key_item.security_descriptor loaded_key_32 = Some [1, 0, 4, 0x80] \<and>
   libregf_key_item_read_node_data key_store empty_node \<lparr>bins = [], fetched = []\<rparr> 64 0
   = Return 1
       (\<lparr>sub_nodes_data_range = None, sub_nodes = [], node_value = Some loaded_key_64\<rparr>,
        \<lparr>bins = [0x6e, 0x6b, 64], fetched = [64]\<rparr>) \<and>
   security_key_offset key_64 = 0xffffffff \<and>
   libregf_key_item.security_descriptor loaded_key_64 = None \<and>
   key_cells 96 = Some [0x6e, 0x6b, 96] \<and>
   named_key_read_data key_store [0x6e, 0x6b, 96] 0 = Some key_96 \<and>
   security_key_offset key_96 = 500 \<and> key_cells 500 = None \<and>
   libregf_key_item_read_node_data key_store empty_node \<lparr>bins = [], fetched = []\<rparr> 96 0
   = Return (- 1) (empty_node, \<lparr>bins = [0x6e, 0x6b, 96], fetched = [96, 500]\<rparr>)"
proof -
  let ?s = "\<lparr>bins = [], fetched = []\<rparr> :: (uint8_t list) hive"
  let ?n32 = "\<lparr>sub_nodes_data_range =
           Some \<lparr>range_file_index = 0, range_offset = 400, range_size = 0, range_flags = 0\<rparr>,
         sub_nodes = [],
         node_value = Some loaded_key_32\<rparr>"
  let ?n64 = "\<lparr>sub_nodes_data_range = None, sub_nodes = [],
                node_value = Some loaded_key_64\<rparr>"
  let ?a1 = "\<lparr>bins = [0x6e, 0x6b, 32], fetched = [32]\<rparr> :: (uint8_t list) hive"
  let ?a2 = "\<lparr>bins = [0x41, 0, 0x42, 0, 0, 0, 0, 0], fetched = [32, 288]\<rparr>
               :: (uint8_t list) hive"
  let ?k2 = "cleared_key_item\<lparr>named_key := Some key_32,
               class_name := Some [0x41, 0, 0x42, 0], class_name_size := 4\<rparr>"
  let ?sk = "\<lparr>libregf_security_key.security_descriptor = Some [1, 0, 4, 0x80],
              libregf_security_key.security_descriptor_size = 4\<rparr>"
  let ?k3 = "cleared_key_item\<lparr>named_key := Some key_32,
               class_name := Some [0x41, 0, 0x42, 0], class_name_size := 4,
               security_descriptor := Some [1, 0, 4, 0x80],
               security_descriptor_size := 4\<rparr>"
  let ?n400 = "empty_node\<lparr>sub_nodes_data_range :=
                 Some \<lparr>range_file_index = 0, range_offset = 400, range_size = 0,
                       range_flags = 0\<rparr>\<rparr>"
  have blk: "read_named_key_sub_keys key_store key_32 ?k3 empty_node = (1, ?k3, ?n400)"
    by code_simp
  have c1: "security_key_offset key_32 = 320" by (simp add: key_32_def)
  have c2: "security_key_offset key_64 = 0xffffffff" by (simp add: key_64_def)
  have c3: "security_key_offset key_96 = 500" by (simp add: key_96_def)
  have d1: "key_cells 320 = Some [0x73, 0x6b, 1, 0, 4, 0x80]" by (simp add: key_cells_def)
  have d2: "key_cells 96 = Some [0x6e, 0x6b, 96]" by (simp add: key_cells_def)
  have d3: "key_cells 500 = None" by (simp add: key_cells_def)
  have d4: "named_key_read_data key_store [0x6e, 0x6b, 96] 0 = Some key_96"
    by (simp add: key_store_def evicting_store_def key_decoder_def)
  have d5: "security_key_read_data key_store [0x73, 0x6b, 1, 0, 4, 0x80] = Some ?sk"
    by (simp add: key_store_def evicting_store_def security_decoder_def)
  have e1: "libregf_key_item.security_descriptor loaded_key_32 = Some [1, 0, 4, 0x80]"
    by (simp add: loaded_key_32_def)
  have e2: "libregf_key_item.security_descriptor loaded_key_64 = None"
    by (simp add: loaded_key_64_def)
  have e3: "libregf_key_item.security_descriptor ?k2 = None"
    by (simp add: cleared_key_item_def)
  have ne: "(320 :: uint32_t) \<noteq> 0xffffffff" "(320 :: uint32_t) \<noteq> 0" by simp_all
  have sz: "(0 :: size64_t) \<le> 0xffffffff" by simp
  have o32: "(32 :: int) \<noteq> 0" "(32 :: int) < 0xffffffff" by simp_all
  have f32: "libregf_hive_bins_list_get_cell_at_offset key_store ?s (word_of_int 32)
               = (Some 0, ?a1)" by code_simp
  have g32: "named_key_read_data key_store (hive_bin_cell_data key_store ?a1 0)
               (ucast (0 :: size64_t)) = Some key_32" by code_simp
  have n32: "libregf_key_item_read_class_name key_store
               (cleared_key_item\<lparr>named_key := Some key_32\<rparr>) ?a1
               (class_name_offset key_32) (libregf_named_key.class_name_size key_32)
             = (1, ?k2, ?a2)" by code_simp
  note t32 = security_key_loaded [OF key_store_serves,
      where nk = key_32 and node = empty_node and s = ?s
        and node_data_offset = 32 and node_data_size = 0 and ?node1.0 = ?n32
        and key_item = loaded_key_32 and k = ?k2 and t = ?a2
        and data = "[0x73, 0x6b, 1, 0, 4, 0x80]" and security_key = ?sk
        and hive_bin_cell = 0 and ?s2.0 = ?a1 and ?key_item2.0 = ?k2 and ?s3.0 = ?a2,
      unfolded c1]
  note t64 = security_key_loaded [OF key_store_serves,
      where nk = key_64 and node = empty_node and s = ?s
        and node_data_offset = 64 and node_data_size = 0 and ?node1.0 = ?n64
        and key_item = loaded_key_64]
  note t96 = security_key_loaded [OF key_store_serves,
      where nk = key_96 and node = empty_node and s = ?s
        and node_data_offset = 96 and node_data_size = 0 and key_data = "[0x6e, 0x6b, 96]"]
  from t32 ne d1 d5 e3
  have "\<exists>t1. fetched t1 = fetched ?a2 @ [320] \<and>
      libregf_key_item_read_security_key key_store ?k2 ?a2 320
        = (1, ?k2\<lparr>libregf_key_item.security_descriptor :=
                    libregf_security_key.security_descriptor ?sk,
                  libregf_key_item.security_descriptor_size :=
                    libregf_security_key.security_descriptor_size ?sk\<rparr>,
           t1) \<and>
      read_named_key_security_key key_store key_32 ?k2 ?a2
        = (1, ?k2\<lparr>libregf_key_item.security_descriptor :=
                    libregf_security_key.security_descriptor ?sk,
                  libregf_key_item.security_descriptor_size :=
                    libregf_security_key.security_descriptor_size ?sk\<rparr>,
           t1)"
    by blast
  then have m: "\<exists>t1. fetched t1 = [32, 288, 320] \<and>
      libregf_key_item_read_security_key key_store ?k2 ?a2 320
      = (1,
         cleared_key_item\<lparr>named_key := Some key_32,
           class_name := Some [0x41, 0, 0x42, 0], class_name_size := 4,
           security_descriptor := Some [1, 0, 4, 0x80], security_descriptor_size := 4\<rparr>,
         t1)"
    by auto
  from t32 ne d1 d5 sz o32 f32 g32 n32
  have "\<exists>s4. fetched s4 = fetched ?a2 @ [320] \<and>
      libregf_key_item_read_node_data key_store empty_node ?s 32 0 =
        (case read_named_key_sub_keys key_store key_32
                (?k2\<lparr>libregf_key_item.security_descriptor :=
                     libregf_security_key.security_descriptor ?sk,
                   libregf_key_item.security_descriptor_size :=
                     libregf_security_key.security_descriptor_size ?sk\<rparr>)
                empty_node of
           (result4, key_item4, node4) \<Rightarrow>
             if result4 \<noteq> 1 then Return (- 1) (node4, s4)
             else
               (case read_named_key_values key_store key_32 key_item4 s4 of
                  Return result5 (key_item5, s5) \<Rightarrow>
                    if result5 \<noteq> 1 then Return (- 1) (node4, s5)
                    else Return 1 (node4\<lparr>node_value := Some key_item5\<rparr>, s5)
                | Read_Past_End \<Rightarrow> Read_Past_End
                | No_Fuel \<Rightarrow> No_Fuel))"
    by blast
  then have g: "\<exists>s4. fetched s4 = [32, 288, 320] \<and>
      libregf_key_item_read_node_data key_store empty_node ?s 32 0 =
        (case read_named_key_values key_store key_32 ?k3 s4 of
           Return result5 (key_item5, s5) \<Rightarrow>
             if result5 \<noteq> 1 then Return (- 1) (?n400, s5)
             else Return 1 (?n400\<lparr>node_value := Some key_item5\<rparr>, s5)
         | Read_Past_End \<Rightarrow> Read_Past_End
         | No_Fuel \<Rightarrow> No_Fuel)"
    using blk by auto
  from t32 t64 t96 key_store_serves load_32 load_64 load_96 c1 c2 c3 d1 d2 d3 d4 e1 e2
  have rest: "libregf_key_item.security_descriptor loaded_key_64 = None \<and>
      libregf_key_item_read_node_data key_store empty_node ?s 96 0
        = Return (- 1) (empty_node, \<lparr>bins = [0x6e, 0x6b, 96], fetched = [96, 500]\<rparr>)"
    by blast
  from key_store_serves load_32 c1 d1 d5 m g e1 load_64 c2 e2 d2 d4 c3 d3 load_96
  show ?thesis by (intro conjI)
qed

theorem no_values_no_fetch_witness:
  "libregf_key_item_read_node_data key_store empty_node \<lparr>bins = [], fetched = []\<rparr> 64 0
   = Return 1
       (\<lparr>sub_nodes_data_range = None, sub_nodes = [], node_value = Some loaded_key_64\<rparr>,
        \<lparr>bins = [0x6e, 0x6b, 64], fetched = [64]\<rparr>) \<and>
   number_of_values key_64 = 0 \<and> values_list_offset key_64 = 200 \<and>
   key_cells 200 = Some [0x2C, 1, 0, 0, 0xEF, 0xBE, 0xAD, 0xDE] \<and>
   values_list loaded_key_64 = Some [] \<and>
   libregf_key_item_read_values_list key_store listed_key_item
     \<lparr>bins = [], fetched = []\<rparr> 200 0
   = Return 1 (listed_key_item, \<lparr>bins = [], fetched = []\<rparr>)"
proof -
  let ?n64 = "\<lparr>sub_nodes_data_range = None, sub_nodes = [],
                node_value = Some loaded_key_64\<rparr>"
  have b2: "node_value ?n64 = Some loaded_key_64" by simp
  have b3: "named_key loaded_key_64 = Some key_64" by (simp add: loaded_key_64_def)
  have b4: "number_of_values key_64 = 0" by (simp add: key_64_def)
  have c: "values_list_offset key_64 = 200" by (simp add: key_64_def)
  have d: "key_cells 200 = Some [0x2C, 1, 0, 0, 0xEF, 0xBE, 0xAD, 0xDE]"
    by (simp add: key_cells_def)
  note t = no_values_no_fetch [OF load_64 b2 b3 b4,
      where k = listed_key_item and t = "\<lparr>bins = [], fetched = []\<rparr>" and list_offset = 200]
  from t load_64 b4 c d show ?thesis by blast
qed

end
